theory Spec2Isabelle
  imports Complex_Main
begin

section \<open>JavaScript values\<close>

text \<open>
  A JavaScript number is a double: a finite value (kept as the rational it denotes),
  \<open>NaN\<close> or one of the two infinities. A parameter that may be missing is a
  \<open>jsval\<close>: \<open>undefined\<close>, \<open>null\<close> or a value of the type its JSDoc declares.
\<close>

datatype jsnum = Fin rat | NaN | PosInf | NegInf

datatype 'a jsval = Undefined | Null | Val 'a

text \<open>An \<open>Error\<close> object; the payment route classifies errors by their message only.\<close>

datatype error = Error (message: string)

text \<open>Template interpolation \<open>${x}\<close>; the text of a number is the engine's business.\<close>

fun template :: "('a \<Rightarrow> string) \<Rightarrow> 'a jsval \<Rightarrow> string" where
  "template f Undefined = ''undefined''"
| "template f Null = ''null''"
| "template f (Val v) = f v"

text \<open>\<open>String.prototype.includes\<close>.\<close>

fun starts_with :: "string \<Rightarrow> string \<Rightarrow> bool" where
  "starts_with s [] = True"
| "starts_with [] (p # ps) = False"
| "starts_with (c # cs) (p # ps) = (c = p \<and> starts_with cs ps)"

fun str_includes :: "string \<Rightarrow> string \<Rightarrow> bool" where
  "str_includes [] pat = (pat = [])"
| "str_includes (c # cs) pat = (starts_with (c # cs) pat \<or> str_includes cs pat)"

text \<open>\<open>String.prototype.toLowerCase\<close> on the characters of a byte string.\<close>

definition lower_char :: "char \<Rightarrow> char" where
  "lower_char c =
     (case map_of (zip ''ABCDEFGHIJKLMNOPQRSTUVWXYZ'' ''abcdefghijklmnopqrstuvwxyz'') c of
        Some l \<Rightarrow> l
      | None \<Rightarrow> c)"

definition toLowerCase :: "string \<Rightarrow> string" where
  "toLowerCase s = map lower_char s"

section \<open>Validators (utils/validator.js)\<close>

definition isInteger :: "jsnum \<Rightarrow> bool" where
  "isInteger n = (case n of Fin r \<Rightarrow> of_int \<lfloor>r\<rfloor> = r | _ \<Rightarrow> False)"

definition isValidUserId :: "jsnum jsval \<Rightarrow> bool" where
  "isValidUserId userId =
     (case userId of
        Undefined \<Rightarrow> False
      | Null \<Rightarrow> False
      | Val n \<Rightarrow> isInteger n \<and> (case n of Fin r \<Rightarrow> r > 0 | PosInf \<Rightarrow> True | _ \<Rightarrow> False))"

text \<open>The double that the literal \<open>0.01\<close> denotes.\<close>

definition lit_0_01 :: rat where
  "lit_0_01 = 5764607523034235 / 576460752303423488"

definition isValidAmount :: "jsnum jsval \<Rightarrow> bool" where
  "isValidAmount amount =
     (case amount of
        Undefined \<Rightarrow> False
      | Null \<Rightarrow> False
      | Val num \<Rightarrow>
          (case num of
             Fin r \<Rightarrow> r > 0 \<and> r \<le> 10000000 \<and> r \<ge> lit_0_01
           | _ \<Rightarrow> False))"

definition validMethods :: "string list" where
  "validMethods =
     [''card'', ''credit_card'', ''debit_card'', ''bank_transfer'', ''mobile'', ''paypal'']"

definition isValidPaymentMethod :: "string jsval \<Rightarrow> bool" where
  "isValidPaymentMethod method =
     (case method of
        Val m \<Rightarrow> m \<noteq> [] \<and> toLowerCase m \<in> set validMethods
      | _ \<Rightarrow> False)"

section \<open>The payment tables (db/schema.sql)\<close>

datatype status = Pending | Completed | Failed | Cancelled

record payment =
  payment_id :: string
  order_id :: "jsnum jsval"
  user_id :: "jsnum jsval"
  amount :: "jsnum jsval"
  payment_method :: "string jsval"
  status :: status
  transaction_id :: "string option"
  gateway_response :: "string option"
  idempotency_key :: "string jsval"

record cancellation =
  cancellation_id :: string
  cancelled_payment :: string
  reason :: string
  cancelled_by :: "jsnum option"

record db =
  payments :: "payment list"
  payment_cancellations :: "cancellation list"

section \<open>What a call meets outside the code\<close>

text \<open>
  Every await of the service may reject. A call's environment says which ones do, and
  supplies what the code draws from the clock, the random source and the engine:
  \<^item> \<open>conn_fault\<close>, \<open>begin_fault\<close>, \<open>commit_fault\<close>, \<open>rollback_fault\<close>: the connection
    pool and the transaction commands;
  \<^item> \<open>insert_fault\<close>, \<open>update_fault\<close>, \<open>select_fault\<close>: a statement rejected for a reason
    other than the uniqueness constraints of the schema, which the tables decide;
  \<^item> \<open>new_id\<close>: the text \<open>${Date.now()}_${generateRandomToken(8)}\<close>, or the error of the
    token generator;
  \<^item> \<open>gateway_roll\<close>: \<open>Math.random() > 0.1\<close>; \<open>gateway_txn\<close>: the identifier
    \<open>TXN_${Date.now()}_${generateRandomToken(12)}\<close> or the generator's error;
  \<^item> \<open>num_text\<close>: the text of a number in a template.
\<close>

record env =
  conn_fault :: "error option"
  begin_fault :: "error option"
  insert_fault :: "error option"
  update_fault :: "error option"
  select_fault :: "error option"
  commit_fault :: "error option"
  rollback_fault :: "error option"
  new_id :: "error + string"
  gateway_roll :: bool
  gateway_txn :: "error + string"
  num_text :: "jsnum \<Rightarrow> string"

section \<open>Payment service (services/paymentService.js)\<close>

text \<open>
  The object \<open>cardPaymentResult\<close> with the fields the service and the route read, and
  the outcome of the gateway step.
\<close>

record card_result =
  cr_success :: bool
  cr_transactionId :: string
  cr_error :: string

datatype gateway_result = GwSuccess string | GwFailure string

record pay_result =
  res_paymentId :: string
  res_status :: status
  res_transactionId :: "string option"
  res_errorMessage :: "string option"

text \<open>The message of the database for a violated \<open>UNIQUE\<close> key.\<close>

definition dup_entry :: "string \<Rightarrow> string \<Rightarrow> string" where
  "dup_entry v k = ''Duplicate entry '' @ [CHR 0x27] @ v @ [CHR 0x27] @ '' for key '' @
     [CHR 0x27] @ k @ [CHR 0x27]"

text \<open>
  \<open>INSERT INTO payments\<close>: \<open>payment_id\<close> and \<open>idempotency_key\<close> are \<open>UNIQUE NOT NULL\<close>.
\<close>

definition insert_payment :: "env \<Rightarrow> payment \<Rightarrow> payment list \<Rightarrow> error + payment list" where
  "insert_payment e row tbl =
     (case insert_fault e of
        Some err \<Rightarrow> Inl err
      | None \<Rightarrow>
          if payment_id row \<in> payment_id ` set tbl
          then Inl (Error (dup_entry (payment_id row) ''payments.payment_id''))
          else if idempotency_key row \<in> idempotency_key ` set tbl
          then Inl (Error (dup_entry (template id (idempotency_key row))
                 ''payments.idempotency_key''))
          else Inr (tbl @ [row]))"

text \<open>The validation block at the head of \<open>createPayment\<close>: the first failing check throws.\<close>

definition validate_payment ::
  "env \<Rightarrow> jsnum jsval \<Rightarrow> jsnum jsval \<Rightarrow> jsnum jsval \<Rightarrow> string jsval \<Rightarrow> string jsval
     \<Rightarrow> error option" where
  "validate_payment e orderId userId amt paymentMethod key =
     (if \<not> isValidUserId orderId
        then Some (Error (''Invalid order_id: '' @ template (num_text e) orderId))
      else if \<not> isValidUserId userId
        then Some (Error (''Invalid user_id: '' @ template (num_text e) userId))
      else if \<not> isValidAmount amt
        then Some (Error (''Invalid amount: '' @ template (num_text e) amt))
      else if \<not> isValidPaymentMethod paymentMethod
        then Some (Error (''Invalid payment_method: '' @ template id paymentMethod))
      else if (case key of Val k \<Rightarrow> k = [] | _ \<Rightarrow> True)
        then Some (Error (''Invalid idempotency_key: '' @ template id key))
      else None)"

definition processPaymentGateway :: "env \<Rightarrow> error + gateway_result" where
  "processPaymentGateway e =
     (if gateway_roll e
      then (case gateway_txn e of Inl err \<Rightarrow> Inl err | Inr t \<Rightarrow> Inr (GwSuccess t))
      else Inr (GwFailure ''Payment declined by gateway''))"

text \<open>\<open>UPDATE payments SET status = ?, ... WHERE payment_id = ?\<close> and the row count it reports.\<close>

definition update_payment :: "string \<Rightarrow> (payment \<Rightarrow> payment) \<Rightarrow> payment list \<Rightarrow> payment list" where
  "update_payment pid f tbl = map (\<lambda>p. if payment_id p = pid then f p else p) tbl"

definition affectedRows :: "string \<Rightarrow> payment list \<Rightarrow> nat" where
  "affectedRows pid tbl = length (filter (\<lambda>p. payment_id p = pid) tbl)"

definition approvePayment :: "env \<Rightarrow> string \<Rightarrow> string \<Rightarrow> payment list \<Rightarrow> error + payment list" where
  "approvePayment e pid txn tbl =
     (case update_fault e of
        Some err \<Rightarrow> Inl err
      | None \<Rightarrow>
          let tbl' = update_payment pid
                (\<lambda>p. p\<lparr>status := Completed, transaction_id := Some txn\<rparr>) tbl
          in if affectedRows pid tbl = 0 then Inl (Error ''Payment not found'')
             else (case select_fault e of
                     Some err \<Rightarrow> Inl err
                   | None \<Rightarrow>
                       if filter (\<lambda>p. payment_id p = pid) tbl' = []
                       then Inl (Error ''Payment not found'')
                       else Inr tbl'))"

definition failPayment :: "env \<Rightarrow> string \<Rightarrow> string \<Rightarrow> payment list \<Rightarrow> error + payment list" where
  "failPayment e pid msg tbl =
     (case update_fault e of
        Some err \<Rightarrow> Inl err
      | None \<Rightarrow>
          let tbl' = update_payment pid
                (\<lambda>p. p\<lparr>status := Failed, gateway_response := Some msg\<rparr>) tbl
          in if affectedRows pid tbl = 0 then Inl (Error ''Payment not found'')
             else (case select_fault e of
                     Some err \<Rightarrow> Inl err
                   | None \<Rightarrow>
                       if filter (\<lambda>p. payment_id p = pid) tbl' = []
                       then Inl (Error ''Payment not found'')
                       else Inr tbl'))"

text \<open>
  The gateway step of \<open>createPayment\<close>: a card result that is present is turned into a
  successful gateway result; otherwise the simulated gateway is asked.
\<close>

definition gateway_step :: "env \<Rightarrow> card_result option \<Rightarrow> error + gateway_result" where
  "gateway_step e cardPaymentResult =
     (case cardPaymentResult of
        Some c \<Rightarrow> Inr (GwSuccess (cr_transactionId c))
      | None \<Rightarrow> processPaymentGateway e)"

text \<open>
  The statements of \<open>createPayment\<close> between \<open>beginTransaction\<close> and \<open>commit\<close>, on the
  transaction's view of the table. \<open>Inl\<close> is an exception before the commit returned.
\<close>

definition payment_transaction ::
  "env \<Rightarrow> payment list \<Rightarrow> jsnum jsval \<Rightarrow> jsnum jsval \<Rightarrow> jsnum jsval \<Rightarrow> string jsval
     \<Rightarrow> string jsval \<Rightarrow> card_result option \<Rightarrow> error + (payment list \<times> pay_result)" where
  "payment_transaction e tbl orderId userId amt paymentMethod key cardPaymentResult =
     (case begin_fault e of
        Some err \<Rightarrow> Inl err
      | None \<Rightarrow>
     (case new_id e of
        Inl err \<Rightarrow> Inl err
      | Inr tok \<Rightarrow>
     (let pid = ''PAY_'' @ tok in
      case insert_payment e
             \<lparr>payment_id = pid, order_id = orderId, user_id = userId, amount = amt,
              payment_method = paymentMethod, status = Pending, transaction_id = None,
              gateway_response = None, idempotency_key = key\<rparr> tbl of
        Inl err \<Rightarrow> Inl err
      | Inr tbl1 \<Rightarrow>
     (case gateway_step e cardPaymentResult of
        Inl err \<Rightarrow> Inl err
      | Inr (GwSuccess txn) \<Rightarrow>
          (case approvePayment e pid txn tbl1 of
             Inl err \<Rightarrow> Inl err
           | Inr tbl2 \<Rightarrow>
               (case commit_fault e of
                  Some err \<Rightarrow> Inl err
                | None \<Rightarrow>
                    Inr (tbl2, \<lparr>res_paymentId = pid, res_status = Completed,
                               res_transactionId = Some txn, res_errorMessage = None\<rparr>)))
      | Inr (GwFailure msg) \<Rightarrow>
          (case failPayment e pid msg tbl1 of
             Inl err \<Rightarrow> Inl err
           | Inr tbl2 \<Rightarrow>
               (case commit_fault e of
                  Some err \<Rightarrow> Inl err
                | None \<Rightarrow>
                    Inr (tbl2, \<lparr>res_paymentId = pid, res_status = Failed,
                               res_transactionId = None, res_errorMessage = Some msg\<rparr>)))))))"

text \<open>
  \<open>connection.rollback()\<close>: the committed tables stay as they were; the command itself
  may reject.
\<close>

definition rollback :: "env \<Rightarrow> db \<Rightarrow> db \<times> error option" where
  "rollback e committed = (committed, rollback_fault e)"

text \<open>
  \<open>createPayment\<close>: the store after the call and either the thrown error or the result.
  A failed rollback is logged and the original error is thrown.
\<close>

definition createPayment ::
  "env \<Rightarrow> db \<Rightarrow> jsnum jsval \<Rightarrow> jsnum jsval \<Rightarrow> jsnum jsval \<Rightarrow> string jsval \<Rightarrow> string jsval
     \<Rightarrow> card_result option \<Rightarrow> db \<times> (error + pay_result)" where
  "createPayment e d orderId userId amt paymentMethod key cardPaymentResult =
     (case validate_payment e orderId userId amt paymentMethod key of
        Some err \<Rightarrow> (d, Inl err)
      | None \<Rightarrow>
     (case conn_fault e of
        Some err \<Rightarrow> (d, Inl err)
      | None \<Rightarrow>
     (case payment_transaction e (payments d) orderId userId amt paymentMethod key cardPaymentResult of
        Inl err \<Rightarrow> (fst (rollback e d), Inl err)
      | Inr (tbl, r) \<Rightarrow> (d\<lparr>payments := tbl\<rparr>, Inr r))))"

record cancel_result =
  cancellationId :: string
  cancel_status :: status

text \<open>\<open>INSERT INTO payment_cancellations\<close>: \<open>cancellation_id\<close> is \<open>UNIQUE NOT NULL\<close>.\<close>

definition insert_cancellation ::
  "env \<Rightarrow> cancellation \<Rightarrow> cancellation list \<Rightarrow> error + cancellation list" where
  "insert_cancellation e row tbl =
     (case insert_fault e of
        Some err \<Rightarrow> Inl err
      | None \<Rightarrow>
          if cancellation_id row \<in> cancellation_id ` set tbl
          then Inl (Error (dup_entry (cancellation_id row)
                 ''payment_cancellations.cancellation_id''))
          else Inr (tbl @ [row]))"

text \<open>The statements of \<open>cancelPayment\<close> between \<open>beginTransaction\<close> and \<open>commit\<close>.\<close>

definition cancel_transaction ::
  "env \<Rightarrow> db \<Rightarrow> string \<Rightarrow> string \<Rightarrow> jsnum option \<Rightarrow> error + (db \<times> cancel_result)" where
  "cancel_transaction e d pid rsn cancelledBy =
     (case begin_fault e of
        Some err \<Rightarrow> Inl err
      | None \<Rightarrow>
     (case select_fault e of
        Some err \<Rightarrow> Inl err
      | None \<Rightarrow>
     (case filter (\<lambda>p. payment_id p = pid) (payments d) of
        [] \<Rightarrow> Inl (Error ''Payment not found'')
      | p # _ \<Rightarrow>
          if status p \<noteq> Completed
          then Inl (Error ''Only completed payments can be cancelled'')
          else
     (case new_id e of
        Inl err \<Rightarrow> Inl err
      | Inr tok \<Rightarrow>
     (let cid = ''CAN_'' @ tok in
      case insert_cancellation e
             \<lparr>cancellation_id = cid, cancelled_payment = pid, reason = rsn,
              cancelled_by = cancelledBy\<rparr> (payment_cancellations d) of
        Inl err \<Rightarrow> Inl err
      | Inr cs \<Rightarrow>
     (case update_fault e of
        Some err \<Rightarrow> Inl err
      | None \<Rightarrow>
     (case commit_fault e of
        Some err \<Rightarrow> Inl err
      | None \<Rightarrow>
          Inr (\<lparr>payments = update_payment pid (\<lambda>p. p\<lparr>status := Cancelled\<rparr>) (payments d),
                payment_cancellations = cs\<rparr>,
               \<lparr>cancellationId = cid, cancel_status = Cancelled\<rparr>))))))))"

text \<open>
  \<open>cancelPayment\<close>. Its rollback is awaited unguarded: when the rollback rejects, that
  error is the one thrown.
\<close>

definition cancelPayment ::
  "env \<Rightarrow> db \<Rightarrow> string jsval \<Rightarrow> string \<Rightarrow> jsnum option \<Rightarrow> db \<times> (error + cancel_result)" where
  "cancelPayment e d paymentId rsn cancelledBy =
     (case paymentId of
        Val pid \<Rightarrow>
          if pid = [] then (d, Inl (Error ''Invalid payment_id''))
          else
            (case conn_fault e of
               Some err \<Rightarrow> (d, Inl err)
             | None \<Rightarrow>
                 (case cancel_transaction e d pid rsn cancelledBy of
                    Inl err \<Rightarrow>
                      (case rollback e d of
                         (d', Some rerr) \<Rightarrow> (d', Inl rerr)
                       | (d', None) \<Rightarrow> (d', Inl err))
                  | Inr (d', r) \<Rightarrow> (d', Inr r)))
      | _ \<Rightarrow> (d, Inl (Error ''Invalid payment_id'')))"

text \<open>\<open>getPaymentById\<close>: the payment with its first cancellation, \<open>null\<close>, or an error.\<close>

definition getPaymentById ::
  "env \<Rightarrow> db \<Rightarrow> string jsval \<Rightarrow> db \<times> (error + (payment \<times> cancellation option) option)" where
  "getPaymentById e d paymentId =
     (case paymentId of
        Val pid \<Rightarrow>
          if pid = [] then (d, Inl (Error ''Invalid payment_id''))
          else
            (case select_fault e of
               Some err \<Rightarrow> (d, Inl err)
             | None \<Rightarrow>
                 (case filter (\<lambda>p. payment_id p = pid) (payments d) of
                    [] \<Rightarrow> (d, Inr None)
                  | p # _ \<Rightarrow>
                      (case filter (\<lambda>c. cancelled_payment c = pid) (payment_cancellations d) of
                         [] \<Rightarrow> (d, Inr (Some (p, None)))
                       | c # _ \<Rightarrow> (d, Inr (Some (p, Some c))))))
      | _ \<Rightarrow> (d, Inl (Error ''Invalid payment_id'')))"

text \<open>One call of an exposed operation of the service, as a step on the committed tables.\<close>

inductive op_step :: "db \<Rightarrow> db \<Rightarrow> bool" where
  submit: "createPayment e d orderId userId amt paymentMethod key cardResult = (d', r) \<Longrightarrow> op_step d d'"
| cancel: "cancelPayment e d paymentId rsn cancelledBy = (d', r) \<Longrightarrow> op_step d d'"
| get: "getPaymentById e d paymentId = (d', r) \<Longrightarrow> op_step d d'"

text \<open>The transitions of the state machine of a payment's status.\<close>

definition transition :: "status \<Rightarrow> status \<Rightarrow> bool" where
  "transition s s' =
     ((s = Pending \<and> (s' = Completed \<or> s' = Failed)) \<or> (s = Completed \<and> s' = Cancelled))"

text \<open>The uniqueness constraints of the payments table.\<close>

definition unique_keys :: "db \<Rightarrow> bool" where
  "unique_keys d =
     (distinct (map payment_id (payments d)) \<and> distinct (map idempotency_key (payments d)))"

section \<open>Idempotency service (services/idempotencyService.js, utils/encryption.js)\<close>

text \<open>
  A JSON value, and an object literal whose properties may be \<open>undefined\<close>:
  \<open>JSON.stringify\<close> leaves those properties out and writes a non-finite number as
  \<open>null\<close>.
\<close>

datatype json = JNull | JNum rat | JStr string | JArr "json list" | JObj "(string \<times> json) list"

type_synonym js_object = "(string \<times> json option) list"

definition JSON_stringify :: "js_object \<Rightarrow> json" where
  "JSON_stringify obj = JObj (List.map_filter (\<lambda>(k, v). map_option (Pair k) v) obj)"

definition json_num :: "jsnum jsval \<Rightarrow> json option" where
  "json_num v =
     (case v of
        Undefined \<Rightarrow> None
      | Null \<Rightarrow> Some JNull
      | Val (Fin r) \<Rightarrow> Some (JNum r)
      | Val _ \<Rightarrow> Some JNull)"

definition json_str :: "string jsval \<Rightarrow> json option" where
  "json_str v = (case v of Undefined \<Rightarrow> None | Null \<Rightarrow> Some JNull | Val s \<Rightarrow> Some (JStr s))"

text \<open>The JSON bodies the payment route sends, and a response with its HTTP status.\<close>

datatype reply =
    Payment_reply (rp_payment_id: string) (rp_status: status) (rp_message: string)
      (rp_transaction_id: "string option") (rp_error_message: "string option")
  | Error_reply (er_message: string) (er_code: string) (er_details: "string option")

record response =
  http_status :: nat
  http_body :: reply

text \<open>A row of the table \<open>idempotency_keys\<close>; \<open>idempotency_key\<close> is \<open>UNIQUE\<close>.\<close>

record 'h idem_row =
  ik_key :: string
  request_hash :: 'h
  response_data :: reply
  expires_at :: nat

record order =
  o_user_id :: "jsnum jsval"
  o_total_price :: "jsnum jsval"
  o_status :: string

text \<open>
  What one request meets outside the code:
  \<^item> \<open>svc\<close>: the environment of the payment service's call;
  \<^item> \<open>now\<close>: the time of the request in seconds, for \<open>NOW()\<close>, \<open>new Date()\<close> and the
    expiry of keys in the lock store;
  \<^item> \<open>production\<close>: \<open>NODE_ENV === 'production'\<close>;
  \<^item> \<open>sha256\<close>: the digest of the text of a JSON value;
  \<^item> \<open>order_fetch\<close>: the answer of the order service, \<open>orderResponse.data.order\<close>, or
    the rejection of the call;
  \<^item> \<open>card_charge\<close>: what \<open>processCardPayment\<close> returns;
  \<^item> \<open>lock_fault\<close>, \<open>unlock_fault\<close>: the lock store rejecting \<open>set\<close> and \<open>del\<close>;
  \<^item> \<open>check_fault\<close>, \<open>validate_fault\<close>, \<open>result_fault\<close>, \<open>store_fault\<close>: the statement
    of each function of the idempotency service rejected.
\<close>

record 'h route_env =
  svc :: env
  now :: nat
  production :: bool
  sha256 :: "json \<Rightarrow> 'h"
  order_fetch :: "error + order option"
  card_charge :: card_result
  lock_fault :: "error option"
  unlock_fault :: "error option"
  check_fault :: "error option"
  validate_fault :: "error option"
  result_fault :: "error option"
  store_fault :: "error option"

definition hashRequestData :: "'h route_env \<Rightarrow> js_object \<Rightarrow> 'h" where
  "hashRequestData re requestData = sha256 re (JSON_stringify requestData)"

text \<open>The rows \<open>WHERE idempotency_key = ? AND expires_at > NOW()\<close>.\<close>

definition live_rows :: "'h route_env \<Rightarrow> 'h idem_row list \<Rightarrow> string \<Rightarrow> 'h idem_row list" where
  "live_rows re tbl k = filter (\<lambda>r. ik_key r = k \<and> expires_at r > now re) tbl"

definition checkIdempotencyKey ::
  "'h route_env \<Rightarrow> 'h idem_row list \<Rightarrow> string jsval \<Rightarrow> error + bool" where
  "checkIdempotencyKey re tbl key =
     (case key of
        Val k \<Rightarrow>
          if k = [] then Inl (Error ''Invalid idempotency_key'')
          else (case check_fault re of
                  Some err \<Rightarrow> Inl err
                | None \<Rightarrow> Inr (live_rows re tbl k \<noteq> []))
      | _ \<Rightarrow> Inl (Error ''Invalid idempotency_key''))"

definition validateRequestData ::
  "'h route_env \<Rightarrow> 'h idem_row list \<Rightarrow> string jsval \<Rightarrow> js_object \<Rightarrow> error + bool" where
  "validateRequestData re tbl key requestData =
     (case key of
        Val k \<Rightarrow>
          if k = [] then Inl (Error ''Invalid idempotency_key'')
          else
            (let currentHash = hashRequestData re requestData in
             case validate_fault re of
               Some err \<Rightarrow> Inl err
             | None \<Rightarrow>
                 (case live_rows re tbl k of
                    [] \<Rightarrow> Inr True
                  | r # _ \<Rightarrow> Inr (currentHash = request_hash r)))
      | _ \<Rightarrow> Inl (Error ''Invalid idempotency_key''))"

definition getIdempotencyResult ::
  "'h route_env \<Rightarrow> 'h idem_row list \<Rightarrow> string jsval \<Rightarrow> error + reply option" where
  "getIdempotencyResult re tbl key =
     (case key of
        Val k \<Rightarrow>
          if k = [] then Inl (Error ''Invalid idempotency_key'')
          else (case result_fault re of
                  Some err \<Rightarrow> Inl err
                | None \<Rightarrow>
                    (case live_rows re tbl k of
                       [] \<Rightarrow> Inr None
                     | r # _ \<Rightarrow> Inr (Some (response_data r))))
      | _ \<Rightarrow> Inl (Error ''Invalid idempotency_key''))"

text \<open>
  \<open>storeIdempotencyKey\<close>: the row expires 24 hours later; the error of a duplicate key
  (\<open>ER_DUP_ENTRY\<close>) is ignored, any other error is thrown. The request data and the
  response are objects by their types here, so the guards on them never throw.
\<close>

definition storeIdempotencyKey ::
  "'h route_env \<Rightarrow> 'h idem_row list \<Rightarrow> string jsval \<Rightarrow> js_object \<Rightarrow> reply
     \<Rightarrow> 'h idem_row list \<times> error option" where
  "storeIdempotencyKey re tbl key requestData resp =
     (case key of
        Val k \<Rightarrow>
          if k = [] then (tbl, Some (Error ''Invalid idempotency_key''))
          else
            (let requestHash = hashRequestData re requestData;
                 expiresAt = now re + 24 * 3600
             in case store_fault re of
                  Some err \<Rightarrow> (tbl, Some err)
                | None \<Rightarrow>
                    if k \<in> ik_key ` set tbl then (tbl, None)
                    else (tbl @ [\<lparr>ik_key = k, request_hash = requestHash,
                                  response_data = resp, expires_at = expiresAt\<rparr>], None))
      | _ \<Rightarrow> (tbl, Some (Error ''Invalid idempotency_key'')))"

section \<open>Idempotency middleware (middleware/idempotency.js)\<close>

text \<open>The body of a payment request, with the properties the middleware and the route read.\<close>

record request =
  req_order_id :: "jsnum jsval"
  req_payment_method :: "string jsval"
  req_idempotency_key :: "string jsval"
  req_card_data :: bool
  req_user_id :: "json option"
  req_items :: "json option"
  req_total_price :: "json option"

datatype outcome = Respond response | Next

text \<open>
  The object \<open>requestData\<close> the middleware compares with the stored hash, and the one
  the route stores with the response.
\<close>

definition middleware_request_data :: "request \<Rightarrow> js_object" where
  "middleware_request_data req =
     [(''order_id'', json_num (req_order_id req)),
      (''payment_method'', json_str (req_payment_method req)),
      (''user_id'', req_user_id req),
      (''items'', req_items req),
      (''total_price'', req_total_price req)]"

definition route_request_data :: "request \<Rightarrow> js_object" where
  "route_request_data req =
     [(''order_id'', json_num (req_order_id req)),
      (''payment_method'', json_str (req_payment_method req))]"

definition checkIdempotency :: "'h route_env \<Rightarrow> 'h idem_row list \<Rightarrow> request \<Rightarrow> outcome" where
  "checkIdempotency re tbl req =
     (let key = req_idempotency_key req in
      if (case key of Val k \<Rightarrow> k = [] | _ \<Rightarrow> True) then Next
      else
        (case checkIdempotencyKey re tbl key of
           Inl err \<Rightarrow> Next
         | Inr False \<Rightarrow> Next
         | Inr True \<Rightarrow>
             (let requestData = middleware_request_data req
              in case validateRequestData re tbl key requestData of
                   Inl err \<Rightarrow> Next
                 | Inr False \<Rightarrow>
                     Respond \<lparr>http_status = 409, http_body = Error_reply
                       ''Idempotency key conflict: same key used with different request data''
                       ''DUPLICATE_REQUEST'' None\<rparr>
                 | Inr True \<Rightarrow>
                     (case getIdempotencyResult re tbl key of
                        Inl err \<Rightarrow> Next
                      | Inr (Some cachedResult) \<Rightarrow>
                          Respond \<lparr>http_status = 200, http_body = cachedResult\<rparr>
                      | Inr None \<Rightarrow> Next))))"

definition storeIdempotencyResponse ::
  "'h route_env \<Rightarrow> 'h idem_row list \<Rightarrow> string jsval \<Rightarrow> js_object \<Rightarrow> reply \<Rightarrow> 'h idem_row list" where
  "storeIdempotencyResponse re tbl key requestData responseData =
     fst (storeIdempotencyKey re tbl key requestData responseData)"

section \<open>Payment route (routes/payments.js)\<close>

text \<open>
  The state the route works on: the payment tables, the table of idempotency keys and
  the lock store, a list of the keys \<open>payment_lock:${order_id}\<close> by their order id, each
  with the time at which it expires.
\<close>

record 'h state =
  tables :: db
  idempotency_keys :: "'h idem_row list"
  locks :: "(jsnum jsval \<times> nat) list"

text \<open>\<open>redis.set(key, 'locked', { NX: true, EX: ttl })\<close> and \<open>redis.del(key)\<close>.\<close>

definition lock_held :: "nat \<Rightarrow> jsnum jsval \<Rightarrow> (jsnum jsval \<times> nat) list \<Rightarrow> bool" where
  "lock_held t k ls = (\<exists>(k', expiry) \<in> set ls. k' = k \<and> t < expiry)"

definition redis_del :: "jsnum jsval \<Rightarrow> (jsnum jsval \<times> nat) list \<Rightarrow> (jsnum jsval \<times> nat) list" where
  "redis_del k ls = filter (\<lambda>(k', expiry). k' \<noteq> k) ls"

definition redis_set_nx ::
  "nat \<Rightarrow> jsnum jsval \<Rightarrow> nat \<Rightarrow> (jsnum jsval \<times> nat) list \<Rightarrow> (jsnum jsval \<times> nat) list \<times> bool" where
  "redis_set_nx t k ttl ls =
     (if lock_held t k ls then (ls, False) else ((k, t + ttl) # redis_del k ls, True))"

text \<open>The \<open>catch\<close> block of the route: the response to an error thrown in the handler.\<close>

definition error_response :: "'h route_env \<Rightarrow> error \<Rightarrow> response" where
  "error_response re err =
     (let m = message err;
          errorMessage = (if m \<noteq> [] then m else ''Failed to process payment'');
          details = (if \<not> production re then Some m else None)
      in if m \<noteq> [] \<and> str_includes m ''Invalid''
           then \<lparr>http_status = 400,
                 http_body = Error_reply errorMessage ''VALIDATION_ERROR'' details\<rparr>
         else if m \<noteq> [] \<and> str_includes m ''not found''
           then \<lparr>http_status = 404, http_body = Error_reply errorMessage ''NOT_FOUND'' details\<rparr>
         else if m \<noteq> [] \<and> str_includes m ''transaction''
           then \<lparr>http_status = 500,
                 http_body = Error_reply ''Transaction failed'' ''TRANSACTION_ERROR'' details\<rparr>
         else \<lparr>http_status = 500,
               http_body = Error_reply errorMessage ''PAYMENT_FAILED'' details\<rparr>)"

text \<open>The object \<open>responseData\<close> built from the result of \<open>createPayment\<close>.\<close>

definition response_of :: "pay_result \<Rightarrow> reply" where
  "response_of r =
     Payment_reply (res_paymentId r) (res_status r)
       (if res_status r = Completed then ''Payment processed successfully'' else ''Payment failed'')
       (case res_transactionId r of Some t \<Rightarrow> if t \<noteq> [] then Some t else None | None \<Rightarrow> None)
       (case res_errorMessage r of Some m \<Rightarrow> if m \<noteq> [] then Some m else None | None \<Rightarrow> None)"

text \<open>
  The handler from the call of \<open>createPayment\<close> on. An error thrown there goes to the
  \<open>catch\<close> block; after a result, the response is stored under the idempotency key, sent,
  and the lock is deleted when it was taken. The calls to the order service and to the
  cache keys \<open>payments:...\<close> and \<open>payment_status:...\<close> change none of the three parts of the
  state and their errors are caught.
\<close>

definition process_payment ::
  "'h route_env \<Rightarrow> 'h state \<Rightarrow> request \<Rightarrow> order \<Rightarrow> card_result option \<Rightarrow> bool
     \<Rightarrow> 'h state \<times> response" where
  "process_payment re st req ord cardPaymentResult hasLock =
     (case createPayment (svc re) (tables st) (req_order_id req) (o_user_id ord)
             (o_total_price ord) (req_payment_method req) (req_idempotency_key req)
             cardPaymentResult of
        (d, Inl err) \<Rightarrow> (st\<lparr>tables := d\<rparr>, error_response re err)
      | (d, Inr r) \<Rightarrow>
          (let responseData = response_of r;
               requestData = route_request_data req;
               keys = storeIdempotencyResponse re (idempotency_keys st)
                        (req_idempotency_key req) requestData responseData;
               statusCode = (if res_status r = Completed then 200 else 422);
               ls = (if hasLock \<and> unlock_fault re = None
                     then redis_del (req_order_id req) (locks st) else locks st)
           in (\<lparr>tables = d, idempotency_keys = keys, locks = ls\<rparr>,
               \<lparr>http_status = statusCode, http_body = responseData\<rparr>)))"

text \<open>
  The lock block of the handler: the lock is taken with a lifetime of 30 seconds; when the
  key is held the request is answered at once, and when the lock store rejects the call
  the payment goes on without the lock.
\<close>

definition locked_payment ::
  "'h route_env \<Rightarrow> 'h state \<Rightarrow> request \<Rightarrow> order \<Rightarrow> card_result option \<Rightarrow> 'h state \<times> response" where
  "locked_payment re st req ord cardPaymentResult =
     (case lock_fault re of
        Some err \<Rightarrow> process_payment re st req ord cardPaymentResult False
      | None \<Rightarrow>
          (case redis_set_nx (now re) (req_order_id req) 30 (locks st) of
             (ls, False) \<Rightarrow>
               (st, \<lparr>http_status = 429, http_body = Error_reply
                  ''Payment is already being processed for this order''
                  ''PAYMENT_IN_PROGRESS'' None\<rparr>)
           | (ls, True) \<Rightarrow>
               process_payment re (st\<lparr>locks := ls\<rparr>) req ord cardPaymentResult True))"

text \<open>
  The card block of the handler: with card data and one of the two card methods the card
  is charged first. The checks \<open>processCardPayment\<close> makes on the card are not part of
  the model: its answer comes with the request's environment.
\<close>

definition card_step :: "'h route_env \<Rightarrow> request \<Rightarrow> card_result option" where
  "card_step re req =
     (if req_card_data req \<and> (req_payment_method req = Val ''credit_card'' \<or>
           req_payment_method req = Val ''debit_card'')
      then Some (card_charge re) else None)"

text \<open>The handler of \<open>POST /payments\<close>.\<close>

definition payment_handler :: "'h route_env \<Rightarrow> 'h state \<Rightarrow> request \<Rightarrow> 'h state \<times> response" where
  "payment_handler re st req =
     (case order_fetch re of
        Inl err \<Rightarrow>
          (st, \<lparr>http_status = 404,
                http_body = Error_reply ''Order not found'' ''ORDER_NOT_FOUND'' None\<rparr>)
      | Inr None \<Rightarrow>
          (st, \<lparr>http_status = 404,
                http_body = Error_reply ''Order not found'' ''ORDER_NOT_FOUND'' None\<rparr>)
      | Inr (Some ord) \<Rightarrow>
          if o_status ord \<noteq> ''pending''
          then (st, \<lparr>http_status = 422, http_body = Error_reply
                  (''Order cannot be paid. Current status: '' @ o_status ord)
                  ''INVALID_ORDER_STATUS'' None\<rparr>)
          else
            (let cardPaymentResult = card_step re req
             in case cardPaymentResult of
                  Some c \<Rightarrow>
                    if \<not> cr_success c
                    then (st, \<lparr>http_status = 422,
                               http_body = Error_reply (cr_error c) ''CARD_PAYMENT_FAILED'' None\<rparr>)
                    else locked_payment re st req ord cardPaymentResult
                | None \<Rightarrow> locked_payment re st req ord cardPaymentResult))"

text \<open>The middleware \<open>checkIdempotency\<close> followed by the handler.\<close>

definition payment_route :: "'h route_env \<Rightarrow> 'h state \<Rightarrow> request \<Rightarrow> 'h state \<times> response" where
  "payment_route re st req =
     (case checkIdempotency re (idempotency_keys st) req of
        Respond r \<Rightarrow> (st, r)
      | Next \<Rightarrow> payment_handler re st req)"

section \<open>Reference inputs\<close>

text \<open>
  An environment in which nothing rejects, and one for a request on top of it. The
  digest is the JSON value itself, a digest without collisions; the text of a number is a
  placeholder, on which no statement below depends.
\<close>

definition quiet_env :: env where
  "quiet_env =
     \<lparr>conn_fault = None, begin_fault = None, insert_fault = None, update_fault = None,
      select_fault = None, commit_fault = None, rollback_fault = None,
      new_id = Inr ''1700000000000_00a1b2c3d4e5f607'', gateway_roll = True,
      gateway_txn = Inr ''TXN_1700000000000_0a1b2c3d4e5f60718293a4b5'',
      num_text = (\<lambda>n. ''?'')\<rparr>"

definition quiet_route :: "json route_env" where
  "quiet_route =
     \<lparr>svc = quiet_env, now = 1000, production = False, sha256 = (\<lambda>j. j),
      order_fetch = Inr (Some \<lparr>o_user_id = Val (Fin 7), o_total_price = Val (Fin 100),
                               o_status = ''pending''\<rparr>),
      card_charge = \<lparr>cr_success = True, cr_transactionId = ''TXN-1700000000000-ABCDEFGHI'',
                     cr_error = []\<rparr>,
      lock_fault = None, unlock_fault = None, check_fault = None, validate_fault = None,
      result_fault = None, store_fault = None\<rparr>"

definition empty_db :: db where
  "empty_db = \<lparr>payments = [], payment_cancellations = []\<rparr>"

definition empty_state :: "json state" where
  "empty_state = \<lparr>tables = empty_db, idempotency_keys = [], locks = []\<rparr>"

definition card_request :: request where
  "card_request =
     \<lparr>req_order_id = Val (Fin 42), req_payment_method = Val ''card'',
      req_idempotency_key = Val ''11111111-1111-4111-8111-111111111111'',
      req_card_data = False, req_user_id = None, req_items = None, req_total_price = None\<rparr>"

text \<open>The conditions under which a call of the service meets no rejection.\<close>

definition no_faults :: "env \<Rightarrow> bool" where
  "no_faults e =
     (conn_fault e = None \<and> begin_fault e = None \<and> insert_fault e = None \<and>
      update_fault e = None \<and> select_fault e = None \<and> commit_fault e = None \<and>
      rollback_fault e = None \<and> \<not> isl (new_id e) \<and>
      (gateway_roll e \<longrightarrow> \<not> isl (gateway_txn e)))"

text \<open>The five checks at the head of \<open>createPayment\<close>, together.\<close>

definition valid_input ::
  "jsnum jsval \<Rightarrow> jsnum jsval \<Rightarrow> jsnum jsval \<Rightarrow> string jsval \<Rightarrow> string jsval \<Rightarrow> bool" where
  "valid_input orderId userId amt paymentMethod key =
     (isValidUserId orderId \<and> isValidUserId userId \<and> isValidAmount amt \<and>
      isValidPaymentMethod paymentMethod \<and> (case key of Val k \<Rightarrow> k \<noteq> [] | _ \<Rightarrow> False))"

text \<open>The row \<open>createPayment\<close> inserts.\<close>

definition pending_row ::
  "string \<Rightarrow> jsnum jsval \<Rightarrow> jsnum jsval \<Rightarrow> jsnum jsval \<Rightarrow> string jsval \<Rightarrow> string jsval \<Rightarrow> payment" where
  "pending_row pid orderId userId amt paymentMethod key =
     \<lparr>payment_id = pid, order_id = orderId, user_id = userId, amount = amt,
      payment_method = paymentMethod, status = Pending, transaction_id = None,
      gateway_response = None, idempotency_key = key\<rparr>"

text \<open>A card result that reports a failure and still carries a transaction identifier.\<close>

definition declined_card :: card_result where
  "declined_card = \<lparr>cr_success = False, cr_transactionId = ''TXN-1700000000000-ABCDEFGHI'',
     cr_error = ''Card declined''\<rparr>"

text \<open>An error of the database in the middle of a transaction.\<close>

definition deadlock :: error where
  "deadlock = Error ''Deadlock found when trying to get lock; try restarting transaction''"

text \<open>
  The tables after the reference payment has completed, a later call of the service, and
  the tables after that payment has been cancelled in the later call.
\<close>

definition paid_row :: payment where
  "paid_row =
     \<lparr>payment_id = ''PAY_1700000000000_00a1b2c3d4e5f607'', order_id = Val (Fin 42),
      user_id = Val (Fin 7), amount = Val (Fin 100), payment_method = Val ''card'',
      status = Completed,
      transaction_id = Some ''TXN_1700000000000_0a1b2c3d4e5f60718293a4b5'',
      gateway_response = None,
      idempotency_key = Val ''11111111-1111-4111-8111-111111111111''\<rparr>"

definition paid_db :: db where
  "paid_db = \<lparr>payments = [paid_row], payment_cancellations = []\<rparr>"

definition later_env :: env where
  "later_env = quiet_env\<lparr>new_id := Inr ''1700000060000_ffeeddccbbaa9988''\<rparr>"

definition cancelled_db :: db where
  "cancelled_db =
     \<lparr>payments = [paid_row\<lparr>status := Cancelled\<rparr>],
      payment_cancellations =
        [\<lparr>cancellation_id = ''CAN_1700000060000_ffeeddccbbaa9988'',
          cancelled_payment = ''PAY_1700000000000_00a1b2c3d4e5f607'',
          reason = ''requested by customer'', cancelled_by = Some (Fin 7)\<rparr>]\<rparr>"

text \<open>
  A state in which the reference payment is in the payments table while the table of
  idempotency keys has no row for its key, and a later request.
\<close>

definition claimed_state :: "json state" where
  "claimed_state = \<lparr>tables = paid_db, idempotency_keys = [], locks = []\<rparr>"

definition later_route :: "json route_env" where
  "later_route = quiet_route\<lparr>svc := later_env, now := 1010\<rparr>"

text \<open>
  The order of the reference request, a request whose payment meets a database error
  after the insert, and the error of a store that cannot be reached.
\<close>

definition pending_order :: order where
  "pending_order = \<lparr>o_user_id = Val (Fin 7), o_total_price = Val (Fin 100), o_status = ''pending''\<rparr>"

definition failing_route :: "json route_env" where
  "failing_route = quiet_route\<lparr>svc := quiet_env\<lparr>update_fault := Some deadlock\<rparr>\<rparr>"

definition refused :: error where
  "refused = Error ''connect ECONNREFUSED 127.0.0.1:6379''"

text \<open>A response body that reports a payment in a terminal status.\<close>

definition terminal_reply :: "reply \<Rightarrow> bool" where
  "terminal_reply b = (case b of Payment_reply _ _ _ _ _ \<Rightarrow> True | Error_reply _ _ _ \<Rightarrow> False)"

text \<open>
  The body and the state after the reference request has been served from the empty
  state; a request whose gateway declines, with its body; and a later request for which
  the order service reports another total.
\<close>

definition first_reply :: reply where
  "first_reply =
     Payment_reply ''PAY_1700000000000_00a1b2c3d4e5f607'' Completed
       ''Payment processed successfully''
       (Some ''TXN_1700000000000_0a1b2c3d4e5f60718293a4b5'') None"

definition recorded_state :: "json state" where
  "recorded_state =
     \<lparr>tables = paid_db,
      idempotency_keys =
        [\<lparr>ik_key = ''11111111-1111-4111-8111-111111111111'',
          request_hash = JObj [(''order_id'', JNum 42), (''payment_method'', JStr ''card'')],
          response_data = first_reply, expires_at = 87400\<rparr>],
      locks = []\<rparr>"

definition declined_route :: "json route_env" where
  "declined_route = quiet_route\<lparr>svc := quiet_env\<lparr>gateway_roll := False\<rparr>\<rparr>"

definition declined_reply :: reply where
  "declined_reply =
     Payment_reply ''PAY_1700000000000_00a1b2c3d4e5f607'' Failed ''Payment failed'' None
       (Some ''Payment declined by gateway'')"

definition changed_amount_route :: "json route_env" where
  "changed_amount_route =
     later_route\<lparr>order_fetch := Inr (Some (pending_order\<lparr>o_total_price := Val (Fin 250)\<rparr>))\<rparr>"

text \<open>The state after the request whose gateway declines has been served from the empty state.\<close>

definition declined_state :: "json state" where
  "declined_state =
     \<lparr>tables =
        \<lparr>payments =
           [\<lparr>payment_id = ''PAY_1700000000000_00a1b2c3d4e5f607'', order_id = Val (Fin 42),
             user_id = Val (Fin 7), amount = Val (Fin 100), payment_method = Val ''card'',
             status = Failed, transaction_id = None,
             gateway_response = Some ''Payment declined by gateway'',
             idempotency_key = Val ''11111111-1111-4111-8111-111111111111''\<rparr>],
         payment_cancellations = []\<rparr>,
      idempotency_keys =
        [\<lparr>ik_key = ''11111111-1111-4111-8111-111111111111'',
          request_hash = JObj [(''order_id'', JNum 42), (''payment_method'', JStr ''card'')],
          response_data = declined_reply, expires_at = 87400\<rparr>],
      locks = []\<rparr>"

text \<open>
  The reference request with the property \<open>user_id\<close> in its body; a request that reaches
  neither the table of idempotency keys nor the lock store; and a state in which another
  request holds the lock of order 42 until the time 1020.
\<close>

definition uid_request :: request where
  "uid_request = card_request\<lparr>req_user_id := Some (JNum 7)\<rparr>"

definition outage_route :: "json route_env" where
  "outage_route =
     quiet_route\<lparr>check_fault := Some refused, store_fault := Some refused,
       lock_fault := Some refused\<rparr>"

definition busy_state :: "json state" where
  "busy_state = \<lparr>tables = empty_db, idempotency_keys = [], locks = [(Val (Fin 42), 1020)]\<rparr>"

section \<open>Facts about the payment service\<close>

lemma starts_with_append: "starts_with (p @ s) p"
  by (induction p) auto

lemma validate_payment_None:
  "validate_payment e orderId userId amt paymentMethod key = None \<longleftrightarrow>
     valid_input orderId userId amt paymentMethod key"
  by (auto simp: validate_payment_def valid_input_def split: jsval.splits)

lemma validate_payment_Some:
  "validate_payment e orderId userId amt paymentMethod key = Some err \<Longrightarrow>
     starts_with (message err) ''Invalid''"
  by (auto simp: validate_payment_def split: if_splits)

lemma update_payment_fresh:
  "pid \<notin> payment_id ` set tbl \<Longrightarrow> update_payment pid f tbl = tbl"
  by (induction tbl) (auto simp: update_payment_def)

lemma update_payment_snoc:
  "pid \<notin> payment_id ` set tbl \<Longrightarrow> payment_id row = pid \<Longrightarrow>
     update_payment pid f (tbl @ [row]) = tbl @ [f row]"
  using update_payment_fresh[of pid tbl f] by (simp add: update_payment_def)

lemma insert_payment_Inr:
  "insert_payment e row tbl = Inr tbl1 \<Longrightarrow>
     tbl1 = tbl @ [row] \<and> payment_id row \<notin> payment_id ` set tbl \<and>
     idempotency_key row \<notin> idempotency_key ` set tbl"
  by (auto simp: insert_payment_def split: option.splits if_splits)

lemma approvePayment_Inr:
  "approvePayment e pid txn tbl = Inr tbl2 \<Longrightarrow>
     tbl2 = update_payment pid (\<lambda>p. p\<lparr>status := Completed, transaction_id := Some txn\<rparr>) tbl"
  by (auto simp: approvePayment_def Let_def split: option.splits if_splits)

lemma failPayment_Inr:
  "failPayment e pid msg tbl = Inr tbl2 \<Longrightarrow>
     tbl2 = update_payment pid (\<lambda>p. p\<lparr>status := Failed, gateway_response := Some msg\<rparr>) tbl"
  by (auto simp: failPayment_def Let_def split: option.splits if_splits)

lemma payment_transaction_Inr:
  assumes "payment_transaction e tbl orderId userId amt paymentMethod key cardResult = Inr (tbl', r)"
  shows "\<exists>tok gw. new_id e = Inr tok \<and> gateway_step e cardResult = Inr gw \<and>
     ''PAY_'' @ tok \<notin> payment_id ` set tbl \<and> key \<notin> idempotency_key ` set tbl \<and>
     (case gw of
        GwSuccess txn \<Rightarrow>
          tbl' = tbl @ [(pending_row (''PAY_'' @ tok) orderId userId amt paymentMethod key)
                          \<lparr>status := Completed, transaction_id := Some txn\<rparr>] \<and>
          r = \<lparr>res_paymentId = ''PAY_'' @ tok, res_status = Completed,
               res_transactionId = Some txn, res_errorMessage = None\<rparr>
      | GwFailure msg \<Rightarrow>
          tbl' = tbl @ [(pending_row (''PAY_'' @ tok) orderId userId amt paymentMethod key)
                          \<lparr>status := Failed, gateway_response := Some msg\<rparr>] \<and>
          r = \<lparr>res_paymentId = ''PAY_'' @ tok, res_status = Failed,
               res_transactionId = None, res_errorMessage = Some msg\<rparr>)"
  using assms
  unfolding payment_transaction_def Let_def pending_row_def
  by (auto split: option.splits sum.splits gateway_result.splits
      dest!: insert_payment_Inr approvePayment_Inr failPayment_Inr simp: update_payment_snoc)

lemma createPayment_Inl: "createPayment e d orderId userId amt paymentMethod key cardResult = (d', Inl err) \<Longrightarrow> d' = d"
  by (auto simp: createPayment_def rollback_def split: option.splits sum.splits)

lemma createPayment_Inr:
  assumes "createPayment e d orderId userId amt paymentMethod key cardResult = (d', Inr r)"
  shows "valid_input orderId userId amt paymentMethod key \<and>
     payment_transaction e (payments d) orderId userId amt paymentMethod key cardResult = Inr (payments d', r) \<and>
     payment_cancellations d' = payment_cancellations d"
  using assms validate_payment_None[of e orderId userId amt paymentMethod key]
  by (auto simp: createPayment_def rollback_def split: option.splits sum.splits)

lemma approvePayment_ok:
  assumes "update_fault e = None" "select_fault e = None" "payment_id row = pid"
    "pid \<notin> payment_id ` set tbl"
  shows "approvePayment e pid txn (tbl @ [row]) =
     Inr (tbl @ [row\<lparr>status := Completed, transaction_id := Some txn\<rparr>])"
  using assms by (simp add: approvePayment_def Let_def affectedRows_def update_payment_snoc)

lemma failPayment_ok:
  assumes "update_fault e = None" "select_fault e = None" "payment_id row = pid"
    "pid \<notin> payment_id ` set tbl"
  shows "failPayment e pid msg (tbl @ [row]) =
     Inr (tbl @ [row\<lparr>status := Failed, gateway_response := Some msg\<rparr>])"
  using assms by (simp add: failPayment_def Let_def affectedRows_def update_payment_snoc)

lemma payment_transaction_ok:
  assumes "begin_fault e = None" "insert_fault e = None" "update_fault e = None" "select_fault e = None" "commit_fault e = None"
   "new_id e = Inr tok" "gateway_step e cardResult = Inr gw"
    "''PAY_'' @ tok \<notin> payment_id ` set tbl" "key \<notin> idempotency_key ` set tbl"
  shows "\<exists>tbl' r. payment_transaction e tbl orderId userId amt paymentMethod key cardResult = Inr (tbl', r)"
  using assms
  by (cases gw) (simp_all add: payment_transaction_def Let_def insert_payment_def approvePayment_ok failPayment_ok)

lemma createPayment_ok:
  assumes "valid_input orderId userId amt paymentMethod key" "no_faults e"
    "''PAY_'' @ projr (new_id e) \<notin> payment_id ` set (payments d)"
    "key \<notin> idempotency_key ` set (payments d)"
  shows "\<exists>d' r. createPayment e d orderId userId amt paymentMethod key cardResult = (d', Inr r)"
proof -
  from assms(2) obtain tok where tok: "new_id e = Inr tok"
    by (cases "new_id e") (auto simp: no_faults_def)
  from assms(2) obtain gw where gw: "gateway_step e cardResult = Inr gw"
    by (cases cardResult; cases "gateway_txn e"; cases "gateway_roll e")
       (auto simp: no_faults_def gateway_step_def processPaymentGateway_def)
  from assms(2) have f: "begin_fault e = None" "insert_fault e = None" "update_fault e = None"
    "select_fault e = None" "commit_fault e = None" "conn_fault e = None"
    by (auto simp: no_faults_def)
  from payment_transaction_ok[OF f(1-5) tok gw, of "payments d" key orderId userId amt paymentMethod]
    assms(3,4) tok
  obtain tbl' r where
    "payment_transaction e (payments d) orderId userId amt paymentMethod key cardResult = Inr (tbl', r)"
    by auto
  with assms(1) f(6) show ?thesis
    using validate_payment_None[of e orderId userId amt paymentMethod key]
    by (auto simp: createPayment_def)
qed

lemma isValidAmount_iff: "isValidAmount amt \<longleftrightarrow> (\<exists>r. amt = Val (Fin r) \<and> lit_0_01 \<le> r \<and> r \<le> 10000000)"
  by (auto simp: isValidAmount_def lit_0_01_def split: jsval.splits jsnum.splits)

lemma createPayment_invalid:
  assumes "\<not> valid_input orderId userId amt paymentMethod key"
  shows "\<exists>err. createPayment e d orderId userId amt paymentMethod key cardResult = (d, Inl err) \<and>
           starts_with (message err) ''Invalid''"
proof -
  from assms obtain err where v: "validate_payment e orderId userId amt paymentMethod key = Some err"
    using validate_payment_None[of e orderId userId amt paymentMethod key] by (cases "validate_payment e orderId userId amt paymentMethod key") auto
  then show ?thesis using validate_payment_Some[OF v] by (simp add: createPayment_def)
qed

lemma createPayment_grows:
  assumes "createPayment e d orderId userId amt paymentMethod key cardResult = (d', Inr r)"
  shows "\<exists>row. payments d' = payments d @ [row] \<and> payment_id row = res_paymentId r \<and>
      status row = res_status r \<and> idempotency_key row = key \<and>
      order_id row = orderId \<and> user_id row = userId \<and> amount row = amt \<and>
      payment_id row \<notin> payment_id ` set (payments d) \<and>
      key \<notin> idempotency_key ` set (payments d) \<and> transition Pending (status row) \<and>
      transaction_id row = res_transactionId r"
proof -
  from createPayment_Inr[OF assms]
  have "payment_transaction e (payments d) orderId userId amt paymentMethod key cardResult = Inr (payments d', r)"
    by simp
  from payment_transaction_Inr[OF this] obtain tok gw where
    g: "''PAY_'' @ tok \<notin> payment_id ` set (payments d)" "key \<notin> idempotency_key ` set (payments d)"
      "(case gw of
        GwSuccess txn \<Rightarrow>
          payments d' = payments d @ [(pending_row (''PAY_'' @ tok) orderId userId amt paymentMethod key)
                          \<lparr>status := Completed, transaction_id := Some txn\<rparr>] \<and>
          r = \<lparr>res_paymentId = ''PAY_'' @ tok, res_status = Completed,
               res_transactionId = Some txn, res_errorMessage = None\<rparr>
      | GwFailure msg \<Rightarrow>
          payments d' = payments d @ [(pending_row (''PAY_'' @ tok) orderId userId amt paymentMethod key)
                          \<lparr>status := Failed, gateway_response := Some msg\<rparr>] \<and>
          r = \<lparr>res_paymentId = ''PAY_'' @ tok, res_status = Failed,
               res_transactionId = None, res_errorMessage = Some msg\<rparr>)"
    by blast
  then show ?thesis
    by (cases gw) (simp_all add: pending_row_def transition_def)
qed

section \<open>Validation of a payment (C9)\<close>

text \<open>
  C9, as the code has it. An amount passes \<open>isValidAmount\<close> exactly when it is a finite
  number that is at least 0.01 (the double of that literal) and at most 10,000,000.
  The validation block of \<open>createPayment\<close> throws exactly when the order id or the user
  id is not a positive integer, the amount does not pass, the method is not in the list
  or the idempotency key is not a non-empty string. When it throws, the error's message
  begins with \<open>Invalid\<close> and the tables are as before; when it does not and nothing
  rejects, one row is added that carries the amount.
\<close>

theorem createPayment_validation:
  "(isValidAmount amt \<longleftrightarrow> (\<exists>r. amt = Val (Fin r) \<and> lit_0_01 \<le> r \<and> r \<le> 10000000)) \<and>
   (validate_payment e orderId userId amt paymentMethod key = None \<longleftrightarrow>
      isValidUserId orderId \<and> isValidUserId userId \<and> isValidAmount amt \<and>
      isValidPaymentMethod paymentMethod \<and> (\<exists>k. key = Val k \<and> k \<noteq> [])) \<and>
   (validate_payment e orderId userId amt paymentMethod key \<noteq> None \<longrightarrow>
      (\<exists>err. createPayment e d orderId userId amt paymentMethod key cardResult = (d, Inl err) \<and>
             starts_with (message err) ''Invalid'')) \<and>
   (validate_payment e orderId userId amt paymentMethod key = None \<and> no_faults e \<and>
    ''PAY_'' @ projr (new_id e) \<notin> payment_id ` set (payments d) \<and>
    key \<notin> idempotency_key ` set (payments d) \<longrightarrow>
      (\<exists>d' r row. createPayment e d orderId userId amt paymentMethod key cardResult = (d', Inr r) \<and>
         payments d' = payments d @ [row] \<and> amount row = amt))"
proof (intro conjI impI)
  show "isValidAmount amt \<longleftrightarrow> (\<exists>r. amt = Val (Fin r) \<and> lit_0_01 \<le> r \<and> r \<le> 10000000)"
    by (rule isValidAmount_iff)
  show "validate_payment e orderId userId amt paymentMethod key = None \<longleftrightarrow>
      isValidUserId orderId \<and> isValidUserId userId \<and> isValidAmount amt \<and>
      isValidPaymentMethod paymentMethod \<and> (\<exists>k. key = Val k \<and> k \<noteq> [])"
    by (auto simp: validate_payment_None valid_input_def split: jsval.splits)
next
  assume "validate_payment e orderId userId amt paymentMethod key \<noteq> None"
  then have "\<not> valid_input orderId userId amt paymentMethod key"
    by (simp add: validate_payment_None)
  then show "\<exists>err. createPayment e d orderId userId amt paymentMethod key cardResult = (d, Inl err) \<and>
             starts_with (message err) ''Invalid''"
    by (rule createPayment_invalid)
next
  assume h: "validate_payment e orderId userId amt paymentMethod key = None \<and> no_faults e \<and>
    ''PAY_'' @ projr (new_id e) \<notin> payment_id ` set (payments d) \<and>
    key \<notin> idempotency_key ` set (payments d)"
  then have v: "valid_input orderId userId amt paymentMethod key"
    by (simp add: validate_payment_None)
  from createPayment_ok[OF v, of e d cardResult] h
  obtain d' r where c: "createPayment e d orderId userId amt paymentMethod key cardResult = (d', Inr r)"
    by blast
  from createPayment_grows[OF c] c
  show "\<exists>d' r row. createPayment e d orderId userId amt paymentMethod key cardResult = (d', Inr r) \<and>
         payments d' = payments d @ [row] \<and> amount row = amt"
    by blast
qed

theorem createPayment_validation_witness:
  "validate_payment quiet_env (Val (Fin 42)) (Val (Fin 7)) (Val (Fin (- 5))) (Val ''card'')
      (Val ''11111111-1111-4111-8111-111111111111'') \<noteq> None \<and>
   (\<exists>err. createPayment quiet_env empty_db (Val (Fin 42)) (Val (Fin 7)) (Val (Fin (- 5)))
        (Val ''card'') (Val ''11111111-1111-4111-8111-111111111111'') None = (empty_db, Inl err) \<and>
      starts_with (message err) ''Invalid'') \<and>
   validate_payment quiet_env (Val (Fin 42)) (Val (Fin 7)) (Val (Fin 100)) (Val ''card'')
      (Val ''11111111-1111-4111-8111-111111111111'') = None \<and> no_faults quiet_env \<and>
   ''PAY_'' @ projr (new_id quiet_env) \<notin> payment_id ` set (payments empty_db) \<and>
   Val ''11111111-1111-4111-8111-111111111111'' \<notin> idempotency_key ` set (payments empty_db) \<and>
   (\<exists>d' r row. createPayment quiet_env empty_db (Val (Fin 42)) (Val (Fin 7)) (Val (Fin 100))
        (Val ''card'') (Val ''11111111-1111-4111-8111-111111111111'') None = (d', Inr r) \<and>
      payments d' = payments empty_db @ [row] \<and> amount row = Val (Fin 100))"
proof -
  have a: "validate_payment quiet_env (Val (Fin 42)) (Val (Fin 7)) (Val (Fin (- 5))) (Val ''card'')
      (Val ''11111111-1111-4111-8111-111111111111'') \<noteq> None"
    by (simp add: validate_payment_def isValidUserId_def isInteger_def isValidAmount_def)
  have b: "validate_payment quiet_env (Val (Fin 42)) (Val (Fin 7)) (Val (Fin 100)) (Val ''card'')
      (Val ''11111111-1111-4111-8111-111111111111'') = None"
    by (simp add: validate_payment_def isValidUserId_def isInteger_def isValidAmount_def
        lit_0_01_def isValidPaymentMethod_def toLowerCase_def lower_char_def validMethods_def)
  have c: "no_faults quiet_env" by (simp add: no_faults_def quiet_env_def)
  have d: "''PAY_'' @ projr (new_id quiet_env) \<notin> payment_id ` set (payments empty_db)"
    "Val ''11111111-1111-4111-8111-111111111111'' \<notin> idempotency_key ` set (payments empty_db)"
    by (simp_all add: empty_db_def)
  show ?thesis
    using a b c d
      createPayment_validation[of "Val (Fin (- 5))" quiet_env "Val (Fin 42)" "Val (Fin 7)"
        "Val ''card''" "Val ''11111111-1111-4111-8111-111111111111''" empty_db None]
      createPayment_validation[of "Val (Fin 100)" quiet_env "Val (Fin 42)" "Val (Fin 7)"
        "Val ''card''" "Val ''11111111-1111-4111-8111-111111111111''" empty_db None]
    by blast
qed

text \<open>
  C9 as stated fails on amounts below 0.01: 1/256 is finite, greater than 0 and below
  the maximum, and \<open>createPayment\<close> rejects it.
\<close>

theorem small_amount_counterexample:
  "(0::rat) < 1 / 256 \<and> (1::rat) / 256 \<le> 10000000 \<and>
   createPayment quiet_env empty_db (Val (Fin 42)) (Val (Fin 7)) (Val (Fin (1 / 256)))
     (Val ''card'') (Val ''11111111-1111-4111-8111-111111111111'') None =
   (empty_db, Inl (Error (''Invalid amount: '' @ num_text quiet_env (Fin (1 / 256)))))"
  by (simp add: createPayment_def validate_payment_def isValidUserId_def isInteger_def
      isValidAmount_def lit_0_01_def)

section \<open>A card result handed to the service (C1)\<close>

lemma createPayment_card:
  assumes "createPayment e d orderId userId amt paymentMethod key (Some c) = (d', Inr r)"
  shows "res_status r = Completed \<and> res_transactionId r = Some (cr_transactionId c) \<and>
     (\<exists>row. payments d' = payments d @ [row] \<and> payment_id row = res_paymentId r \<and>
        status row = Completed \<and> transaction_id row = Some (cr_transactionId c))"
proof -
  from createPayment_Inr[OF assms]
  have "payment_transaction e (payments d) orderId userId amt paymentMethod key (Some c) = Inr (payments d', r)"
    by simp
  from payment_transaction_Inr[OF this] show ?thesis
    by (auto simp: gateway_step_def pending_row_def)
qed

lemma payment_transaction_card_no_gateway:
  "payment_transaction (e\<lparr>gateway_roll := g, gateway_txn := t\<rparr>) tbl orderId userId amt paymentMethod key (Some c) =
   payment_transaction e tbl orderId userId amt paymentMethod key (Some c)"
  by (simp add: payment_transaction_def insert_payment_def gateway_step_def approvePayment_def
      failPayment_def Let_def split: option.splits sum.splits)

lemma createPayment_card_no_gateway:
  "createPayment (e\<lparr>gateway_roll := g, gateway_txn := t\<rparr>) d orderId userId amt paymentMethod key (Some c) =
   createPayment e d orderId userId amt paymentMethod key (Some c)"
  by (simp add: createPayment_def validate_payment_def payment_transaction_card_no_gateway
      rollback_def split: option.splits sum.splits)

lemma payment_handler_card_failed:
  assumes "order_fetch re = Inr (Some ord)" "o_status ord = ''pending''" "req_card_data req"
    "req_payment_method req = Val ''credit_card'' \<or> req_payment_method req = Val ''debit_card''"
    "\<not> cr_success (card_charge re)"
  shows "payment_handler re st req =
     (st, \<lparr>http_status = 422,
           http_body = Error_reply (cr_error (card_charge re)) ''CARD_PAYMENT_FAILED'' None\<rparr>)"
  using assms by (auto simp: payment_handler_def card_step_def)

lemma quiet_valid: "valid_input (Val (Fin 42)) (Val (Fin 7)) (Val (Fin 100)) (Val ''credit_card'')
      (Val ''11111111-1111-4111-8111-111111111111'')"
  by (simp add: valid_input_def isValidUserId_def isInteger_def isValidAmount_def lit_0_01_def
   isValidPaymentMethod_def toLowerCase_def lower_char_def validMethods_def)

text \<open>
  C1, as the code has it. With a card result present, \<open>createPayment\<close> does not read the
  result's own verdict: whenever it returns, the payment is \<open>completed\<close> with the result's
  transaction identifier, both in the returned object and in the row; on valid input
  where nothing rejects it does return; and the simulated gateway is not asked, so its
  outcome changes nothing. A card result that reports a failure does not reach
  \<open>createPayment\<close> through the route: the handler answers 422 \<open>CARD_PAYMENT_FAILED\<close> with
  the result's error and leaves the state as it was.
\<close>

theorem createPayment_card_result:
  "(\<forall>d' r. createPayment e d orderId userId amt paymentMethod key (Some c) = (d', Inr r) \<longrightarrow>
      res_status r = Completed \<and> res_transactionId r = Some (cr_transactionId c) \<and>
      (\<exists>row. payments d' = payments d @ [row] \<and> payment_id row = res_paymentId r \<and>
         status row = Completed \<and> transaction_id row = Some (cr_transactionId c))) \<and>
   (valid_input orderId userId amt paymentMethod key \<and> no_faults e \<and>
    ''PAY_'' @ projr (new_id e) \<notin> payment_id ` set (payments d) \<and>
    key \<notin> idempotency_key ` set (payments d) \<longrightarrow>
      (\<exists>d' r. createPayment e d orderId userId amt paymentMethod key (Some c) = (d', Inr r))) \<and>
   createPayment (e\<lparr>gateway_roll := g, gateway_txn := t\<rparr>) d orderId userId amt paymentMethod key (Some c) =
     createPayment e d orderId userId amt paymentMethod key (Some c) \<and>
   (order_fetch re = Inr (Some ord) \<and> o_status ord = ''pending'' \<and> req_card_data req \<and>
    (req_payment_method req = Val ''credit_card'' \<or> req_payment_method req = Val ''debit_card'') \<and>
    \<not> cr_success (card_charge re) \<longrightarrow>
      payment_handler re st req =
        (st, \<lparr>http_status = 422,
              http_body = Error_reply (cr_error (card_charge re)) ''CARD_PAYMENT_FAILED'' None\<rparr>))"
  using createPayment_card[where e = e and d = d and orderId = orderId and userId = userId
      and amt = amt and paymentMethod = paymentMethod and key = key and c = c]
    createPayment_ok[where e = e and d = d and orderId = orderId and userId = userId
      and amt = amt and paymentMethod = paymentMethod and key = key and cardResult = "Some c"]
    createPayment_card_no_gateway[where e = e and d = d and orderId = orderId and userId = userId
      and amt = amt and paymentMethod = paymentMethod and key = key and c = c and g = g and t = t]
    payment_handler_card_failed[where re = re and ord = ord and req = req and st = st]
  by blast

theorem createPayment_card_result_witness:
  "valid_input (Val (Fin 42)) (Val (Fin 7)) (Val (Fin 100)) (Val ''credit_card'')
      (Val ''11111111-1111-4111-8111-111111111111'') \<and> no_faults quiet_env \<and>
   ''PAY_'' @ projr (new_id quiet_env) \<notin> payment_id ` set (payments empty_db) \<and>
   Val ''11111111-1111-4111-8111-111111111111'' \<notin> idempotency_key ` set (payments empty_db) \<and>
   (\<exists>d' r. createPayment quiet_env empty_db (Val (Fin 42)) (Val (Fin 7)) (Val (Fin 100))
       (Val ''credit_card'') (Val ''11111111-1111-4111-8111-111111111111'')
       (Some (card_charge quiet_route)) = (d', Inr r) \<and> res_status r = Completed \<and>
       res_transactionId r = Some (cr_transactionId (card_charge quiet_route))) \<and>
   order_fetch (quiet_route\<lparr>card_charge := declined_card\<rparr>) =
     Inr (Some \<lparr>o_user_id = Val (Fin 7), o_total_price = Val (Fin 100), o_status = ''pending''\<rparr>) \<and>
   req_card_data (card_request\<lparr>req_payment_method := Val ''credit_card'', req_card_data := True\<rparr>) \<and>
   \<not> cr_success (card_charge (quiet_route\<lparr>card_charge := declined_card\<rparr>)) \<and>
   payment_handler (quiet_route\<lparr>card_charge := declined_card\<rparr>) empty_state
       (card_request\<lparr>req_payment_method := Val ''credit_card'', req_card_data := True\<rparr>) =
     (empty_state, \<lparr>http_status = 422,
        http_body = Error_reply ''Card declined'' ''CARD_PAYMENT_FAILED'' None\<rparr>)"
proof -
  have a: "no_faults quiet_env" by (simp add: no_faults_def quiet_env_def)
  have b: "''PAY_'' @ projr (new_id quiet_env) \<notin> payment_id ` set (payments empty_db)"
    "Val ''11111111-1111-4111-8111-111111111111'' \<notin> idempotency_key ` set (payments empty_db)"
    by (simp_all add: empty_db_def)
  have c: "order_fetch (quiet_route\<lparr>card_charge := declined_card\<rparr>) =
     Inr (Some \<lparr>o_user_id = Val (Fin 7), o_total_price = Val (Fin 100), o_status = ''pending''\<rparr>)"
    "req_card_data (card_request\<lparr>req_payment_method := Val ''credit_card'', req_card_data := True\<rparr>)"
    "req_payment_method (card_request\<lparr>req_payment_method := Val ''credit_card'', req_card_data := True\<rparr>) = Val ''credit_card''"
    "\<not> cr_success (card_charge (quiet_route\<lparr>card_charge := declined_card\<rparr>))"
    "cr_error (card_charge (quiet_route\<lparr>card_charge := declined_card\<rparr>)) = ''Card declined''"
    by (simp_all add: quiet_route_def card_request_def declined_card_def)
  show ?thesis
    using quiet_valid a b c
      createPayment_card_result[where e = quiet_env and d = empty_db and orderId = "Val (Fin 42)"
        and userId = "Val (Fin 7)" and amt = "Val (Fin 100)" and paymentMethod = "Val ''credit_card''"
        and key = "Val ''11111111-1111-4111-8111-111111111111''"
        and c = "card_charge quiet_route"
        and re = "quiet_route\<lparr>card_charge := declined_card\<rparr>"
        and ord = "\<lparr>o_user_id = Val (Fin 7), o_total_price = Val (Fin 100), o_status = ''pending''\<rparr>"
        and req = "card_request\<lparr>req_payment_method := Val ''credit_card'', req_card_data := True\<rparr>"
        and st = empty_state]
    by simp blast
qed

text \<open>
  C1 as stated fails: a card result whose verdict is failure makes \<open>createPayment\<close>
  complete the payment.
\<close>

theorem failed_card_result_counterexample:
  "\<not> cr_success declined_card \<and>
   createPayment quiet_env empty_db (Val (Fin 42)) (Val (Fin 7)) (Val (Fin 100))
     (Val ''credit_card'') (Val ''11111111-1111-4111-8111-111111111111'') (Some declined_card) =
   (\<lparr>payments = [\<lparr>payment_id = ''PAY_1700000000000_00a1b2c3d4e5f607'', order_id = Val (Fin 42),
        user_id = Val (Fin 7), amount = Val (Fin 100), payment_method = Val ''credit_card'',
        status = Completed, transaction_id = Some ''TXN-1700000000000-ABCDEFGHI'',
        gateway_response = None,
        idempotency_key = Val ''11111111-1111-4111-8111-111111111111''\<rparr>],
      payment_cancellations = []\<rparr>,
    Inr \<lparr>res_paymentId = ''PAY_1700000000000_00a1b2c3d4e5f607'', res_status = Completed,
         res_transactionId = Some ''TXN-1700000000000-ABCDEFGHI'', res_errorMessage = None\<rparr>)"
  by (simp add: declined_card_def createPayment_def validate_payment_def isValidUserId_def
      isInteger_def isValidAmount_def lit_0_01_def isValidPaymentMethod_def toLowerCase_def
      lower_char_def validMethods_def quiet_env_def empty_db_def payment_transaction_def
      insert_payment_def gateway_step_def approvePayment_def update_payment_def affectedRows_def
      Let_def)

section \<open>Rollback of a payment that throws (C5)\<close>

lemma payment_transaction_raised:
  assumes "begin_fault e = None" "new_id e = Inr tok"
    "insert_payment e (pending_row (''PAY_'' @ tok) orderId userId amt paymentMethod key) tbl = Inr tbl1"
    "gateway_step e cardResult = Inl err \<or>
     (\<exists>gw. gateway_step e cardResult = Inr gw \<and>
        (update_fault e = Some err \<or>
         update_fault e = None \<and> select_fault e = Some err \<or>
         update_fault e = None \<and> select_fault e = None \<and> commit_fault e = Some err))"
  shows "payment_transaction e tbl orderId userId amt paymentMethod key cardResult = Inl err"
proof -
  from insert_payment_Inr[OF assms(3)]
  have t: "tbl1 = tbl @ [pending_row (''PAY_'' @ tok) orderId userId amt paymentMethod key]"
    "''PAY_'' @ tok \<notin> payment_id ` set tbl"
    by (simp_all add: pending_row_def)
  have pid: "payment_id (pending_row (''PAY_'' @ tok) orderId userId amt paymentMethod key) = ''PAY_'' @ tok"
    by (simp add: pending_row_def)
  from assms(4) show ?thesis
  proof
    assume "gateway_step e cardResult = Inl err"
    with assms(1-3) show ?thesis
      by (simp add: payment_transaction_def Let_def pending_row_def)
  next
    assume "\<exists>gw. gateway_step e cardResult = Inr gw \<and>
        (update_fault e = Some err \<or>
         update_fault e = None \<and> select_fault e = Some err \<or>
         update_fault e = None \<and> select_fault e = None \<and> commit_fault e = Some err)"
    then obtain gw where gw: "gateway_step e cardResult = Inr gw" and
      f: "update_fault e = Some err \<or>
         update_fault e = None \<and> select_fault e = Some err \<or>
         update_fault e = None \<and> select_fault e = None \<and> commit_fault e = Some err"
      by blast
    have ap: "\<And>txn. approvePayment e (''PAY_'' @ tok) txn tbl1 = Inl err \<or>
       (\<exists>tbl2. approvePayment e (''PAY_'' @ tok) txn tbl1 = Inr tbl2 \<and> commit_fault e = Some err)"
      using f t pid
      by (auto simp: approvePayment_def Let_def affectedRows_def update_payment_snoc)
    have fp: "\<And>msg. failPayment e (''PAY_'' @ tok) msg tbl1 = Inl err \<or>
       (\<exists>tbl2. failPayment e (''PAY_'' @ tok) msg tbl1 = Inr tbl2 \<and> commit_fault e = Some err)"
      using f t pid
      by (auto simp: failPayment_def Let_def affectedRows_def update_payment_snoc)
    show ?thesis
    proof (cases gw)
      case (GwSuccess txn)
      with ap[of txn] assms(1-3) gw show ?thesis
        by (auto simp: payment_transaction_def Let_def pending_row_def)
    next
      case (GwFailure msg)
      with fp[of msg] assms(1-3) gw show ?thesis
        by (auto simp: payment_transaction_def Let_def pending_row_def)
    qed
  qed
qed

lemma createPayment_throws:
  assumes "valid_input orderId userId amt paymentMethod key" "conn_fault e = None"
    "payment_transaction e (payments d) orderId userId amt paymentMethod key cardResult = Inl err"
  shows "createPayment e d orderId userId amt paymentMethod key cardResult = (d, Inl err)"
  using assms validate_payment_None[of e orderId userId amt paymentMethod key]
  by (simp add: createPayment_def rollback_def)

lemma card_valid: "valid_input (Val (Fin 42)) (Val (Fin 7)) (Val (Fin 100)) (Val ''card'')
      (Val ''11111111-1111-4111-8111-111111111111'')"
  by (simp add: valid_input_def isValidUserId_def isInteger_def isValidAmount_def lit_0_01_def
   isValidPaymentMethod_def toLowerCase_def lower_char_def validMethods_def)

text \<open>
  C5. On valid input with the connection open and the pending row inserted, an
  exception raised before the commit has returned (by the gateway step, by the update or
  the select of \<open>approvePayment\<close> or \<open>failPayment\<close>, or by the commit) is the error
  \<open>createPayment\<close> throws, also when the rollback itself rejects, and the tables are those
  of before the call. More generally, whenever \<open>createPayment\<close> throws, the tables are
  unchanged.
\<close>

theorem createPayment_rollback:
  "(valid_input orderId userId amt paymentMethod key \<and> conn_fault e = None \<and> begin_fault e = None \<and>
    new_id e = Inr tok \<and>
    insert_payment e (pending_row (''PAY_'' @ tok) orderId userId amt paymentMethod key) (payments d)
      = Inr inserted \<and>
    (gateway_step e cardResult = Inl err \<or>
     (\<exists>gw. gateway_step e cardResult = Inr gw \<and>
        (update_fault e = Some err \<or>
         update_fault e = None \<and> select_fault e = Some err \<or>
         update_fault e = None \<and> select_fault e = None \<and> commit_fault e = Some err))) \<longrightarrow>
      createPayment e d orderId userId amt paymentMethod key cardResult = (d, Inl err)) \<and>
   (\<forall>d' err'. createPayment e d orderId userId amt paymentMethod key cardResult = (d', Inl err') \<longrightarrow> d' = d)"
proof (intro conjI impI allI)
  assume h: "valid_input orderId userId amt paymentMethod key \<and> conn_fault e = None \<and> begin_fault e = None \<and>
    new_id e = Inr tok \<and>
    insert_payment e (pending_row (''PAY_'' @ tok) orderId userId amt paymentMethod key) (payments d)
      = Inr inserted \<and>
    (gateway_step e cardResult = Inl err \<or>
     (\<exists>gw. gateway_step e cardResult = Inr gw \<and>
        (update_fault e = Some err \<or>
         update_fault e = None \<and> select_fault e = Some err \<or>
         update_fault e = None \<and> select_fault e = None \<and> commit_fault e = Some err)))"
  then have "payment_transaction e (payments d) orderId userId amt paymentMethod key cardResult = Inl err"
    using payment_transaction_raised[of e tok orderId userId amt paymentMethod key "payments d" inserted cardResult err]
    by blast
  with h show "createPayment e d orderId userId amt paymentMethod key cardResult = (d, Inl err)"
    using createPayment_throws by blast
next
  fix d' err'
  assume "createPayment e d orderId userId amt paymentMethod key cardResult = (d', Inl err')"
  then show "d' = d" by (rule createPayment_Inl)
qed

theorem createPayment_rollback_witness:
  "valid_input (Val (Fin 42)) (Val (Fin 7)) (Val (Fin 100)) (Val ''card'')
      (Val ''11111111-1111-4111-8111-111111111111'') \<and>
   insert_payment (quiet_env\<lparr>update_fault := Some deadlock, rollback_fault := Some deadlock\<rparr>)
     (pending_row (''PAY_'' @ ''1700000000000_00a1b2c3d4e5f607'') (Val (Fin 42)) (Val (Fin 7))
        (Val (Fin 100)) (Val ''card'') (Val ''11111111-1111-4111-8111-111111111111''))
     (payments empty_db) =
     Inr [pending_row (''PAY_'' @ ''1700000000000_00a1b2c3d4e5f607'') (Val (Fin 42)) (Val (Fin 7))
        (Val (Fin 100)) (Val ''card'') (Val ''11111111-1111-4111-8111-111111111111'')] \<and>
   gateway_step (quiet_env\<lparr>update_fault := Some deadlock, rollback_fault := Some deadlock\<rparr>) None =
     Inr (GwSuccess ''TXN_1700000000000_0a1b2c3d4e5f60718293a4b5'') \<and>
   createPayment (quiet_env\<lparr>update_fault := Some deadlock, rollback_fault := Some deadlock\<rparr>)
     empty_db (Val (Fin 42)) (Val (Fin 7)) (Val (Fin 100)) (Val ''card'')
     (Val ''11111111-1111-4111-8111-111111111111'') None = (empty_db, Inl deadlock)"
proof -
  let ?e = "quiet_env\<lparr>update_fault := Some deadlock, rollback_fault := Some deadlock\<rparr>"
  have a: "conn_fault ?e = None" "begin_fault ?e = None"
    "new_id ?e = Inr ''1700000000000_00a1b2c3d4e5f607''" "update_fault ?e = Some deadlock"
    by (simp_all add: quiet_env_def)
  have b: "insert_payment ?e
     (pending_row (''PAY_'' @ ''1700000000000_00a1b2c3d4e5f607'') (Val (Fin 42)) (Val (Fin 7))
        (Val (Fin 100)) (Val ''card'') (Val ''11111111-1111-4111-8111-111111111111''))
     (payments empty_db) =
     Inr [pending_row (''PAY_'' @ ''1700000000000_00a1b2c3d4e5f607'') (Val (Fin 42)) (Val (Fin 7))
        (Val (Fin 100)) (Val ''card'') (Val ''11111111-1111-4111-8111-111111111111'')]"
    by (simp add: insert_payment_def quiet_env_def empty_db_def)
  have c: "gateway_step ?e None = Inr (GwSuccess ''TXN_1700000000000_0a1b2c3d4e5f60718293a4b5'')"
    by (simp add: gateway_step_def processPaymentGateway_def quiet_env_def)
  show ?thesis
    using card_valid a b c
      createPayment_rollback[where e = ?e and d = empty_db and orderId = "Val (Fin 42)"
        and userId = "Val (Fin 7)" and amt = "Val (Fin 100)" and paymentMethod = "Val ''card''"
        and key = "Val ''11111111-1111-4111-8111-111111111111''" and cardResult = None
        and tok = "''1700000000000_00a1b2c3d4e5f607''" and err = deadlock
        and inserted = "[pending_row (''PAY_'' @ ''1700000000000_00a1b2c3d4e5f607'') (Val (Fin 42))
          (Val (Fin 7)) (Val (Fin 100)) (Val ''card'') (Val ''11111111-1111-4111-8111-111111111111'')]"]
    by blast
qed

section \<open>Cancellation (C6)\<close>

lemma filter_unique:
  assumes "distinct (map f xs)" "x \<in> set xs"
  shows "filter (\<lambda>y. f y = f x) xs = [x]"
  using assms
proof (induction xs)
  case Nil
  then show ?case by simp
next
  case (Cons a xs)
  show ?case
  proof (cases "a = x")
    case True
    with Cons.prems have "f x \<notin> f ` set xs" by simp
    then have "\<forall>y \<in> set xs. f y \<noteq> f x" by (metis imageI)
    then have "filter (\<lambda>y. f y = f x) xs = []" by (simp add: filter_empty_conv)
    with True show ?thesis by simp
  next
    case False
    with Cons.prems have "x \<in> set xs" "f a \<noteq> f x" by auto
    with Cons show ?thesis by simp
  qed
qed

lemma cancel_transaction_Inr:
  assumes "cancel_transaction e d pid rsn cancelledBy = Inr (d', r)"
  shows "\<exists>p ps tok. filter (\<lambda>p. payment_id p = pid) (payments d) = p # ps \<and>
     status p = Completed \<and> new_id e = Inr tok \<and>
     ''CAN_'' @ tok \<notin> cancellation_id ` set (payment_cancellations d) \<and>
     r = \<lparr>cancellationId = ''CAN_'' @ tok, cancel_status = Cancelled\<rparr> \<and>
     d' = \<lparr>payments = update_payment pid (\<lambda>p. p\<lparr>status := Cancelled\<rparr>) (payments d),
           payment_cancellations = payment_cancellations d @
             [\<lparr>cancellation_id = ''CAN_'' @ tok, cancelled_payment = pid, reason = rsn,
               cancelled_by = cancelledBy\<rparr>]\<rparr>"
  using assms
  by (auto simp: cancel_transaction_def insert_cancellation_def Let_def
      split: option.splits list.splits if_splits sum.splits)

lemma cancel_transaction_ok:
  assumes "no_faults e" "filter (\<lambda>p. payment_id p = pid) (payments d) = p # ps"
    "status p = Completed"
    "''CAN_'' @ projr (new_id e) \<notin> cancellation_id ` set (payment_cancellations d)"
  shows "\<exists>d' r. cancel_transaction e d pid rsn cancelledBy = Inr (d', r)"
  using assms
  by (cases "new_id e")
     (auto simp: cancel_transaction_def insert_cancellation_def Let_def no_faults_def)

lemma cancel_transaction_not_completed:
  assumes "begin_fault e = None" "select_fault e = None"
    "filter (\<lambda>p. payment_id p = pid) (payments d) = p # ps" "status p \<noteq> Completed"
  shows "cancel_transaction e d pid rsn cancelledBy =
     Inl (Error ''Only completed payments can be cancelled'')"
  using assms by (simp add: cancel_transaction_def)

lemma cancelPayment_Inl:
  "cancelPayment e d paymentId rsn cancelledBy = (d', Inl err) \<Longrightarrow> d' = d"
  by (auto simp: cancelPayment_def rollback_def
      split: jsval.splits if_splits option.splits sum.splits)

lemma cancelPayment_Inr:
  assumes "cancelPayment e d paymentId rsn cancelledBy = (d', Inr r)"
  shows "\<exists>pid. paymentId = Val pid \<and> pid \<noteq> [] \<and>
     cancel_transaction e d pid rsn cancelledBy = Inr (d', r)"
  using assms
  by (auto simp: cancelPayment_def rollback_def
      split: jsval.splits if_splits option.splits sum.splits)

lemma cancelPayment_effects:
  assumes "cancelPayment e d paymentId rsn cancelledBy = (d', res)"
  shows "case res of
         Inl err \<Rightarrow> d' = d
       | Inr r \<Rightarrow> \<exists>pid tok. paymentId = Val pid \<and> new_id e = Inr tok \<and>
            cancellationId r = ''CAN_'' @ tok \<and> cancel_status r = Cancelled \<and>
            payment_cancellations d' = payment_cancellations d @
              [\<lparr>cancellation_id = ''CAN_'' @ tok, cancelled_payment = pid, reason = rsn,
                cancelled_by = cancelledBy\<rparr>] \<and>
            payments d' = update_payment pid (\<lambda>p. p\<lparr>status := Cancelled\<rparr>) (payments d)"
proof (cases res)
  case (Inl err)
  with assms show ?thesis using cancelPayment_Inl by fastforce
next
  case (Inr r)
  with assms obtain pid where p: "paymentId = Val pid"
    "cancel_transaction e d pid rsn cancelledBy = Inr (d', r)"
    using cancelPayment_Inr by blast
  from cancel_transaction_Inr[OF p(2)] p(1) Inr show ?thesis by auto
qed

lemma cancelPayment_succeeds_iff:
  assumes "no_faults e" "unique_keys d" "pid \<noteq> []"
    "''CAN_'' @ projr (new_id e) \<notin> cancellation_id ` set (payment_cancellations d)"
  shows "(\<exists>r. snd (cancelPayment e d (Val pid) rsn cancelledBy) = Inr r) \<longleftrightarrow>
     (\<exists>p \<in> set (payments d). payment_id p = pid \<and> status p = Completed)"
proof
  assume "\<exists>r. snd (cancelPayment e d (Val pid) rsn cancelledBy) = Inr r"
  then obtain d' r where "cancelPayment e d (Val pid) rsn cancelledBy = (d', Inr r)"
    by (metis prod.collapse)
  from cancelPayment_Inr[OF this]
  have "cancel_transaction e d pid rsn cancelledBy = Inr (d', r)" by simp
  from cancel_transaction_Inr[OF this] obtain p ps where
    f: "filter (\<lambda>p. payment_id p = pid) (payments d) = p # ps" "status p = Completed"
    by blast
  then have "p \<in> set (filter (\<lambda>p. payment_id p = pid) (payments d))" by simp
  with f(2) show "\<exists>p \<in> set (payments d). payment_id p = pid \<and> status p = Completed"
    by auto
next
  assume "\<exists>p \<in> set (payments d). payment_id p = pid \<and> status p = Completed"
  then obtain p where p: "p \<in> set (payments d)" "payment_id p = pid" "status p = Completed"
    by blast
  from assms(2) have "distinct (map payment_id (payments d))" by (simp add: unique_keys_def)
  from filter_unique[OF this p(1)] p(2)
  have "filter (\<lambda>p. payment_id p = pid) (payments d) = [p]" by simp
  from cancel_transaction_ok[OF assms(1) this p(3) assms(4)]
  obtain d' r where "cancel_transaction e d pid rsn cancelledBy = Inr (d', r)" by blast
  with assms(1,3) show "\<exists>r. snd (cancelPayment e d (Val pid) rsn cancelledBy) = Inr r"
    by (simp add: cancelPayment_def no_faults_def)
qed

lemma cancelPayment_not_completed:
  assumes "no_faults e" "unique_keys d" "pid \<noteq> []"
    "\<exists>p \<in> set (payments d). payment_id p = pid \<and> status p \<noteq> Completed"
  shows "cancelPayment e d (Val pid) rsn cancelledBy =
     (d, Inl (Error ''Only completed payments can be cancelled''))"
proof -
  from assms(4) obtain p where
    p: "p \<in> set (payments d)" "payment_id p = pid" "status p \<noteq> Completed"
    by blast
  from assms(2) have "distinct (map payment_id (payments d))" by (simp add: unique_keys_def)
  from filter_unique[OF this p(1)] p(2)
  have "filter (\<lambda>p. payment_id p = pid) (payments d) = [p]" by simp
  from cancel_transaction_not_completed[OF _ _ this p(3), of e rsn cancelledBy] assms(1)
  have "cancel_transaction e d pid rsn cancelledBy =
     Inl (Error ''Only completed payments can be cancelled'')"
    by (simp add: no_faults_def)
  with assms(1,3) show ?thesis
    by (simp add: cancelPayment_def rollback_def no_faults_def)
qed

lemma update_payment_ids: "map payment_id (update_payment pid (\<lambda>p. p\<lparr>status := s\<rparr>) tbl) = map payment_id tbl"
  by (induction tbl) (auto simp: update_payment_def)

lemma update_payment_keys: "map idempotency_key (update_payment pid (\<lambda>p. p\<lparr>status := s\<rparr>) tbl) = map idempotency_key tbl"
  by (induction tbl) (auto simp: update_payment_def)

lemma cancelPayment_twice:
  assumes "unique_keys d" "cancelPayment e d (Val pid) rsn cancelledBy = (d', Inr r)"
    "no_faults e2"
  shows "cancelPayment e2 d' (Val pid) rsn2 cancelledBy2 =
     (d', Inl (Error ''Only completed payments can be cancelled''))"
proof -
  from cancelPayment_Inr[OF assms(2)]
  have ne: "pid \<noteq> []" and ct: "cancel_transaction e d pid rsn cancelledBy = Inr (d', r)"
    by simp_all
  from cancel_transaction_Inr[OF ct] obtain p ps where
    f: "filter (\<lambda>p. payment_id p = pid) (payments d) = p # ps"
    and d': "payments d' = update_payment pid (\<lambda>p. p\<lparr>status := Cancelled\<rparr>) (payments d)"
    by auto
  from f have "p \<in> set (filter (\<lambda>p. payment_id p = pid) (payments d))" by simp
  then have p: "p \<in> set (payments d)" "payment_id p = pid" by auto
  then have "p\<lparr>status := Cancelled\<rparr> \<in> set (payments d')"
    unfolding d' update_payment_def by force
  then have ex: "\<exists>q \<in> set (payments d'). payment_id q = pid \<and> status q \<noteq> Completed"
    using p(2) by (intro bexI[of _ "p\<lparr>status := Cancelled\<rparr>"]) simp_all
  from assms(1) d' have "unique_keys d'"
    by (simp add: unique_keys_def update_payment_ids update_payment_keys)
  from cancelPayment_not_completed[OF assms(3) this ne ex] show ?thesis .
qed

section \<open>The state machine of a payment's status (C7)\<close>

lemma getPaymentById_same: "getPaymentById e d paymentId = (d', r) \<Longrightarrow> d' = d"
  by (auto simp: getPaymentById_def split: jsval.splits if_splits option.splits list.splits)

lemma unique_by_id:
  assumes "distinct (map payment_id tbl)" "p \<in> set tbl" "q \<in> set tbl" "payment_id p = payment_id q"
  shows "p = q"
  using assms by (meson distinct_map inj_onD)

lemma submit_step:
  assumes u: "unique_keys d" and c: "createPayment e d orderId userId amt paymentMethod key cardResult = (d', r)"
  shows "unique_keys d' \<and>
     (\<forall>p \<in> set (payments d). p \<in> set (payments d')) \<and>
     (\<forall>p' \<in> set (payments d'). payment_id p' \<notin> payment_id ` set (payments d) \<longrightarrow>
        transition Pending (status p'))"
proof (cases r)
  case (Inl err)
  with c have "d' = d" using createPayment_Inl by blast
  with u show ?thesis by auto
next
  case (Inr res)
  with c have "createPayment e d orderId userId amt paymentMethod key cardResult = (d', Inr res)" by simp
  from createPayment_grows[OF this] obtain row where
    row: "payments d' = payments d @ [row]" "payment_id row \<notin> payment_id ` set (payments d)"
      "idempotency_key row = key" "key \<notin> idempotency_key ` set (payments d)"
      "transition Pending (status row)"
    by blast
  from u row(1-4) have "unique_keys d'" by (simp add: unique_keys_def)
  moreover have "\<forall>p \<in> set (payments d). p \<in> set (payments d')" using row(1) by simp
  moreover have "\<forall>p' \<in> set (payments d'). payment_id p' \<notin> payment_id ` set (payments d) \<longrightarrow>
        transition Pending (status p')"
    using row(1,5) by auto
  ultimately show ?thesis by blast
qed

lemma cancel_step:
  assumes u: "unique_keys d" and c: "cancelPayment e d paymentId rsn cancelledBy = (d', r)"
  shows "unique_keys d' \<and> map payment_id (payments d') = map payment_id (payments d) \<and>
     (\<forall>p \<in> set (payments d). \<exists>p' \<in> set (payments d'). payment_id p' = payment_id p \<and>
        (status p' = status p \<or> status p = Completed \<and> status p' = Cancelled))"
proof (cases r)
  case (Inl err)
  with c have "d' = d" using cancelPayment_Inl by blast
  with u show ?thesis by auto
next
  case (Inr res)
  with c have c': "cancelPayment e d paymentId rsn cancelledBy = (d', Inr res)" by simp
  from cancelPayment_Inr[OF c'] obtain pid where
    ct: "cancel_transaction e d pid rsn cancelledBy = Inr (d', res)" by blast
  from cancel_transaction_Inr[OF ct] obtain q qs where
    f: "filter (\<lambda>p. payment_id p = pid) (payments d) = q # qs" "status q = Completed"
    and d': "payments d' = update_payment pid (\<lambda>p. p\<lparr>status := Cancelled\<rparr>) (payments d)"
    by auto
  from f(1) have "q \<in> set (filter (\<lambda>p. payment_id p = pid) (payments d))" by simp
  then have q: "q \<in> set (payments d)" "payment_id q = pid" by auto
  from u have dist: "distinct (map payment_id (payments d))" by (simp add: unique_keys_def)
  have ids: "map payment_id (payments d') = map payment_id (payments d)"
    unfolding d' by (rule update_payment_ids)
  have "unique_keys d'" using u d'
    by (simp add: unique_keys_def update_payment_ids update_payment_keys)
  moreover have "\<forall>p \<in> set (payments d). \<exists>p' \<in> set (payments d'). payment_id p' = payment_id p \<and>
        (status p' = status p \<or> status p = Completed \<and> status p' = Cancelled)"
  proof
    fix p assume p: "p \<in> set (payments d)"
    show "\<exists>p' \<in> set (payments d'). payment_id p' = payment_id p \<and>
        (status p' = status p \<or> status p = Completed \<and> status p' = Cancelled)"
    proof (cases "payment_id p = pid")
      case True
      with unique_by_id[OF dist p q(1)] q(2) have "p = q" by simp
      with f(2) have "status p = Completed" by simp
      moreover from p True have "p\<lparr>status := Cancelled\<rparr> \<in> set (payments d')"
        unfolding d' update_payment_def by force
      ultimately show ?thesis
        by (intro bexI[of _ "p\<lparr>status := Cancelled\<rparr>"]) simp_all
    next
      case False
      with p have "p \<in> set (payments d')" unfolding d' update_payment_def by force
      then show ?thesis by (intro bexI[of _ p]) simp_all
    qed
  qed
  ultimately show ?thesis using ids by blast
qed

lemma op_step_status:
  assumes "unique_keys d" "op_step d d'"
  shows "unique_keys d' \<and>
     (\<forall>p \<in> set (payments d). \<exists>p' \<in> set (payments d'). payment_id p' = payment_id p \<and>
        (status p' = status p \<or> status p = Completed \<and> status p' = Cancelled)) \<and>
     (\<forall>p' \<in> set (payments d'). payment_id p' \<notin> payment_id ` set (payments d) \<longrightarrow>
        transition Pending (status p'))"
  using assms(2)
proof (cases rule: op_step.cases)
  case (submit e orderId userId amt paymentMethod key cardResult r)
  from submit_step[OF assms(1) submit] show ?thesis by blast
next
  case (cancel e paymentId rsn cancelledBy r)
  from cancel_step[OF assms(1) cancel]
  have a: "unique_keys d'" "map payment_id (payments d') = map payment_id (payments d)"
    "\<forall>p \<in> set (payments d). \<exists>p' \<in> set (payments d'). payment_id p' = payment_id p \<and>
        (status p' = status p \<or> status p = Completed \<and> status p' = Cancelled)"
    by blast+
  from a(2) have "payment_id ` set (payments d') = payment_id ` set (payments d)"
    by (metis list.set_map)
  with a show ?thesis by blast
next
  case (get e paymentId r)
  then have "d' = d" by (rule getPaymentById_same)
  with assms(1) show ?thesis by auto
qed

lemma transition_rtrancl_terminal:
  assumes "transition\<^sup>*\<^sup>* s s'"
  shows "(s = Failed \<or> s = Cancelled \<longrightarrow> s' = s) \<and> (s' = Pending \<longrightarrow> s = Pending)"
  using assms
proof (induction rule: rtranclp_induct)
  case base
  have "\<forall>p \<in> set (payments d). \<exists>p' \<in> set (payments d). payment_id p' = payment_id p \<and>
        transition\<^sup>*\<^sup>* (status p) (status p')"
  proof
    fix p assume "p \<in> set (payments d)"
    then show "\<exists>p' \<in> set (payments d). payment_id p' = payment_id p \<and>
        transition\<^sup>*\<^sup>* (status p) (status p')"
      by (intro bexI[of _ p]) simp_all
  qed
  with base show ?case by simp
next
  case (step y z)
  from step.hyps(2)
  have "y = Pending \<and> (z = Completed \<or> z = Failed) \<or> y = Completed \<and> z = Cancelled"
    by (simp add: transition_def)
  with step.IH show ?case by (cases s) blast+
qed

lemma transition_or_same:
  "s' = s \<or> s = Completed \<and> s' = Cancelled \<Longrightarrow> transition\<^sup>*\<^sup>* s s'"
proof (erule disjE)
  assume "s' = s"
  then show ?thesis by simp
next
  assume "s = Completed \<and> s' = Cancelled"
  then have "transition s s'" by (simp add: transition_def)
  then show ?thesis by (rule r_into_rtranclp)
qed

lemma transition_leaves_pending: "transition\<^sup>+\<^sup>+ Pending s \<Longrightarrow> s \<noteq> Pending"
proof (induction rule: tranclp_induct)
  case (base y)
  then show ?case by (simp add: transition_def) blast
next
  case (step y z)
  from step.hyps(2) show ?case by (simp add: transition_def) blast
qed

lemma op_steps_status:
  assumes "op_step\<^sup>*\<^sup>* d d'" "unique_keys d"
  shows "unique_keys d' \<and>
     (\<forall>p \<in> set (payments d). \<exists>p' \<in> set (payments d'). payment_id p' = payment_id p \<and>
        transition\<^sup>*\<^sup>* (status p) (status p')) \<and>
     (\<forall>p' \<in> set (payments d'). payment_id p' \<notin> payment_id ` set (payments d) \<longrightarrow>
        transition\<^sup>+\<^sup>+ Pending (status p'))"
  using assms
proof (induction rule: rtranclp_induct)
  case base
  have "\<forall>p \<in> set (payments d). \<exists>p' \<in> set (payments d). payment_id p' = payment_id p \<and>
        transition\<^sup>*\<^sup>* (status p) (status p')"
  proof
    fix p assume "p \<in> set (payments d)"
    then show "\<exists>p' \<in> set (payments d). payment_id p' = payment_id p \<and>
        transition\<^sup>*\<^sup>* (status p) (status p')"
      by (intro bexI[of _ p]) simp_all
  qed
  with base show ?case by simp
next
  case (step y z)
  from step.IH[OF step.prems] have
    uy: "unique_keys y" and
    oy: "\<forall>p \<in> set (payments d). \<exists>p' \<in> set (payments y). payment_id p' = payment_id p \<and>
        transition\<^sup>*\<^sup>* (status p) (status p')" and
    ny: "\<forall>p' \<in> set (payments y). payment_id p' \<notin> payment_id ` set (payments d) \<longrightarrow>
        transition\<^sup>+\<^sup>+ Pending (status p')"
    by simp_all
  from op_step_status[OF uy step.hyps(2)] have
    uz: "unique_keys z" and
    oz: "\<forall>p \<in> set (payments y). \<exists>p' \<in> set (payments z). payment_id p' = payment_id p \<and>
        (status p' = status p \<or> status p = Completed \<and> status p' = Cancelled)" and
    nz: "\<forall>p' \<in> set (payments z). payment_id p' \<notin> payment_id ` set (payments y) \<longrightarrow>
        transition Pending (status p')"
    by simp_all
  have old: "\<forall>p \<in> set (payments d). \<exists>p' \<in> set (payments z). payment_id p' = payment_id p \<and>
        transition\<^sup>*\<^sup>* (status p) (status p')"
  proof
    fix p assume "p \<in> set (payments d)"
    with oy obtain q where q: "q \<in> set (payments y)" "payment_id q = payment_id p"
      "transition\<^sup>*\<^sup>* (status p) (status q)" by blast
    with oz obtain r where r: "r \<in> set (payments z)" "payment_id r = payment_id q"
      "status r = status q \<or> status q = Completed \<and> status r = Cancelled" by blast
    from rtranclp_trans[OF q(3) transition_or_same[OF r(3)]]
    have "transition\<^sup>*\<^sup>* (status p) (status r)" .
    with r(1,2) q(2) show "\<exists>p' \<in> set (payments z). payment_id p' = payment_id p \<and>
        transition\<^sup>*\<^sup>* (status p) (status p')" by (intro bexI[of _ r]) simp_all
  qed
  have new: "\<forall>p' \<in> set (payments z). payment_id p' \<notin> payment_id ` set (payments d) \<longrightarrow>
        transition\<^sup>+\<^sup>+ Pending (status p')"
  proof (intro ballI impI)
    fix p' assume p': "p' \<in> set (payments z)" "payment_id p' \<notin> payment_id ` set (payments d)"
    show "transition\<^sup>+\<^sup>+ Pending (status p')"
    proof (cases "payment_id p' \<in> payment_id ` set (payments y)")
      case True
      then obtain q where q: "q \<in> set (payments y)" "payment_id q = payment_id p'" by auto
      with ny p'(2) have tq: "transition\<^sup>+\<^sup>+ Pending (status q)" by simp
      from oz q(1) obtain r where r: "r \<in> set (payments z)" "payment_id r = payment_id q"
        "status r = status q \<or> status q = Completed \<and> status r = Cancelled" by blast
      from uz have "distinct (map payment_id (payments z))" by (simp add: unique_keys_def)
      from unique_by_id[OF this r(1) p'(1)] r(2) q(2) have "r = p'" by simp
      with tranclp_rtranclp_tranclp[OF tq transition_or_same[OF r(3)]] show ?thesis by simp
    next
      case False
      with nz p'(1) have "transition Pending (status p')" by simp
      then show ?thesis by (rule tranclp.r_into_trancl)
    qed
  qed
  from uz old new show ?case by (intro conjI)
qed

lemma later_no_faults: "no_faults later_env" "no_faults quiet_env"
  by (simp_all add: no_faults_def later_env_def quiet_env_def)

lemma paid_unique: "unique_keys paid_db" "unique_keys cancelled_db"
  by (simp_all add: unique_keys_def paid_db_def cancelled_db_def)

lemma cancel_paid:
  "cancelPayment later_env paid_db (Val ''PAY_1700000000000_00a1b2c3d4e5f607'')
     ''requested by customer'' (Some (Fin 7)) =
   (cancelled_db, Inr \<lparr>cancellationId = ''CAN_1700000060000_ffeeddccbbaa9988'',
                        cancel_status = Cancelled\<rparr>)"
  by (simp add: cancelPayment_def cancel_transaction_def insert_cancellation_def
      update_payment_def later_env_def quiet_env_def paid_db_def paid_row_def cancelled_db_def
      Let_def)

text \<open>
  C6. A call of \<open>cancelPayment\<close> either throws and leaves both tables as they were, or
  returns, and then it has added exactly one cancellation row and set the payment's
  status to \<open>cancelled\<close>. When nothing rejects, the payment ids are unique and the new
  cancellation id is unused, the call returns if and only if a payment with that id
  exists and is \<open>completed\<close>. A payment in any other status makes it throw
  \<open>Only completed payments can be cancelled\<close> with both tables unchanged, and so does
  a second cancellation of a payment that has been cancelled.
\<close>

theorem cancelPayment_spec:
  "(\<forall>d' res. cancelPayment e d paymentId rsn cancelledBy = (d', res) \<longrightarrow>
      (case res of
         Inl err \<Rightarrow> d' = d
       | Inr r \<Rightarrow> \<exists>pid tok. paymentId = Val pid \<and> new_id e = Inr tok \<and>
            cancellationId r = ''CAN_'' @ tok \<and> cancel_status r = Cancelled \<and>
            payment_cancellations d' = payment_cancellations d @
              [\<lparr>cancellation_id = ''CAN_'' @ tok, cancelled_payment = pid, reason = rsn,
                cancelled_by = cancelledBy\<rparr>] \<and>
            payments d' = update_payment pid (\<lambda>p. p\<lparr>status := Cancelled\<rparr>) (payments d))) \<and>
   (no_faults e \<and> unique_keys d \<and> pid \<noteq> [] \<and>
    ''CAN_'' @ projr (new_id e) \<notin> cancellation_id ` set (payment_cancellations d) \<longrightarrow>
      ((\<exists>r. snd (cancelPayment e d (Val pid) rsn cancelledBy) = Inr r) \<longleftrightarrow>
       (\<exists>p \<in> set (payments d). payment_id p = pid \<and> status p = Completed))) \<and>
   (no_faults e \<and> unique_keys d \<and> pid \<noteq> [] \<and>
    (\<exists>p \<in> set (payments d). payment_id p = pid \<and> status p \<noteq> Completed) \<longrightarrow>
      cancelPayment e d (Val pid) rsn cancelledBy =
        (d, Inl (Error ''Only completed payments can be cancelled''))) \<and>
   (\<forall>d' r. unique_keys d \<and> cancelPayment e d (Val pid) rsn cancelledBy = (d', Inr r) \<and>
      no_faults e2 \<longrightarrow>
      cancelPayment e2 d' (Val pid) rsn2 cancelledBy2 =
        (d', Inl (Error ''Only completed payments can be cancelled'')))"
  using cancelPayment_effects[where e = e and d = d and paymentId = paymentId and rsn = rsn
      and cancelledBy = cancelledBy]
    cancelPayment_succeeds_iff[where e = e and d = d and pid = pid and rsn = rsn
      and cancelledBy = cancelledBy]
    cancelPayment_not_completed[where e = e and d = d and pid = pid and rsn = rsn
      and cancelledBy = cancelledBy]
    cancelPayment_twice[where e = e and d = d and pid = pid and rsn = rsn
      and cancelledBy = cancelledBy and ?e2.0 = e2 and ?rsn2.0 = rsn2 and ?cancelledBy2.0 = cancelledBy2]
  by (intro conjI allI impI) blast+

theorem cancelPayment_spec_witness:
  "no_faults later_env \<and> unique_keys paid_db \<and> ''PAY_1700000000000_00a1b2c3d4e5f607'' \<noteq> [] \<and>
   ''CAN_'' @ projr (new_id later_env) \<notin> cancellation_id ` set (payment_cancellations paid_db) \<and>
   (\<exists>p \<in> set (payments paid_db).
      payment_id p = ''PAY_1700000000000_00a1b2c3d4e5f607'' \<and> status p = Completed) \<and>
   (\<exists>r. snd (cancelPayment later_env paid_db (Val ''PAY_1700000000000_00a1b2c3d4e5f607'')
      ''requested by customer'' (Some (Fin 7))) = Inr r) \<and>
   cancelPayment later_env paid_db (Val ''PAY_1700000000000_00a1b2c3d4e5f607'')
      ''requested by customer'' (Some (Fin 7)) =
     (cancelled_db, Inr \<lparr>cancellationId = ''CAN_1700000060000_ffeeddccbbaa9988'',
                          cancel_status = Cancelled\<rparr>) \<and>
   no_faults quiet_env \<and>
   cancelPayment quiet_env cancelled_db (Val ''PAY_1700000000000_00a1b2c3d4e5f607'')
      ''again'' None =
     (cancelled_db, Inl (Error ''Only completed payments can be cancelled'')) \<and>
   unique_keys cancelled_db \<and>
   (\<exists>p \<in> set (payments cancelled_db).
      payment_id p = ''PAY_1700000000000_00a1b2c3d4e5f607'' \<and> status p \<noteq> Completed) \<and>
   cancelPayment later_env cancelled_db (Val ''PAY_1700000000000_00a1b2c3d4e5f607'')
      ''again'' None =
     (cancelled_db, Inl (Error ''Only completed payments can be cancelled''))"
proof -
  have fresh: "''CAN_'' @ projr (new_id later_env) \<notin>
      cancellation_id ` set (payment_cancellations paid_db)"
    by (simp add: paid_db_def)
  have comp: "\<exists>p \<in> set (payments paid_db).
      payment_id p = ''PAY_1700000000000_00a1b2c3d4e5f607'' \<and> status p = Completed"
    by (simp add: paid_db_def paid_row_def)
  have canc: "\<exists>p \<in> set (payments cancelled_db).
      payment_id p = ''PAY_1700000000000_00a1b2c3d4e5f607'' \<and> status p \<noteq> Completed"
    by (simp add: cancelled_db_def paid_row_def)
  have ne: "''PAY_1700000000000_00a1b2c3d4e5f607'' \<noteq> []" by simp
  note a = cancelPayment_spec[where e = later_env and d = paid_db
      and pid = "''PAY_1700000000000_00a1b2c3d4e5f607''"
      and paymentId = "Val ''PAY_1700000000000_00a1b2c3d4e5f607''"
      and rsn = "''requested by customer''" and cancelledBy = "Some (Fin 7)"
      and ?e2.0 = quiet_env and ?rsn2.0 = "''again''" and ?cancelledBy2.0 = None]
  note b = cancelPayment_spec[where e = later_env and d = cancelled_db
      and pid = "''PAY_1700000000000_00a1b2c3d4e5f607''"
      and paymentId = "Val ''PAY_1700000000000_00a1b2c3d4e5f607''"
      and rsn = "''again''" and cancelledBy = None
      and ?e2.0 = quiet_env and ?rsn2.0 = "''again''" and ?cancelledBy2.0 = None]
  from a later_no_faults paid_unique fresh comp ne
  have 1: "\<exists>r. snd (cancelPayment later_env paid_db (Val ''PAY_1700000000000_00a1b2c3d4e5f607'')
      ''requested by customer'' (Some (Fin 7))) = Inr r"
    by blast
  from a later_no_faults paid_unique cancel_paid
  have 2: "cancelPayment quiet_env cancelled_db (Val ''PAY_1700000000000_00a1b2c3d4e5f607'')
      ''again'' None =
     (cancelled_db, Inl (Error ''Only completed payments can be cancelled''))"
    by blast
  from b later_no_faults paid_unique canc ne
  have 3: "cancelPayment later_env cancelled_db (Val ''PAY_1700000000000_00a1b2c3d4e5f607'')
      ''again'' None =
     (cancelled_db, Inl (Error ''Only completed payments can be cancelled''))"
    by blast
  from 1 2 3 later_no_faults paid_unique fresh comp canc cancel_paid ne show ?thesis
    by (intro conjI)
qed

text \<open>
  C7. Along any sequence of calls of \<open>createPayment\<close>, \<open>cancelPayment\<close> and
  \<open>getPaymentById\<close> from tables with unique keys, every payment is still there and its
  status has moved only along the transitions pending to completed, pending to failed
  and completed to cancelled: a \<open>failed\<close> or \<open>cancelled\<close> payment keeps its status, and
  no payment is \<open>pending\<close> afterwards unless it was before. A payment the sequence has
  created was inserted as \<open>pending\<close> and has left that status by these transitions.
\<close>

theorem status_transitions:
  "unique_keys d \<and> op_step\<^sup>*\<^sup>* d d' \<longrightarrow>
     unique_keys d' \<and>
     (\<forall>p \<in> set (payments d). \<exists>p' \<in> set (payments d'). payment_id p' = payment_id p \<and>
        transition\<^sup>*\<^sup>* (status p) (status p') \<and>
        (status p = Failed \<or> status p = Cancelled \<longrightarrow> status p' = status p) \<and>
        (status p' = Pending \<longrightarrow> status p = Pending)) \<and>
     (\<forall>p' \<in> set (payments d'). payment_id p' \<notin> payment_id ` set (payments d) \<longrightarrow>
        transition\<^sup>+\<^sup>+ Pending (status p') \<and> status p' \<noteq> Pending)"
proof
  assume h: "unique_keys d \<and> op_step\<^sup>*\<^sup>* d d'"
  then have h1: "op_step\<^sup>*\<^sup>* d d'" and h2: "unique_keys d" by simp_all
  from op_steps_status[OF h1 h2] have
    a: "unique_keys d'" and
    b: "\<forall>p \<in> set (payments d). \<exists>p' \<in> set (payments d'). payment_id p' = payment_id p \<and>
        transition\<^sup>*\<^sup>* (status p) (status p')" and
    c: "\<forall>p' \<in> set (payments d'). payment_id p' \<notin> payment_id ` set (payments d) \<longrightarrow>
        transition\<^sup>+\<^sup>+ Pending (status p')"
    by simp_all
  have old: "\<forall>p \<in> set (payments d). \<exists>p' \<in> set (payments d'). payment_id p' = payment_id p \<and>
        transition\<^sup>*\<^sup>* (status p) (status p') \<and>
        (status p = Failed \<or> status p = Cancelled \<longrightarrow> status p' = status p) \<and>
        (status p' = Pending \<longrightarrow> status p = Pending)"
  proof
    fix p assume "p \<in> set (payments d)"
    with b obtain p' where p': "p' \<in> set (payments d')" "payment_id p' = payment_id p"
      "transition\<^sup>*\<^sup>* (status p) (status p')" by blast
    note t = transition_rtrancl_terminal[OF p'(3)]
    show "\<exists>p' \<in> set (payments d'). payment_id p' = payment_id p \<and>
        transition\<^sup>*\<^sup>* (status p) (status p') \<and>
        (status p = Failed \<or> status p = Cancelled \<longrightarrow> status p' = status p) \<and>
        (status p' = Pending \<longrightarrow> status p = Pending)"
    proof (intro bexI[of _ p'] conjI)
      show "payment_id p' = payment_id p" by (rule p'(2))
      show "transition\<^sup>*\<^sup>* (status p) (status p')" by (rule p'(3))
      show "status p = Failed \<or> status p = Cancelled \<longrightarrow> status p' = status p"
        by (rule conjunct1[OF t])
      show "status p' = Pending \<longrightarrow> status p = Pending" by (rule conjunct2[OF t])
      show "p' \<in> set (payments d')" by (rule p'(1))
    qed
  qed
  have new: "\<forall>p' \<in> set (payments d'). payment_id p' \<notin> payment_id ` set (payments d) \<longrightarrow>
        transition\<^sup>+\<^sup>+ Pending (status p') \<and> status p' \<noteq> Pending"
  proof (intro ballI impI)
    fix p' assume "p' \<in> set (payments d')" "payment_id p' \<notin> payment_id ` set (payments d)"
    with c have t: "transition\<^sup>+\<^sup>+ Pending (status p')" by simp
    then have "transition\<^sup>*\<^sup>* Pending (status p')" by (rule tranclp_into_rtranclp)
    moreover from t have "status p' \<noteq> Pending" by (rule transition_leaves_pending)
    ultimately show "transition\<^sup>+\<^sup>+ Pending (status p') \<and> status p' \<noteq> Pending"
      using t by (intro conjI)
  qed
  from a old new show "unique_keys d' \<and>
     (\<forall>p \<in> set (payments d). \<exists>p' \<in> set (payments d'). payment_id p' = payment_id p \<and>
        transition\<^sup>*\<^sup>* (status p) (status p') \<and>
        (status p = Failed \<or> status p = Cancelled \<longrightarrow> status p' = status p) \<and>
        (status p' = Pending \<longrightarrow> status p = Pending)) \<and>
     (\<forall>p' \<in> set (payments d'). payment_id p' \<notin> payment_id ` set (payments d) \<longrightarrow>
        transition\<^sup>+\<^sup>+ Pending (status p') \<and> status p' \<noteq> Pending)"
    by (intro conjI)
qed

theorem status_transitions_witness:
  "unique_keys paid_db \<and> op_step\<^sup>*\<^sup>* paid_db cancelled_db \<and>
   paid_row \<in> set (payments paid_db) \<and> status paid_row = Completed \<and>
   unique_keys cancelled_db \<and>
   (\<exists>p' \<in> set (payments cancelled_db).
      payment_id p' = payment_id paid_row \<and>
      transition\<^sup>*\<^sup>* (status paid_row) (status p') \<and> status p' \<noteq> Pending)"
proof -
  have "op_step paid_db cancelled_db"
    by (rule op_step.cancel[OF cancel_paid])
  then have s: "op_step\<^sup>*\<^sup>* paid_db cancelled_db" by (rule r_into_rtranclp)
  have r: "paid_row \<in> set (payments paid_db)" "status paid_row = Completed"
    by (simp_all add: paid_db_def paid_row_def)
  from status_transitions[of paid_db cancelled_db] paid_unique(1) s
  have "\<forall>p \<in> set (payments paid_db). \<exists>p' \<in> set (payments cancelled_db).
      payment_id p' = payment_id p \<and> transition\<^sup>*\<^sup>* (status p) (status p') \<and>
      (status p = Failed \<or> status p = Cancelled \<longrightarrow> status p' = status p) \<and>
      (status p' = Pending \<longrightarrow> status p = Pending)"
    by blast
  with r(1) obtain p' where p': "p' \<in> set (payments cancelled_db)"
    "payment_id p' = payment_id paid_row"
    "transition\<^sup>*\<^sup>* (status paid_row) (status p')"
    "status p' = Pending \<longrightarrow> status paid_row = Pending"
    by blast
  from p'(4) r(2) have "status p' \<noteq> Pending" by (cases "status p'") simp_all
  with p'(1-3) have "\<exists>p' \<in> set (payments cancelled_db).
      payment_id p' = payment_id paid_row \<and>
      transition\<^sup>*\<^sup>* (status paid_row) (status p') \<and> status p' \<noteq> Pending"
    by (intro bexI[of _ p']) (intro conjI)
  with paid_unique s r show ?thesis by (intro conjI)
qed

section \<open>An idempotency key that is already in the payments table (C4)\<close>

lemma insert_payment_duplicate_key:
  assumes "insert_fault e = None" "payment_id row \<notin> payment_id ` set tbl"
    "idempotency_key row \<in> idempotency_key ` set tbl"
  shows "insert_payment e row tbl =
     Inl (Error (dup_entry (template id (idempotency_key row)) ''payments.idempotency_key''))"
  using assms by (simp add: insert_payment_def)

lemma createPayment_duplicate_key:
  assumes "valid_input orderId userId amt paymentMethod key" "conn_fault e = None"
    "begin_fault e = None" "insert_fault e = None" "new_id e = Inr tok"
    "''PAY_'' @ tok \<notin> payment_id ` set (payments d)"
    "key \<in> idempotency_key ` set (payments d)"
  shows "createPayment e d orderId userId amt paymentMethod key cardResult =
     (d, Inl (Error (dup_entry (template id key) ''payments.idempotency_key'')))"
proof -
  have "payment_transaction e (payments d) orderId userId amt paymentMethod key cardResult =
     Inl (Error (dup_entry (template id key) ''payments.idempotency_key''))"
    using assms(3-7) by (simp add: payment_transaction_def Let_def insert_payment_def)
  from createPayment_throws[OF assms(1,2) this] show ?thesis .
qed

lemma error_response_codes:
  "(http_status (error_response re err) = 400 \<or> http_status (error_response re err) = 404 \<or>
    http_status (error_response re err) = 500) \<and>
   (er_code (http_body (error_response re err)) = ''VALIDATION_ERROR'' \<or>
    er_code (http_body (error_response re err)) = ''NOT_FOUND'' \<or>
    er_code (http_body (error_response re err)) = ''TRANSACTION_ERROR'' \<or>
    er_code (http_body (error_response re err)) = ''PAYMENT_FAILED'')"
  by (simp add: error_response_def Let_def)

lemma error_response_generic:
  assumes "\<not> str_includes (message err) ''Invalid''" "\<not> str_includes (message err) ''not found''"
    "\<not> str_includes (message err) ''transaction''"
  shows "http_status (error_response re err) = 500 \<and>
     er_code (http_body (error_response re err)) = ''PAYMENT_FAILED''"
  using assms by (simp add: error_response_def Let_def)

lemma createPayment_unique:
  assumes "unique_keys d"
  shows "unique_keys (fst (createPayment e d orderId userId amt paymentMethod key cardResult))"
proof -
  obtain d' r where c: "createPayment e d orderId userId amt paymentMethod key cardResult = (d', r)"
    by (cases "createPayment e d orderId userId amt paymentMethod key cardResult")
  from submit_step[OF assms c] c show ?thesis by simp
qed

lemma process_payment_throws:
  assumes "createPayment (svc re) (tables st) (req_order_id req) (o_user_id ord)
     (o_total_price ord) (req_payment_method req) (req_idempotency_key req) c = (d', Inl err)"
  shows "process_payment re st req ord c hasLock = (st, error_response re err)"
proof -
  from createPayment_Inl[OF assms] have "d' = tables st" .
  with assms show ?thesis by (simp add: process_payment_def)
qed

lemma later_dup:
  "createPayment later_env paid_db (Val (Fin 42)) (Val (Fin 7)) (Val (Fin 100)) (Val ''card'')
     (Val ''11111111-1111-4111-8111-111111111111'') None =
   (paid_db, Inl (Error (dup_entry ''11111111-1111-4111-8111-111111111111''
      ''payments.idempotency_key'')))"
proof -
  have a: "conn_fault later_env = None" "begin_fault later_env = None"
    "insert_fault later_env = None" "new_id later_env = Inr ''1700000060000_ffeeddccbbaa9988''"
    by (simp_all add: later_env_def quiet_env_def)
  have b: "''PAY_'' @ ''1700000060000_ffeeddccbbaa9988'' \<notin> payment_id ` set (payments paid_db)"
    "Val ''11111111-1111-4111-8111-111111111111'' \<in> idempotency_key ` set (payments paid_db)"
    by (simp_all add: paid_db_def paid_row_def)
  from createPayment_duplicate_key[OF card_valid a b, of None] show ?thesis by simp
qed

text \<open>
  C4, as the code has it. When the insert of the pending row fails on the uniqueness of
  \<open>idempotency_key\<close>, \<open>createPayment\<close> throws the database's error for the duplicate
  entry and the tables are unchanged. The route hands every error of \<open>createPayment\<close> to
  its \<open>catch\<close> block, whose answers are 400 \<open>VALIDATION_ERROR\<close>, 404 \<open>NOT_FOUND\<close>, 500
  \<open>TRANSACTION_ERROR\<close> and 500 \<open>PAYMENT_FAILED\<close> only: an error whose message contains
  none of \<open>Invalid\<close>, \<open>not found\<close> and \<open>transaction\<close> is answered with 500
  \<open>PAYMENT_FAILED\<close>. Whatever the call does, tables with unique payment ids and unique
  idempotency keys stay so: no key ever has two payments.
\<close>

theorem duplicate_key_insert:
  "(valid_input orderId userId amt paymentMethod key \<and> conn_fault e = None \<and>
    begin_fault e = None \<and> insert_fault e = None \<and> new_id e = Inr tok \<and>
    ''PAY_'' @ tok \<notin> payment_id ` set (payments d) \<and>
    key \<in> idempotency_key ` set (payments d) \<longrightarrow>
      createPayment e d orderId userId amt paymentMethod key cardResult =
        (d, Inl (Error (dup_entry (template id key) ''payments.idempotency_key'')))) \<and>
   (\<forall>d' err. createPayment (svc re) (tables st) (req_order_id req) (o_user_id ord)
       (o_total_price ord) (req_payment_method req) (req_idempotency_key req) c = (d', Inl err)
      \<longrightarrow> process_payment re st req ord c hasLock = (st, error_response re err)) \<and>
   (\<forall>err. (http_status (error_response re err) = 400 \<or>
           http_status (error_response re err) = 404 \<or>
           http_status (error_response re err) = 500) \<and>
          (er_code (http_body (error_response re err)) = ''VALIDATION_ERROR'' \<or>
           er_code (http_body (error_response re err)) = ''NOT_FOUND'' \<or>
           er_code (http_body (error_response re err)) = ''TRANSACTION_ERROR'' \<or>
           er_code (http_body (error_response re err)) = ''PAYMENT_FAILED'') \<and>
          (\<not> str_includes (message err) ''Invalid'' \<and>
           \<not> str_includes (message err) ''not found'' \<and>
           \<not> str_includes (message err) ''transaction'' \<longrightarrow>
             http_status (error_response re err) = 500 \<and>
             er_code (http_body (error_response re err)) = ''PAYMENT_FAILED'')) \<and>
   (unique_keys d \<longrightarrow>
      unique_keys (fst (createPayment e d orderId userId amt paymentMethod key cardResult)))"
proof (intro conjI allI impI)
  assume "valid_input orderId userId amt paymentMethod key \<and> conn_fault e = None \<and>
    begin_fault e = None \<and> insert_fault e = None \<and> new_id e = Inr tok \<and>
    ''PAY_'' @ tok \<notin> payment_id ` set (payments d) \<and>
    key \<in> idempotency_key ` set (payments d)"
  then show "createPayment e d orderId userId amt paymentMethod key cardResult =
        (d, Inl (Error (dup_entry (template id key) ''payments.idempotency_key'')))"
    using createPayment_duplicate_key by blast
next
  fix d' err
  assume "createPayment (svc re) (tables st) (req_order_id req) (o_user_id ord)
       (o_total_price ord) (req_payment_method req) (req_idempotency_key req) c = (d', Inl err)"
  then show "process_payment re st req ord c hasLock = (st, error_response re err)"
    by (rule process_payment_throws)
next
  fix err
  show "http_status (error_response re err) = 400 \<or>
           http_status (error_response re err) = 404 \<or>
           http_status (error_response re err) = 500"
    using error_response_codes[of re err] by (rule conjunct1)
  show "er_code (http_body (error_response re err)) = ''VALIDATION_ERROR'' \<or>
           er_code (http_body (error_response re err)) = ''NOT_FOUND'' \<or>
           er_code (http_body (error_response re err)) = ''TRANSACTION_ERROR'' \<or>
           er_code (http_body (error_response re err)) = ''PAYMENT_FAILED''"
    using error_response_codes[of re err] by (rule conjunct2)
next
  fix err
  assume h: "\<not> str_includes (message err) ''Invalid'' \<and>
           \<not> str_includes (message err) ''not found'' \<and>
           \<not> str_includes (message err) ''transaction''"
  from h show "http_status (error_response re err) = 500"
    using error_response_generic[of err re] by blast
  from h show "er_code (http_body (error_response re err)) = ''PAYMENT_FAILED''"
    using error_response_generic[of err re] by blast
next
  assume "unique_keys d"
  then show "unique_keys (fst (createPayment e d orderId userId amt paymentMethod key cardResult))"
    by (rule createPayment_unique)
qed

theorem duplicate_key_insert_witness:
  "valid_input (Val (Fin 42)) (Val (Fin 7)) (Val (Fin 100)) (Val ''card'')
     (Val ''11111111-1111-4111-8111-111111111111'') \<and>
   conn_fault later_env = None \<and> begin_fault later_env = None \<and>
   insert_fault later_env = None \<and> new_id later_env = Inr ''1700000060000_ffeeddccbbaa9988'' \<and>
   ''PAY_'' @ ''1700000060000_ffeeddccbbaa9988'' \<notin> payment_id ` set (payments paid_db) \<and>
   Val ''11111111-1111-4111-8111-111111111111'' \<in> idempotency_key ` set (payments paid_db) \<and>
   createPayment later_env paid_db (Val (Fin 42)) (Val (Fin 7)) (Val (Fin 100)) (Val ''card'')
     (Val ''11111111-1111-4111-8111-111111111111'') None =
   (paid_db, Inl (Error (dup_entry ''11111111-1111-4111-8111-111111111111''
      ''payments.idempotency_key''))) \<and>
   \<not> str_includes (dup_entry ''11111111-1111-4111-8111-111111111111''
      ''payments.idempotency_key'') ''Invalid'' \<and>
   \<not> str_includes (dup_entry ''11111111-1111-4111-8111-111111111111''
      ''payments.idempotency_key'') ''not found'' \<and>
   \<not> str_includes (dup_entry ''11111111-1111-4111-8111-111111111111''
      ''payments.idempotency_key'') ''transaction'' \<and>
   http_status (error_response later_route (Error (dup_entry
      ''11111111-1111-4111-8111-111111111111'' ''payments.idempotency_key''))) = 500 \<and>
   er_code (http_body (error_response later_route (Error (dup_entry
      ''11111111-1111-4111-8111-111111111111'' ''payments.idempotency_key'')))) =
     ''PAYMENT_FAILED'' \<and>
   unique_keys paid_db \<and>
   unique_keys (fst (createPayment later_env paid_db (Val (Fin 42)) (Val (Fin 7))
     (Val (Fin 100)) (Val ''card'') (Val ''11111111-1111-4111-8111-111111111111'') None))"
proof -
  have a: "conn_fault later_env = None" "begin_fault later_env = None"
    "insert_fault later_env = None" "new_id later_env = Inr ''1700000060000_ffeeddccbbaa9988''"
    by (simp_all add: later_env_def quiet_env_def)
  have b: "''PAY_'' @ ''1700000060000_ffeeddccbbaa9988'' \<notin> payment_id ` set (payments paid_db)"
    "Val ''11111111-1111-4111-8111-111111111111'' \<in> idempotency_key ` set (payments paid_db)"
    by (simp_all add: paid_db_def paid_row_def)
  have c: "\<not> str_includes (dup_entry ''11111111-1111-4111-8111-111111111111''
      ''payments.idempotency_key'') ''Invalid''"
    "\<not> str_includes (dup_entry ''11111111-1111-4111-8111-111111111111''
      ''payments.idempotency_key'') ''not found''"
    "\<not> str_includes (dup_entry ''11111111-1111-4111-8111-111111111111''
      ''payments.idempotency_key'') ''transaction''"
    by (simp_all add: dup_entry_def)
  note t = duplicate_key_insert[where e = later_env and d = paid_db and orderId = "Val (Fin 42)"
      and userId = "Val (Fin 7)" and amt = "Val (Fin 100)" and paymentMethod = "Val ''card''"
      and key = "Val ''11111111-1111-4111-8111-111111111111''" and cardResult = None
      and tok = "''1700000060000_ffeeddccbbaa9988''" and re = later_route]
  have 1: "createPayment later_env paid_db (Val (Fin 42)) (Val (Fin 7)) (Val (Fin 100))
     (Val ''card'') (Val ''11111111-1111-4111-8111-111111111111'') None =
   (paid_db, Inl (Error (dup_entry ''11111111-1111-4111-8111-111111111111''
      ''payments.idempotency_key'')))"
    using mp[OF conjunct1[OF t]] card_valid a b by simp
  note g = spec[OF conjunct1[OF conjunct2[OF conjunct2[OF t]]],
      of "Error (dup_entry ''11111111-1111-4111-8111-111111111111'' ''payments.idempotency_key'')"]
  have 2: "http_status (error_response later_route (Error (dup_entry
      ''11111111-1111-4111-8111-111111111111'' ''payments.idempotency_key''))) = 500 \<and>
    er_code (http_body (error_response later_route (Error (dup_entry
      ''11111111-1111-4111-8111-111111111111'' ''payments.idempotency_key'')))) =
     ''PAYMENT_FAILED''"
    using mp[OF conjunct2[OF conjunct2[OF g]]] c by simp
  have 3: "unique_keys (fst (createPayment later_env paid_db (Val (Fin 42)) (Val (Fin 7))
     (Val (Fin 100)) (Val ''card'') (Val ''11111111-1111-4111-8111-111111111111'') None))"
    using mp[OF conjunct2[OF conjunct2[OF conjunct2[OF t]]]] paid_unique(1) by simp
  from card_valid a b c 1 conjunct1[OF 2] conjunct2[OF 2] 3 paid_unique(1) show ?thesis
    by (intro conjI)
qed

text \<open>
  C4 as stated fails: a request whose key is already in the payments table, with no row in
  the table of idempotency keys, is answered with the generic 500 \<open>PAYMENT_FAILED\<close>.
\<close>

theorem duplicate_key_counterexample:
  "payment_route later_route claimed_state card_request =
     (claimed_state\<lparr>locks := [(Val (Fin 42), 1040)]\<rparr>,
      \<lparr>http_status = 500,
       http_body = Error_reply
         (dup_entry ''11111111-1111-4111-8111-111111111111'' ''payments.idempotency_key'')
         ''PAYMENT_FAILED''
         (Some (dup_entry ''11111111-1111-4111-8111-111111111111''
            ''payments.idempotency_key''))\<rparr>)"
  using later_dup
  by (simp add: payment_route_def checkIdempotency_def checkIdempotencyKey_def live_rows_def
      payment_handler_def card_step_def locked_payment_def redis_set_nx_def lock_held_def
      redis_del_def
      process_payment_def error_response_def later_route_def quiet_route_def claimed_state_def
      card_request_def dup_entry_def Let_def)

section \<open>The submission lock (C10)\<close>

lemma lock_held_after_set:
  "t < now0 + ttl \<Longrightarrow> lock_held t k ((k, now0 + ttl) # redis_del k ls)"
  by (simp add: lock_held_def)

lemma lock_expired_after_set:
  "now0 + ttl \<le> t \<Longrightarrow> \<not> lock_held t k ((k, now0 + ttl) # redis_del k ls)"
  by (auto simp: lock_held_def redis_del_def)

lemma locked_payment_throws:
  assumes "lock_fault re = None" "\<not> lock_held (now re) (req_order_id req) (locks st)"
    "createPayment (svc re) (tables st) (req_order_id req) (o_user_id ord)
       (o_total_price ord) (req_payment_method req) (req_idempotency_key req) c = (d', Inl err)"
  shows "locked_payment re st req ord c =
     (st\<lparr>locks := (req_order_id req, now re + 30) # redis_del (req_order_id req) (locks st)\<rparr>,
      error_response re err)"
proof -
  let ?st = "st\<lparr>locks := (req_order_id req, now re + 30) # redis_del (req_order_id req) (locks st)\<rparr>"
  from assms(3) have "createPayment (svc re) (tables ?st) (req_order_id req) (o_user_id ord)
       (o_total_price ord) (req_payment_method req) (req_idempotency_key req) c = (d', Inl err)"
    by simp
  from process_payment_throws[OF this]
  have "process_payment re ?st req ord c True = (?st, error_response re err)" .
  with assms(1,2) show ?thesis
    by (simp add: locked_payment_def redis_set_nx_def)
qed

lemma locked_payment_busy:
  assumes "lock_fault re = None" "lock_held (now re) (req_order_id req) (locks st)"
  shows "locked_payment re st req ord c =
     (st, \<lparr>http_status = 429, http_body = Error_reply
        ''Payment is already being processed for this order'' ''PAYMENT_IN_PROGRESS'' None\<rparr>)"
  using assms by (simp add: locked_payment_def redis_set_nx_def)

lemma payment_handler_locked:
  assumes "order_fetch re = Inr (Some ord)" "o_status ord = ''pending''"
    "case card_step re req of Some c \<Rightarrow> cr_success c | None \<Rightarrow> True"
  shows "payment_handler re st req = locked_payment re st req ord (card_step re req)"
  using assms by (simp add: payment_handler_def split: option.splits)

lemma failing_throws:
  "createPayment (svc failing_route) (tables empty_state) (req_order_id card_request)
     (o_user_id pending_order) (o_total_price pending_order) (req_payment_method card_request)
     (req_idempotency_key card_request) (card_step failing_route card_request) =
   (empty_db, Inl deadlock)"
proof -
  let ?e = "quiet_env\<lparr>update_fault := Some deadlock\<rparr>"
  have a: "conn_fault ?e = None" "begin_fault ?e = None"
    "new_id ?e = Inr ''1700000000000_00a1b2c3d4e5f607''"
    by (simp_all add: quiet_env_def)
  have b: "insert_payment ?e
     (pending_row (''PAY_'' @ ''1700000000000_00a1b2c3d4e5f607'') (Val (Fin 42)) (Val (Fin 7))
        (Val (Fin 100)) (Val ''card'') (Val ''11111111-1111-4111-8111-111111111111''))
     (payments empty_db) =
     Inr [pending_row (''PAY_'' @ ''1700000000000_00a1b2c3d4e5f607'') (Val (Fin 42)) (Val (Fin 7))
        (Val (Fin 100)) (Val ''card'') (Val ''11111111-1111-4111-8111-111111111111'')]"
    by (simp add: insert_payment_def quiet_env_def empty_db_def)
  have c: "gateway_step ?e None = Inl deadlock \<or>
     (\<exists>gw. gateway_step ?e None = Inr gw \<and>
        (update_fault ?e = Some deadlock \<or>
         update_fault ?e = None \<and> select_fault ?e = Some deadlock \<or>
         update_fault ?e = None \<and> select_fault ?e = None \<and> commit_fault ?e = Some deadlock))"
    by (simp add: gateway_step_def processPaymentGateway_def quiet_env_def)
  from payment_transaction_raised[OF a(2,3) b c]
  have "payment_transaction ?e (payments empty_db) (Val (Fin 42)) (Val (Fin 7)) (Val (Fin 100))
     (Val ''card'') (Val ''11111111-1111-4111-8111-111111111111'') None = Inl deadlock" .
  from createPayment_throws[OF card_valid a(1) this]
  show ?thesis
    by (simp add: failing_route_def quiet_route_def empty_state_def card_request_def
        pending_order_def card_step_def)
qed

text \<open>
  C10. In a request that reaches the lock block (the order is fetched and \<open>pending\<close>, the
  card step has not failed), takes the lock and then has \<open>createPayment\<close> throw, the
  handler answers from its \<open>catch\<close> block and deletes nothing: the state afterwards holds
  the lock entry for the order with its expiry 30 seconds after the request. The entry
  counts as held exactly until then, and a retry for the same order that reaches the
  lock block before then is answered 429 \<open>PAYMENT_IN_PROGRESS\<close> and changes nothing.
\<close>

theorem lock_kept_when_payment_throws:
  "order_fetch (re :: 'h route_env) = Inr (Some ord) \<and> o_status ord = ''pending'' \<and>
   (case card_step re req of Some c \<Rightarrow> cr_success c | None \<Rightarrow> True) \<and>
   lock_fault re = None \<and> \<not> lock_held (now re) (req_order_id req) (locks st) \<and>
   createPayment (svc re) (tables st) (req_order_id req) (o_user_id ord) (o_total_price ord)
     (req_payment_method req) (req_idempotency_key req) (card_step re req) = (d', Inl err) \<and>
   st' = st\<lparr>locks := (req_order_id req, now re + 30) # redis_del (req_order_id req) (locks st)\<rparr>
   \<longrightarrow>
     payment_handler re st req = (st', error_response re err) \<and>
     (\<forall>t. lock_held t (req_order_id req) (locks st') \<longleftrightarrow> t < now re + 30) \<and>
     (\<forall>(re2 :: 'h route_env) ord2. order_fetch re2 = Inr (Some ord2) \<and> o_status ord2 = ''pending'' \<and>
        (case card_step re2 req of Some c \<Rightarrow> cr_success c | None \<Rightarrow> True) \<and>
        lock_fault re2 = None \<and> now re2 < now re + 30 \<longrightarrow>
          payment_handler re2 st' req =
            (st', \<lparr>http_status = 429, http_body = Error_reply
               ''Payment is already being processed for this order''
               ''PAYMENT_IN_PROGRESS'' None\<rparr>))"
proof (intro impI)
  assume h: "order_fetch re = Inr (Some ord) \<and> o_status ord = ''pending'' \<and>
   (case card_step re req of Some c \<Rightarrow> cr_success c | None \<Rightarrow> True) \<and>
   lock_fault re = None \<and> \<not> lock_held (now re) (req_order_id req) (locks st) \<and>
   createPayment (svc re) (tables st) (req_order_id req) (o_user_id ord) (o_total_price ord)
     (req_payment_method req) (req_idempotency_key req) (card_step re req) = (d', Inl err) \<and>
   st' = st\<lparr>locks := (req_order_id req, now re + 30) # redis_del (req_order_id req) (locks st)\<rparr>"
  then have st': "st' = st\<lparr>locks := (req_order_id req, now re + 30) #
      redis_del (req_order_id req) (locks st)\<rparr>" by simp
  from h have ph: "payment_handler re st req = locked_payment re st req ord (card_step re req)"
    using payment_handler_locked[of re ord req st] by simp
  from h have "locked_payment re st req ord (card_step re req) = (st', error_response re err)"
    using locked_payment_throws[of re req st ord "card_step re req" d' err] by simp
  with ph have 1: "payment_handler re st req = (st', error_response re err)" by simp
  have 2: "\<forall>t. lock_held t (req_order_id req) (locks st') \<longleftrightarrow> t < now re + 30"
  proof
    fix t
    show "lock_held t (req_order_id req) (locks st') \<longleftrightarrow> t < now re + 30"
      using lock_held_after_set[of t "now re" 30 "req_order_id req" "locks st"]
        lock_expired_after_set[of "now re" 30 t "req_order_id req" "locks st"]
      unfolding st' by (cases "t < now re + 30") simp_all
  qed
  have 3: "\<forall>re2 ord2. order_fetch re2 = Inr (Some ord2) \<and> o_status ord2 = ''pending'' \<and>
        (case card_step re2 req of Some c \<Rightarrow> cr_success c | None \<Rightarrow> True) \<and>
        lock_fault re2 = None \<and> now re2 < now re + 30 \<longrightarrow>
          payment_handler re2 st' req =
            (st', \<lparr>http_status = 429, http_body = Error_reply
               ''Payment is already being processed for this order''
               ''PAYMENT_IN_PROGRESS'' None\<rparr>)"
  proof (intro allI impI)
    fix re2 :: "'h route_env" and ord2
    assume r: "order_fetch re2 = Inr (Some ord2) \<and> o_status ord2 = ''pending'' \<and>
        (case card_step re2 req of Some c \<Rightarrow> cr_success c | None \<Rightarrow> True) \<and>
        lock_fault re2 = None \<and> now re2 < now re + 30"
    then have held: "lock_held (now re2) (req_order_id req) (locks st')"
      using 2 by simp
    from r have "payment_handler re2 st' req = locked_payment re2 st' req ord2 (card_step re2 req)"
      using payment_handler_locked[of re2 ord2 req st'] by simp
    also from r held have "\<dots> = (st', \<lparr>http_status = 429, http_body = Error_reply
               ''Payment is already being processed for this order''
               ''PAYMENT_IN_PROGRESS'' None\<rparr>)"
      using locked_payment_busy[of re2 req st' ord2 "card_step re2 req"] by simp
    finally show "payment_handler re2 st' req =
            (st', \<lparr>http_status = 429, http_body = Error_reply
               ''Payment is already being processed for this order''
               ''PAYMENT_IN_PROGRESS'' None\<rparr>)" .
  qed
  from 1 2 3 show "payment_handler re st req = (st', error_response re err) \<and>
     (\<forall>t. lock_held t (req_order_id req) (locks st') \<longleftrightarrow> t < now re + 30) \<and>
     (\<forall>(re2 :: 'h route_env) ord2. order_fetch re2 = Inr (Some ord2) \<and> o_status ord2 = ''pending'' \<and>
        (case card_step re2 req of Some c \<Rightarrow> cr_success c | None \<Rightarrow> True) \<and>
        lock_fault re2 = None \<and> now re2 < now re + 30 \<longrightarrow>
          payment_handler re2 st' req =
            (st', \<lparr>http_status = 429, http_body = Error_reply
               ''Payment is already being processed for this order''
               ''PAYMENT_IN_PROGRESS'' None\<rparr>))"
    by (intro conjI)
qed

theorem lock_kept_when_payment_throws_witness:
  "order_fetch failing_route = Inr (Some pending_order) \<and> o_status pending_order = ''pending'' \<and>
   card_step failing_route card_request = None \<and> lock_fault failing_route = None \<and>
   \<not> lock_held (now failing_route) (req_order_id card_request) (locks empty_state) \<and>
   createPayment (svc failing_route) (tables empty_state) (req_order_id card_request)
     (o_user_id pending_order) (o_total_price pending_order) (req_payment_method card_request)
     (req_idempotency_key card_request) (card_step failing_route card_request) =
   (empty_db, Inl deadlock) \<and>
   payment_handler failing_route empty_state card_request =
     (empty_state\<lparr>locks := [(Val (Fin 42), 1030)]\<rparr>, error_response failing_route deadlock) \<and>
   lock_held 1029 (Val (Fin 42)) [(Val (Fin 42), 1030)] \<and>
   \<not> lock_held 1030 (Val (Fin 42)) [(Val (Fin 42), 1030)] \<and>
   order_fetch later_route = Inr (Some pending_order) \<and> card_step later_route card_request = None \<and>
   lock_fault later_route = None \<and> now later_route < now failing_route + 30 \<and>
   payment_handler later_route (empty_state\<lparr>locks := [(Val (Fin 42), 1030)]\<rparr>) card_request =
     (empty_state\<lparr>locks := [(Val (Fin 42), 1030)]\<rparr>,
      \<lparr>http_status = 429, http_body = Error_reply
         ''Payment is already being processed for this order'' ''PAYMENT_IN_PROGRESS'' None\<rparr>)"
proof -
  have a: "order_fetch failing_route = Inr (Some pending_order)"
    "o_status pending_order = ''pending''" "card_step failing_route card_request = None"
    "lock_fault failing_route = None"
    "\<not> lock_held (now failing_route) (req_order_id card_request) (locks empty_state)"
    by (simp_all add: failing_route_def quiet_route_def pending_order_def card_step_def
        card_request_def lock_held_def empty_state_def)
  have b: "order_fetch later_route = Inr (Some pending_order)"
    "card_step later_route card_request = None" "lock_fault later_route = None"
    "now later_route < now failing_route + 30"
    by (simp_all add: later_route_def failing_route_def quiet_route_def pending_order_def
        card_step_def card_request_def)
  have s: "empty_state\<lparr>locks := [(Val (Fin 42), 1030)]\<rparr> =
     empty_state\<lparr>locks := (req_order_id card_request, now failing_route + 30) #
       redis_del (req_order_id card_request) (locks empty_state)\<rparr>"
    by (simp add: empty_state_def card_request_def failing_route_def quiet_route_def redis_del_def)
  have l: "locks (empty_state\<lparr>locks := [(Val (Fin 42), 1030)]\<rparr>) = [(Val (Fin 42), 1030)]"
    "req_order_id card_request = Val (Fin 42)" "now failing_route + 30 = 1030"
    by (simp_all add: card_request_def failing_route_def quiet_route_def)
  have c: "case card_step failing_route card_request of Some c \<Rightarrow> cr_success c | None \<Rightarrow> True"
    "case card_step later_route card_request of Some c \<Rightarrow> cr_success c | None \<Rightarrow> True"
    using a(3) b(2) by simp_all
  note t = mp[OF lock_kept_when_payment_throws[where re = failing_route and ord = pending_order
      and req = card_request and st = empty_state and d' = empty_db and err = deadlock
      and st' = "empty_state\<lparr>locks := [(Val (Fin 42), 1030)]\<rparr>"]]
  have hyp: "order_fetch failing_route = Inr (Some pending_order) \<and>
    o_status pending_order = ''pending'' \<and>
    (case card_step failing_route card_request of Some c \<Rightarrow> cr_success c | None \<Rightarrow> True) \<and>
    lock_fault failing_route = None \<and>
    \<not> lock_held (now failing_route) (req_order_id card_request) (locks empty_state) \<and>
    createPayment (svc failing_route) (tables empty_state) (req_order_id card_request)
      (o_user_id pending_order) (o_total_price pending_order) (req_payment_method card_request)
      (req_idempotency_key card_request) (card_step failing_route card_request) =
      (empty_db, Inl deadlock) \<and>
    empty_state\<lparr>locks := [(Val (Fin 42), 1030)]\<rparr> =
      empty_state\<lparr>locks := (req_order_id card_request, now failing_route + 30) #
        redis_del (req_order_id card_request) (locks empty_state)\<rparr>"
    using a c(1) failing_throws s by (intro conjI)
  note r = t[OF hyp]
  have 1: "payment_handler failing_route empty_state card_request =
     (empty_state\<lparr>locks := [(Val (Fin 42), 1030)]\<rparr>, error_response failing_route deadlock)"
    by (rule conjunct1[OF r])
  have 2: "lock_held 1029 (Val (Fin 42)) [(Val (Fin 42), 1030)]"
    "\<not> lock_held 1030 (Val (Fin 42)) [(Val (Fin 42), 1030)]"
    using spec[OF conjunct1[OF conjunct2[OF r]], of 1029]
      spec[OF conjunct1[OF conjunct2[OF r]], of 1030] l
    by simp_all
  have 3: "payment_handler later_route (empty_state\<lparr>locks := [(Val (Fin 42), 1030)]\<rparr>)
     card_request =
     (empty_state\<lparr>locks := [(Val (Fin 42), 1030)]\<rparr>,
      \<lparr>http_status = 429, http_body = Error_reply
         ''Payment is already being processed for this order'' ''PAYMENT_IN_PROGRESS'' None\<rparr>)"
    using mp[OF spec[OF spec[OF conjunct2[OF conjunct2[OF r]], of later_route], of pending_order]]
      a(2) b c(2)
    by simp
  from a b failing_throws 1 2 3 show ?thesis by (intro conjI)
qed

section \<open>Failures of the ledger and of the lock store (C8)\<close>

lemma checkIdempotency_check_fault:
  "check_fault re = Some err \<Longrightarrow> checkIdempotency re tbl req = Next"
  by (simp add: checkIdempotency_def checkIdempotencyKey_def Let_def split: jsval.splits)

lemma validateRequestData_fault:
  "validate_fault re = Some err \<Longrightarrow> k \<noteq> [] \<Longrightarrow>
   validateRequestData re tbl (Val k) rd = Inl err"
  by (simp add: validateRequestData_def Let_def)

lemma getIdempotencyResult_fault:
  "result_fault re = Some err \<Longrightarrow> k \<noteq> [] \<Longrightarrow>
   getIdempotencyResult re tbl (Val k) = Inl err"
  by (simp add: getIdempotencyResult_def)

lemma checkIdempotency_validate_fault:
  assumes "validate_fault re = Some err"
  shows "checkIdempotency re tbl req = Next"
proof (cases "req_idempotency_key req")
  case (Val k)
  show ?thesis
  proof (cases "k = []")
    case True
    with Val show ?thesis by (simp add: checkIdempotency_def)
  next
    case False
    from validateRequestData_fault[OF assms False] Val False show ?thesis
      by (simp add: checkIdempotency_def Let_def split: sum.splits bool.splits)
  qed
qed (simp_all add: checkIdempotency_def)

lemma checkIdempotency_read_fault:
  assumes "result_fault re = Some err"
    "validateRequestData re tbl (req_idempotency_key req) (middleware_request_data req) \<noteq> Inr False"
  shows "checkIdempotency re tbl req = Next"
proof (cases "req_idempotency_key req")
  case (Val k)
  show ?thesis
  proof (cases "k = []")
    case True
    with Val show ?thesis by (simp add: checkIdempotency_def)
  next
    case False
    from getIdempotencyResult_fault[OF assms(1) False] assms(2) Val False show ?thesis
      by (simp add: checkIdempotency_def Let_def split: sum.splits bool.splits)
  qed
qed (simp_all add: checkIdempotency_def)

lemma payment_route_next:
  "checkIdempotency re (idempotency_keys st) req = Next \<Longrightarrow>
   payment_route re st req = payment_handler re st req"
  by (simp add: payment_route_def)

lemma storeIdempotencyResponse_fault:
  "store_fault re = Some err \<Longrightarrow> storeIdempotencyResponse re tbl key rd resp = tbl"
  by (simp add: storeIdempotencyResponse_def storeIdempotencyKey_def Let_def
      split: jsval.splits)

lemma process_payment_cases:
  "process_payment re st req ord c h =
   (case createPayment (svc re) (tables st) (req_order_id req) (o_user_id ord)
           (o_total_price ord) (req_payment_method req) (req_idempotency_key req) c of
      (d, Inl err) \<Rightarrow> (st\<lparr>tables := d\<rparr>, error_response re err)
    | (d, Inr r) \<Rightarrow>
        (\<lparr>tables = d,
          idempotency_keys = storeIdempotencyResponse re (idempotency_keys st)
             (req_idempotency_key req) (route_request_data req) (response_of r),
          locks = (if h \<and> unlock_fault re = None
                   then redis_del (req_order_id req) (locks st) else locks st)\<rparr>,
         \<lparr>http_status = (if res_status r = Completed then 200 else 422),
          http_body = response_of r\<rparr>))"
  by (simp add: process_payment_def Let_def split: prod.splits sum.splits)

lemma process_payment_result:
  assumes "createPayment (svc re) (tables st) (req_order_id req) (o_user_id ord)
       (o_total_price ord) (req_payment_method req) (req_idempotency_key req) c = (d, Inr r)"
  shows "process_payment re st req ord c h =
     (\<lparr>tables = d,
       idempotency_keys = storeIdempotencyResponse re (idempotency_keys st)
          (req_idempotency_key req) (route_request_data req) (response_of r),
       locks = (if h \<and> unlock_fault re = None
                then redis_del (req_order_id req) (locks st) else locks st)\<rparr>,
      \<lparr>http_status = (if res_status r = Completed then 200 else 422),
       http_body = response_of r\<rparr>)"
  using assms by (simp add: process_payment_cases)

lemma locked_payment_result:
  assumes l: "lock_fault re \<noteq> None \<or> \<not> lock_held (now re) (req_order_id req) (locks st)"
    and cp: "createPayment (svc re) (tables st) (req_order_id req) (o_user_id ord)
       (o_total_price ord) (req_payment_method req) (req_idempotency_key req) c = (d, Inr r)"
  shows "tables (fst (locked_payment re st req ord c)) = d \<and>
     idempotency_keys (fst (locked_payment re st req ord c)) =
       storeIdempotencyResponse re (idempotency_keys st)
          (req_idempotency_key req) (route_request_data req) (response_of r) \<and>
     snd (locked_payment re st req ord c) =
       \<lparr>http_status = (if res_status r = Completed then 200 else 422),
        http_body = response_of r\<rparr>"
proof (cases "lock_fault re")
  case None
  with l have free: "\<not> lock_held (now re) (req_order_id req) (locks st)" by simp
  let ?st = "st\<lparr>locks := (req_order_id req, now re + 30) # redis_del (req_order_id req) (locks st)\<rparr>"
  from cp have "createPayment (svc re) (tables ?st) (req_order_id req) (o_user_id ord)
       (o_total_price ord) (req_payment_method req) (req_idempotency_key req) c = (d, Inr r)"
    by simp
  note p = process_payment_result[OF this, of True]
  from None free have "locked_payment re st req ord c = process_payment re ?st req ord c True"
    by (simp add: locked_payment_def redis_set_nx_def)
  with p show ?thesis by simp
next
  case (Some e)
  then have "locked_payment re st req ord c = process_payment re st req ord c False"
    by (simp add: locked_payment_def)
  with process_payment_result[OF cp, of False] show ?thesis by simp
qed

lemma payment_handler_result:
  assumes o: "order_fetch re = Inr (Some ord)" "o_status ord = ''pending''"
    "case card_step re req of Some c \<Rightarrow> cr_success c | None \<Rightarrow> True"
    and v: "valid_input (req_order_id req) (o_user_id ord) (o_total_price ord)
       (req_payment_method req) (req_idempotency_key req)"
    and n: "no_faults (svc re)"
    and f: "''PAY_'' @ projr (new_id (svc re)) \<notin> payment_id ` set (payments (tables st))"
      "req_idempotency_key req \<notin> idempotency_key ` set (payments (tables st))"
    and l: "lock_fault re \<noteq> None \<or> \<not> lock_held (now re) (req_order_id req) (locks st)"
  shows "\<exists>d r row.
     createPayment (svc re) (tables st) (req_order_id req) (o_user_id ord)
       (o_total_price ord) (req_payment_method req) (req_idempotency_key req)
       (card_step re req) = (d, Inr r) \<and>
     payments d = payments (tables st) @ [row] \<and>
     payment_id row = res_paymentId r \<and> status row = res_status r \<and>
     (status row = Completed \<or> status row = Failed) \<and>
     order_id row = req_order_id req \<and> amount row = o_total_price ord \<and>
     idempotency_key row = req_idempotency_key req \<and>
     tables (fst (payment_handler re st req)) = d \<and>
     idempotency_keys (fst (payment_handler re st req)) =
       storeIdempotencyResponse re (idempotency_keys st)
          (req_idempotency_key req) (route_request_data req) (response_of r) \<and>
     snd (payment_handler re st req) =
       \<lparr>http_status = (if res_status r = Completed then 200 else 422),
        http_body = response_of r\<rparr>"
proof -
  from createPayment_ok[OF v n f, of "card_step re req"] obtain d r where
    cp: "createPayment (svc re) (tables st) (req_order_id req) (o_user_id ord)
       (o_total_price ord) (req_payment_method req) (req_idempotency_key req)
       (card_step re req) = (d, Inr r)"
    by blast
  from createPayment_grows[OF cp] obtain row where
    row: "payments d = payments (tables st) @ [row]" "payment_id row = res_paymentId r"
      "status row = res_status r" "idempotency_key row = req_idempotency_key req"
      "order_id row = req_order_id req" "amount row = o_total_price ord"
      "transition Pending (status row)"
    by blast
  from row(7) have t: "status row = Completed \<or> status row = Failed"
    by (simp add: transition_def)
  note h = payment_handler_locked[OF o, of st]
  note lp = locked_payment_result[OF l cp]
  have 1: "tables (fst (payment_handler re st req)) = d"
    unfolding h by (rule conjunct1[OF lp])
  have 2: "idempotency_keys (fst (payment_handler re st req)) =
       storeIdempotencyResponse re (idempotency_keys st)
          (req_idempotency_key req) (route_request_data req) (response_of r)"
    unfolding h by (rule conjunct1[OF conjunct2[OF lp]])
  have 3: "snd (payment_handler re st req) =
       \<lparr>http_status = (if res_status r = Completed then 200 else 422),
        http_body = response_of r\<rparr>"
    unfolding h by (rule conjunct2[OF conjunct2[OF lp]])
  from cp row(1-3) t row(5,6,4) 1 2 3 show ?thesis by blast
qed


lemma locks_after_lock_fault:
  "lock_fault re = Some err \<Longrightarrow> locks (fst (locked_payment re st req ord c)) = locks st"
  by (simp add: locked_payment_def process_payment_def Let_def split: prod.splits sum.splits)

lemma quiet_createPayment:
  "createPayment quiet_env empty_db (Val (Fin 42)) (Val (Fin 7)) (Val (Fin 100)) (Val ''card'')
     (Val ''11111111-1111-4111-8111-111111111111'') None =
   (paid_db, Inr \<lparr>res_paymentId = ''PAY_1700000000000_00a1b2c3d4e5f607'', res_status = Completed,
      res_transactionId = Some ''TXN_1700000000000_0a1b2c3d4e5f60718293a4b5'',
      res_errorMessage = None\<rparr>)"
proof -
  have v: "validate_payment quiet_env (Val (Fin 42)) (Val (Fin 7)) (Val (Fin 100)) (Val ''card'')
     (Val ''11111111-1111-4111-8111-111111111111'') = None"
    using card_valid by (simp add: validate_payment_None)
  have c: "conn_fault quiet_env = None" by (simp add: quiet_env_def)
  have t: "payment_transaction quiet_env (payments empty_db) (Val (Fin 42)) (Val (Fin 7))
     (Val (Fin 100)) (Val ''card'') (Val ''11111111-1111-4111-8111-111111111111'') None =
     Inr (payments paid_db,
       \<lparr>res_paymentId = ''PAY_1700000000000_00a1b2c3d4e5f607'', res_status = Completed,
        res_transactionId = Some ''TXN_1700000000000_0a1b2c3d4e5f60718293a4b5'',
        res_errorMessage = None\<rparr>)"
    by (simp add: payment_transaction_def insert_payment_def gateway_step_def
        processPaymentGateway_def approvePayment_def update_payment_def affectedRows_def
        quiet_env_def empty_db_def paid_db_def paid_row_def Let_def)
  show ?thesis
    by (simp add: createPayment_def v c t) (simp add: empty_db_def paid_db_def)
qed

lemma first_call:
  "payment_route quiet_route empty_state card_request =
     (recorded_state, \<lparr>http_status = 200, http_body = first_reply\<rparr>)"
  using quiet_createPayment
  by (simp add: payment_route_def checkIdempotency_def checkIdempotencyKey_def live_rows_def
      payment_handler_def card_step_def locked_payment_def redis_set_nx_def lock_held_def
      redis_del_def process_payment_def response_of_def storeIdempotencyResponse_def
      storeIdempotencyKey_def hashRequestData_def JSON_stringify_def json_num_def json_str_def
      route_request_data_def middleware_request_data_def
      List.map_filter_def quiet_route_def empty_state_def card_request_def recorded_state_def
      first_reply_def Let_def)

lemma outage_createPayment:
  "createPayment (svc outage_route) (tables busy_state) (req_order_id card_request)
     (o_user_id pending_order) (o_total_price pending_order) (req_payment_method card_request)
     (req_idempotency_key card_request) (card_step outage_route card_request) =
   (paid_db, Inr \<lparr>res_paymentId = ''PAY_1700000000000_00a1b2c3d4e5f607'', res_status = Completed,
      res_transactionId = Some ''TXN_1700000000000_0a1b2c3d4e5f60718293a4b5'',
      res_errorMessage = None\<rparr>)"
  using quiet_createPayment
  by (simp add: outage_route_def quiet_route_def busy_state_def card_request_def
      pending_order_def card_step_def)

text \<open>
  C8. No rejection of the table of idempotency keys or of the lock store stops a payment.
  When the existence check or the comparison of the request data rejects, the middleware
  passes the request on. When the read of the stored response rejects, which is reached
  only after the comparison has found no difference, the middleware passes the request on
  as well: it answers no conflict on that error. When the write of the response rejects
  after \<open>createPayment\<close> has returned a result, the handler answers with that result, 200
  for a completed and 422 for a failed payment, the payment tables are those
  \<open>createPayment\<close> has committed, and the table of idempotency keys is as before. When
  the lock store rejects the \<open>set\<close>, the handler goes on into \<open>createPayment\<close> without the
  lock, whether or not another request holds it, and leaves the lock store as it is.
  And the payment is made: for an order that is fetched and \<open>pending\<close>, a card step that
  has not failed, valid input, a database and a gateway that reject nothing, and a payment
  id and an idempotency key not yet in the payments table, the handler of a request whose
  lock store rejects, or whose lock is free, appends the payment row in the status
  \<open>completed\<close> or \<open>failed\<close> and answers with that payment, the table of idempotency keys
  staying as it was when the write rejects; and so does the whole route when the existence
  check or the comparison rejects.
\<close>

theorem fail_open:
  "(check_fault re = Some e1 \<or> validate_fault re = Some e1 \<longrightarrow>
      checkIdempotency re (idempotency_keys st) req = Next \<and>
      payment_route re st req = payment_handler re st req) \<and>
   (result_fault re = Some e1 \<and>
    validateRequestData re (idempotency_keys st) (req_idempotency_key req)
      (middleware_request_data req) \<noteq> Inr False \<longrightarrow>
      checkIdempotency re (idempotency_keys st) req = Next \<and>
      payment_route re st req = payment_handler re st req) \<and>
   (store_fault re = Some e2 \<and>
    createPayment (svc re) (tables st) (req_order_id req) (o_user_id ord)
      (o_total_price ord) (req_payment_method req) (req_idempotency_key req) c = (d, Inr r) \<longrightarrow>
      process_payment re st req ord c h =
        (\<lparr>tables = d, idempotency_keys = idempotency_keys st,
          locks = (if h \<and> unlock_fault re = None
                   then redis_del (req_order_id req) (locks st) else locks st)\<rparr>,
         \<lparr>http_status = (if res_status r = Completed then 200 else 422),
          http_body = response_of r\<rparr>)) \<and>
   (lock_fault re = Some e3 \<longrightarrow>
      locked_payment re st req ord c = process_payment re st req ord c False \<and>
      locks (fst (locked_payment re st req ord c)) = locks st) \<and>
   (order_fetch re = Inr (Some ord) \<and> o_status ord = ''pending'' \<and>
    (case card_step re req of Some cr \<Rightarrow> cr_success cr | None \<Rightarrow> True) \<and>
    valid_input (req_order_id req) (o_user_id ord) (o_total_price ord)
      (req_payment_method req) (req_idempotency_key req) \<and>
    no_faults (svc re) \<and>
    ''PAY_'' @ projr (new_id (svc re)) \<notin> payment_id ` set (payments (tables st)) \<and>
    req_idempotency_key req \<notin> idempotency_key ` set (payments (tables st)) \<and>
    (lock_fault re = Some e3 \<or> \<not> lock_held (now re) (req_order_id req) (locks st)) \<longrightarrow>
      (\<exists>d' r' row.
        createPayment (svc re) (tables st) (req_order_id req) (o_user_id ord)
          (o_total_price ord) (req_payment_method req) (req_idempotency_key req)
          (card_step re req) = (d', Inr r') \<and>
        payments d' = payments (tables st) @ [row] \<and>
        payment_id row = res_paymentId r' \<and> status row = res_status r' \<and>
        (status row = Completed \<or> status row = Failed) \<and>
        order_id row = req_order_id req \<and> amount row = o_total_price ord \<and>
        idempotency_key row = req_idempotency_key req \<and>
        tables (fst (payment_handler re st req)) = d' \<and>
        idempotency_keys (fst (payment_handler re st req)) =
          storeIdempotencyResponse re (idempotency_keys st)
            (req_idempotency_key req) (route_request_data req) (response_of r') \<and>
        snd (payment_handler re st req) =
          \<lparr>http_status = (if res_status r' = Completed then 200 else 422),
           http_body = response_of r'\<rparr>) \<and>
      (store_fault re = Some e2 \<longrightarrow>
         idempotency_keys (fst (payment_handler re st req)) = idempotency_keys st)) \<and>
   (order_fetch re = Inr (Some ord) \<and> o_status ord = ''pending'' \<and>
    (case card_step re req of Some cr \<Rightarrow> cr_success cr | None \<Rightarrow> True) \<and>
    valid_input (req_order_id req) (o_user_id ord) (o_total_price ord)
      (req_payment_method req) (req_idempotency_key req) \<and>
    no_faults (svc re) \<and>
    ''PAY_'' @ projr (new_id (svc re)) \<notin> payment_id ` set (payments (tables st)) \<and>
    req_idempotency_key req \<notin> idempotency_key ` set (payments (tables st)) \<and>
    (lock_fault re = Some e3 \<or> \<not> lock_held (now re) (req_order_id req) (locks st)) \<and>
    (check_fault re = Some e1 \<or> validate_fault re = Some e1) \<longrightarrow>
      (\<exists>d' r' row.
        createPayment (svc re) (tables st) (req_order_id req) (o_user_id ord)
          (o_total_price ord) (req_payment_method req) (req_idempotency_key req)
          (card_step re req) = (d', Inr r') \<and>
        payments d' = payments (tables st) @ [row] \<and>
        payment_id row = res_paymentId r' \<and> status row = res_status r' \<and>
        (status row = Completed \<or> status row = Failed) \<and>
        order_id row = req_order_id req \<and> amount row = o_total_price ord \<and>
        idempotency_key row = req_idempotency_key req \<and>
        tables (fst (payment_route re st req)) = d' \<and>
        idempotency_keys (fst (payment_route re st req)) =
          storeIdempotencyResponse re (idempotency_keys st)
            (req_idempotency_key req) (route_request_data req) (response_of r') \<and>
        snd (payment_route re st req) =
          \<lparr>http_status = (if res_status r' = Completed then 200 else 422),
           http_body = response_of r'\<rparr>))"
proof (intro conjI)
  show "check_fault re = Some e1 \<or> validate_fault re = Some e1 \<longrightarrow>
      checkIdempotency re (idempotency_keys st) req = Next \<and>
      payment_route re st req = payment_handler re st req"
  proof
    assume f: "check_fault re = Some e1 \<or> validate_fault re = Some e1"
    then have n: "checkIdempotency re (idempotency_keys st) req = Next"
      using checkIdempotency_check_fault checkIdempotency_validate_fault by blast
    from n payment_route_next[OF n]
    show "checkIdempotency re (idempotency_keys st) req = Next \<and>
      payment_route re st req = payment_handler re st req"
      by (intro conjI)
  qed
next
  show "result_fault re = Some e1 \<and>
    validateRequestData re (idempotency_keys st) (req_idempotency_key req)
      (middleware_request_data req) \<noteq> Inr False \<longrightarrow>
      checkIdempotency re (idempotency_keys st) req = Next \<and>
      payment_route re st req = payment_handler re st req"
  proof
    assume f: "result_fault re = Some e1 \<and>
      validateRequestData re (idempotency_keys st) (req_idempotency_key req)
        (middleware_request_data req) \<noteq> Inr False"
    from checkIdempotency_read_fault[OF conjunct1[OF f] conjunct2[OF f]]
    have n: "checkIdempotency re (idempotency_keys st) req = Next" .
    from n payment_route_next[OF n]
    show "checkIdempotency re (idempotency_keys st) req = Next \<and>
      payment_route re st req = payment_handler re st req"
      by (intro conjI)
  qed
next
  show "store_fault re = Some e2 \<and>
    createPayment (svc re) (tables st) (req_order_id req) (o_user_id ord)
      (o_total_price ord) (req_payment_method req) (req_idempotency_key req) c = (d, Inr r) \<longrightarrow>
      process_payment re st req ord c h =
        (\<lparr>tables = d, idempotency_keys = idempotency_keys st,
          locks = (if h \<and> unlock_fault re = None
                   then redis_del (req_order_id req) (locks st) else locks st)\<rparr>,
         \<lparr>http_status = (if res_status r = Completed then 200 else 422),
          http_body = response_of r\<rparr>)"
  proof
    assume f: "store_fault re = Some e2 \<and>
      createPayment (svc re) (tables st) (req_order_id req) (o_user_id ord)
        (o_total_price ord) (req_payment_method req) (req_idempotency_key req) c = (d, Inr r)"
    from process_payment_result[OF conjunct2[OF f], of h]
      storeIdempotencyResponse_fault[OF conjunct1[OF f]]
    show "process_payment re st req ord c h =
        (\<lparr>tables = d, idempotency_keys = idempotency_keys st,
          locks = (if h \<and> unlock_fault re = None
                   then redis_del (req_order_id req) (locks st) else locks st)\<rparr>,
         \<lparr>http_status = (if res_status r = Completed then 200 else 422),
          http_body = response_of r\<rparr>)"
      by simp
  qed
next
  show "lock_fault re = Some e3 \<longrightarrow>
      locked_payment re st req ord c = process_payment re st req ord c False \<and>
      locks (fst (locked_payment re st req ord c)) = locks st"
  proof
    assume f: "lock_fault re = Some e3"
    then have "locked_payment re st req ord c = process_payment re st req ord c False"
      by (simp add: locked_payment_def)
    with locks_after_lock_fault[OF f]
    show "locked_payment re st req ord c = process_payment re st req ord c False \<and>
      locks (fst (locked_payment re st req ord c)) = locks st"
      by (intro conjI)
  qed
next
  show "order_fetch re = Inr (Some ord) \<and> o_status ord = ''pending'' \<and>
    (case card_step re req of Some cr \<Rightarrow> cr_success cr | None \<Rightarrow> True) \<and>
    valid_input (req_order_id req) (o_user_id ord) (o_total_price ord)
      (req_payment_method req) (req_idempotency_key req) \<and>
    no_faults (svc re) \<and>
    ''PAY_'' @ projr (new_id (svc re)) \<notin> payment_id ` set (payments (tables st)) \<and>
    req_idempotency_key req \<notin> idempotency_key ` set (payments (tables st)) \<and>
    (lock_fault re = Some e3 \<or> \<not> lock_held (now re) (req_order_id req) (locks st)) \<longrightarrow>
      (\<exists>d' r' row.
        createPayment (svc re) (tables st) (req_order_id req) (o_user_id ord)
          (o_total_price ord) (req_payment_method req) (req_idempotency_key req)
          (card_step re req) = (d', Inr r') \<and>
        payments d' = payments (tables st) @ [row] \<and>
        payment_id row = res_paymentId r' \<and> status row = res_status r' \<and>
        (status row = Completed \<or> status row = Failed) \<and>
        order_id row = req_order_id req \<and> amount row = o_total_price ord \<and>
        idempotency_key row = req_idempotency_key req \<and>
        tables (fst (payment_handler re st req)) = d' \<and>
        idempotency_keys (fst (payment_handler re st req)) =
          storeIdempotencyResponse re (idempotency_keys st)
            (req_idempotency_key req) (route_request_data req) (response_of r') \<and>
        snd (payment_handler re st req) =
          \<lparr>http_status = (if res_status r' = Completed then 200 else 422),
           http_body = response_of r'\<rparr>) \<and>
      (store_fault re = Some e2 \<longrightarrow>
         idempotency_keys (fst (payment_handler re st req)) = idempotency_keys st)"
  proof
    assume "order_fetch re = Inr (Some ord) \<and> o_status ord = ''pending'' \<and>
    (case card_step re req of Some cr \<Rightarrow> cr_success cr | None \<Rightarrow> True) \<and>
    valid_input (req_order_id req) (o_user_id ord) (o_total_price ord)
      (req_payment_method req) (req_idempotency_key req) \<and>
    no_faults (svc re) \<and>
    ''PAY_'' @ projr (new_id (svc re)) \<notin> payment_id ` set (payments (tables st)) \<and>
    req_idempotency_key req \<notin> idempotency_key ` set (payments (tables st)) \<and>
    (lock_fault re = Some e3 \<or> \<not> lock_held (now re) (req_order_id req) (locks st))"
    then have a: "order_fetch re = Inr (Some ord)" "o_status ord = ''pending''"
      "case card_step re req of Some cr \<Rightarrow> cr_success cr | None \<Rightarrow> True"
      "valid_input (req_order_id req) (o_user_id ord) (o_total_price ord)
        (req_payment_method req) (req_idempotency_key req)"
      "no_faults (svc re)"
      "''PAY_'' @ projr (new_id (svc re)) \<notin> payment_id ` set (payments (tables st))"
      "req_idempotency_key req \<notin> idempotency_key ` set (payments (tables st))"
      "lock_fault re = Some e3 \<or> \<not> lock_held (now re) (req_order_id req) (locks st)"
      by blast+
    from a(8) have l: "lock_fault re \<noteq> None \<or>
        \<not> lock_held (now re) (req_order_id req) (locks st)"
      by auto
    note p = payment_handler_result[OF a(1-7) l]
    have s: "store_fault re = Some e2 \<longrightarrow>
         idempotency_keys (fst (payment_handler re st req)) = idempotency_keys st"
    proof
      assume sf: "store_fault re = Some e2"
      from p obtain r' where "idempotency_keys (fst (payment_handler re st req)) =
          storeIdempotencyResponse re (idempotency_keys st)
            (req_idempotency_key req) (route_request_data req) (response_of r')"
        by blast
      with storeIdempotencyResponse_fault[OF sf]
      show "idempotency_keys (fst (payment_handler re st req)) = idempotency_keys st"
        by simp
    qed
    from p s show "(\<exists>d' r' row.
        createPayment (svc re) (tables st) (req_order_id req) (o_user_id ord)
          (o_total_price ord) (req_payment_method req) (req_idempotency_key req)
          (card_step re req) = (d', Inr r') \<and>
        payments d' = payments (tables st) @ [row] \<and>
        payment_id row = res_paymentId r' \<and> status row = res_status r' \<and>
        (status row = Completed \<or> status row = Failed) \<and>
        order_id row = req_order_id req \<and> amount row = o_total_price ord \<and>
        idempotency_key row = req_idempotency_key req \<and>
        tables (fst (payment_handler re st req)) = d' \<and>
        idempotency_keys (fst (payment_handler re st req)) =
          storeIdempotencyResponse re (idempotency_keys st)
            (req_idempotency_key req) (route_request_data req) (response_of r') \<and>
        snd (payment_handler re st req) =
          \<lparr>http_status = (if res_status r' = Completed then 200 else 422),
           http_body = response_of r'\<rparr>) \<and>
      (store_fault re = Some e2 \<longrightarrow>
         idempotency_keys (fst (payment_handler re st req)) = idempotency_keys st)"
      by (intro conjI)
  qed
next
  show "order_fetch re = Inr (Some ord) \<and> o_status ord = ''pending'' \<and>
    (case card_step re req of Some cr \<Rightarrow> cr_success cr | None \<Rightarrow> True) \<and>
    valid_input (req_order_id req) (o_user_id ord) (o_total_price ord)
      (req_payment_method req) (req_idempotency_key req) \<and>
    no_faults (svc re) \<and>
    ''PAY_'' @ projr (new_id (svc re)) \<notin> payment_id ` set (payments (tables st)) \<and>
    req_idempotency_key req \<notin> idempotency_key ` set (payments (tables st)) \<and>
    (lock_fault re = Some e3 \<or> \<not> lock_held (now re) (req_order_id req) (locks st)) \<and>
    (check_fault re = Some e1 \<or> validate_fault re = Some e1) \<longrightarrow>
      (\<exists>d' r' row.
        createPayment (svc re) (tables st) (req_order_id req) (o_user_id ord)
          (o_total_price ord) (req_payment_method req) (req_idempotency_key req)
          (card_step re req) = (d', Inr r') \<and>
        payments d' = payments (tables st) @ [row] \<and>
        payment_id row = res_paymentId r' \<and> status row = res_status r' \<and>
        (status row = Completed \<or> status row = Failed) \<and>
        order_id row = req_order_id req \<and> amount row = o_total_price ord \<and>
        idempotency_key row = req_idempotency_key req \<and>
        tables (fst (payment_route re st req)) = d' \<and>
        idempotency_keys (fst (payment_route re st req)) =
          storeIdempotencyResponse re (idempotency_keys st)
            (req_idempotency_key req) (route_request_data req) (response_of r') \<and>
        snd (payment_route re st req) =
          \<lparr>http_status = (if res_status r' = Completed then 200 else 422),
           http_body = response_of r'\<rparr>)"
  proof
    assume h: "order_fetch re = Inr (Some ord) \<and> o_status ord = ''pending'' \<and>
    (case card_step re req of Some cr \<Rightarrow> cr_success cr | None \<Rightarrow> True) \<and>
    valid_input (req_order_id req) (o_user_id ord) (o_total_price ord)
      (req_payment_method req) (req_idempotency_key req) \<and>
    no_faults (svc re) \<and>
    ''PAY_'' @ projr (new_id (svc re)) \<notin> payment_id ` set (payments (tables st)) \<and>
    req_idempotency_key req \<notin> idempotency_key ` set (payments (tables st)) \<and>
    (lock_fault re = Some e3 \<or> \<not> lock_held (now re) (req_order_id req) (locks st)) \<and>
    (check_fault re = Some e1 \<or> validate_fault re = Some e1)"
    then have a: "order_fetch re = Inr (Some ord)" "o_status ord = ''pending''"
      "case card_step re req of Some cr \<Rightarrow> cr_success cr | None \<Rightarrow> True"
      "valid_input (req_order_id req) (o_user_id ord) (o_total_price ord)
        (req_payment_method req) (req_idempotency_key req)"
      "no_faults (svc re)"
      "''PAY_'' @ projr (new_id (svc re)) \<notin> payment_id ` set (payments (tables st))"
      "req_idempotency_key req \<notin> idempotency_key ` set (payments (tables st))"
      "lock_fault re = Some e3 \<or> \<not> lock_held (now re) (req_order_id req) (locks st)"
      and f: "check_fault re = Some e1 \<or> validate_fault re = Some e1"
      by blast+
    from a(8) have l: "lock_fault re \<noteq> None \<or>
        \<not> lock_held (now re) (req_order_id req) (locks st)"
      by auto
    from f have n: "checkIdempotency re (idempotency_keys st) req = Next"
      using checkIdempotency_check_fault checkIdempotency_validate_fault by blast
    note p = payment_handler_result[OF a(1-7) l]
    show "(\<exists>d' r' row.
        createPayment (svc re) (tables st) (req_order_id req) (o_user_id ord)
          (o_total_price ord) (req_payment_method req) (req_idempotency_key req)
          (card_step re req) = (d', Inr r') \<and>
        payments d' = payments (tables st) @ [row] \<and>
        payment_id row = res_paymentId r' \<and> status row = res_status r' \<and>
        (status row = Completed \<or> status row = Failed) \<and>
        order_id row = req_order_id req \<and> amount row = o_total_price ord \<and>
        idempotency_key row = req_idempotency_key req \<and>
        tables (fst (payment_route re st req)) = d' \<and>
        idempotency_keys (fst (payment_route re st req)) =
          storeIdempotencyResponse re (idempotency_keys st)
            (req_idempotency_key req) (route_request_data req) (response_of r') \<and>
        snd (payment_route re st req) =
          \<lparr>http_status = (if res_status r' = Completed then 200 else 422),
           http_body = response_of r'\<rparr>)"
      unfolding payment_route_next[OF n] by (rule p)
  qed
qed

theorem fail_open_witness:
  "check_fault outage_route = Some refused \<and> store_fault outage_route = Some refused \<and>
   lock_fault outage_route = Some refused \<and>
   lock_held (now outage_route) (req_order_id card_request) (locks busy_state) \<and>
   checkIdempotency outage_route (idempotency_keys busy_state) card_request = Next \<and>
   tables (fst (payment_route outage_route busy_state card_request)) = paid_db \<and>
   snd (payment_route outage_route busy_state card_request) =
     \<lparr>http_status = 200, http_body = first_reply\<rparr> \<and>
   idempotency_keys (fst (payment_route outage_route busy_state card_request)) = [] \<and>
   locks (fst (locked_payment outage_route busy_state card_request pending_order None)) =
     locks busy_state \<and>
   result_fault (later_route\<lparr>result_fault := Some refused\<rparr>) = Some refused \<and>
   checkIdempotency (later_route\<lparr>result_fault := Some refused\<rparr>)
     (idempotency_keys recorded_state) card_request = Next \<and>
   process_payment (quiet_route\<lparr>store_fault := Some refused\<rparr>) empty_state card_request
     pending_order None True = (claimed_state, \<lparr>http_status = 200, http_body = first_reply\<rparr>)"
proof -
  let ?R = "\<lparr>res_paymentId = ''PAY_1700000000000_00a1b2c3d4e5f607'', res_status = Completed,
      res_transactionId = Some ''TXN_1700000000000_0a1b2c3d4e5f60718293a4b5'',
      res_errorMessage = None\<rparr>"
  have a: "check_fault outage_route = Some refused" "store_fault outage_route = Some refused"
    "lock_fault outage_route = Some refused"
    "lock_held (now outage_route) (req_order_id card_request) (locks busy_state)"
    "result_fault (later_route\<lparr>result_fault := Some refused\<rparr>) = Some refused"
    "store_fault (quiet_route\<lparr>store_fault := Some refused\<rparr>) = Some refused"
    by (simp_all add: outage_route_def quiet_route_def lock_held_def busy_state_def
        card_request_def)
  have b: "order_fetch outage_route = Inr (Some pending_order)"
    "o_status pending_order = ''pending''"
    "case card_step outage_route card_request of Some cr \<Rightarrow> cr_success cr | None \<Rightarrow> True"
    "no_faults (svc outage_route)"
    "''PAY_'' @ projr (new_id (svc outage_route)) \<notin>
       payment_id ` set (payments (tables busy_state))"
    "req_idempotency_key card_request \<notin>
       idempotency_key ` set (payments (tables busy_state))"
    by (simp_all add: outage_route_def quiet_route_def pending_order_def card_step_def
        card_request_def no_faults_def quiet_env_def busy_state_def empty_db_def)
  have v: "valid_input (req_order_id card_request) (o_user_id pending_order)
      (o_total_price pending_order) (req_payment_method card_request)
      (req_idempotency_key card_request)"
    using card_valid by (simp add: card_request_def pending_order_def)
  have g: "validateRequestData (later_route\<lparr>result_fault := Some refused\<rparr>)
      (idempotency_keys recorded_state) (req_idempotency_key card_request)
      (middleware_request_data card_request) \<noteq> Inr False"
    by (simp add: validateRequestData_def live_rows_def hashRequestData_def JSON_stringify_def
        json_num_def json_str_def middleware_request_data_def List.map_filter_def
        later_route_def quiet_route_def card_request_def recorded_state_def Let_def)
  have q: "createPayment (svc (quiet_route\<lparr>store_fault := Some refused\<rparr>)) (tables empty_state)
     (req_order_id card_request) (o_user_id pending_order) (o_total_price pending_order)
     (req_payment_method card_request) (req_idempotency_key card_request) None =
     (paid_db, Inr ?R)"
    using quiet_createPayment
    by (simp add: quiet_route_def empty_state_def card_request_def pending_order_def)
  note t1 = fail_open[where re = outage_route and st = busy_state and req = card_request
      and ord = pending_order and c = None and h = False and ?e1.0 = refused
      and ?e2.0 = refused and ?e3.0 = refused and d = paid_db and r = ?R]
  note t2 = fail_open[where re = "later_route\<lparr>result_fault := Some refused\<rparr>"
      and st = recorded_state and req = card_request
      and ord = pending_order and c = None and h = False and ?e1.0 = refused
      and ?e2.0 = refused and ?e3.0 = refused and d = paid_db and r = ?R]
  note t3 = fail_open[where re = "quiet_route\<lparr>store_fault := Some refused\<rparr>"
      and st = empty_state and req = card_request
      and ord = pending_order and c = None and h = True and ?e1.0 = refused
      and ?e2.0 = refused and ?e3.0 = refused and d = paid_db and r = ?R]
  have 1: "checkIdempotency outage_route (idempotency_keys busy_state) card_request = Next"
    "payment_route outage_route busy_state card_request =
       payment_handler outage_route busy_state card_request"
    using mp[OF conjunct1[OF t1] disjI1[OF a(1)]] by simp_all
  have hyp: "order_fetch outage_route = Inr (Some pending_order) \<and>
    o_status pending_order = ''pending'' \<and>
    (case card_step outage_route card_request of Some cr \<Rightarrow> cr_success cr | None \<Rightarrow> True) \<and>
    valid_input (req_order_id card_request) (o_user_id pending_order)
      (o_total_price pending_order) (req_payment_method card_request)
      (req_idempotency_key card_request) \<and>
    no_faults (svc outage_route) \<and>
    ''PAY_'' @ projr (new_id (svc outage_route)) \<notin>
       payment_id ` set (payments (tables busy_state)) \<and>
    req_idempotency_key card_request \<notin>
       idempotency_key ` set (payments (tables busy_state)) \<and>
    (lock_fault outage_route = Some refused \<or>
     \<not> lock_held (now outage_route) (req_order_id card_request) (locks busy_state))"
    using b v a(3) by (intro conjI disjI1)
  note c5 = mp[OF conjunct1[OF conjunct2[OF conjunct2[OF conjunct2[OF conjunct2[OF t1]]]]] hyp]
  have hyp6: "order_fetch outage_route = Inr (Some pending_order) \<and>
    o_status pending_order = ''pending'' \<and>
    (case card_step outage_route card_request of Some cr \<Rightarrow> cr_success cr | None \<Rightarrow> True) \<and>
    valid_input (req_order_id card_request) (o_user_id pending_order)
      (o_total_price pending_order) (req_payment_method card_request)
      (req_idempotency_key card_request) \<and>
    no_faults (svc outage_route) \<and>
    ''PAY_'' @ projr (new_id (svc outage_route)) \<notin>
       payment_id ` set (payments (tables busy_state)) \<and>
    req_idempotency_key card_request \<notin>
       idempotency_key ` set (payments (tables busy_state)) \<and>
    (lock_fault outage_route = Some refused \<or>
     \<not> lock_held (now outage_route) (req_order_id card_request) (locks busy_state)) \<and>
    (check_fault outage_route = Some refused \<or> validate_fault outage_route = Some refused)"
    using b v a(3) a(1) by (intro conjI disjI1)
  note c6 = mp[OF conjunct2[OF conjunct2[OF conjunct2[OF conjunct2[OF conjunct2[OF t1]]]]] hyp6]
  from c6 obtain d' r' where
    o: "createPayment (svc outage_route) (tables busy_state) (req_order_id card_request)
          (o_user_id pending_order) (o_total_price pending_order)
          (req_payment_method card_request) (req_idempotency_key card_request)
          (card_step outage_route card_request) = (d', Inr r')"
       "tables (fst (payment_route outage_route busy_state card_request)) = d'"
       "snd (payment_route outage_route busy_state card_request) =
          \<lparr>http_status = (if res_status r' = Completed then 200 else 422),
           http_body = response_of r'\<rparr>"
    by blast
  from o(1) outage_createPayment have e: "d' = paid_db" "r' = ?R" by simp_all
  have 2: "tables (fst (payment_route outage_route busy_state card_request)) = paid_db"
    using o(2) e(1) by simp
  have 3: "snd (payment_route outage_route busy_state card_request) =
     \<lparr>http_status = 200, http_body = first_reply\<rparr>"
    using o(3) e(2) by (simp add: response_of_def first_reply_def)
  have 4: "idempotency_keys (fst (payment_route outage_route busy_state card_request)) = []"
    using mp[OF conjunct2[OF c5] a(2)] 1(2) by (simp add: busy_state_def)
  have 5: "locks (fst (locked_payment outage_route busy_state card_request pending_order None)) =
     locks busy_state"
    using mp[OF conjunct1[OF conjunct2[OF conjunct2[OF conjunct2[OF t1]]]] a(3)]
    by (rule conjunct2)
  have 6: "checkIdempotency (later_route\<lparr>result_fault := Some refused\<rparr>)
     (idempotency_keys recorded_state) card_request = Next"
    using mp[OF conjunct1[OF conjunct2[OF t2]] conjI[OF a(5) g]] by (rule conjunct1)
  have 7: "process_payment (quiet_route\<lparr>store_fault := Some refused\<rparr>) empty_state card_request
     pending_order None True = (claimed_state, \<lparr>http_status = 200, http_body = first_reply\<rparr>)"
    using mp[OF conjunct1[OF conjunct2[OF conjunct2[OF t3]]] conjI[OF a(6) q]]
    by (simp add: empty_state_def claimed_state_def response_of_def first_reply_def
        redis_del_def)
  from a(1-4) 1(1) 2 3 4 5 a(5) 6 7 show ?thesis by (intro conjI)
qed

section \<open>The idempotency key of a request (C2, C3)\<close>

lemma store_fresh:
  assumes "k \<noteq> []" "store_fault re = None" "k \<notin> ik_key ` set tbl"
  shows "storeIdempotencyResponse re tbl (Val k) rd resp =
     tbl @ [\<lparr>ik_key = k, request_hash = sha256 re (JSON_stringify rd), response_data = resp,
             expires_at = now re + 86400\<rparr>]"
  using assms
  by (simp add: storeIdempotencyResponse_def storeIdempotencyKey_def hashRequestData_def Let_def)

lemma store_existing:
  assumes "k \<in> ik_key ` set tbl"
  shows "storeIdempotencyResponse re tbl (Val k) rd resp = tbl"
  using assms
  by (simp add: storeIdempotencyResponse_def storeIdempotencyKey_def Let_def
      split: option.splits)

lemma live_rows_fresh: "k \<notin> ik_key ` set tbl \<Longrightarrow> live_rows re tbl k = []"
  by (auto simp: live_rows_def filter_empty_conv)

lemma live_rows_snoc:
  assumes "k \<notin> ik_key ` set tbl" "ik_key row = k" "now re < expires_at row"
  shows "live_rows re (tbl @ [row]) k = [row]"
  using assms live_rows_fresh[OF assms(1), of re] by (simp add: live_rows_def)

lemma checkIdempotency_new:
  assumes "req_idempotency_key req = Val k" "k \<notin> ik_key ` set tbl"
  shows "checkIdempotency re tbl req = Next"
  using assms live_rows_fresh[OF assms(2), of re]
  by (simp add: checkIdempotency_def checkIdempotencyKey_def Let_def split: option.splits)

lemma checkIdempotency_live:
  assumes "req_idempotency_key req = Val k" "k \<noteq> []" "live_rows re tbl k = r # rs"
    "check_fault re = None" "validate_fault re = None"
  shows "checkIdempotency re tbl req =
     (if sha256 re (JSON_stringify (middleware_request_data req)) = request_hash r
      then (case result_fault re of
              Some err \<Rightarrow> Next
            | None \<Rightarrow> Respond \<lparr>http_status = 200, http_body = response_data r\<rparr>)
      else Respond \<lparr>http_status = 409, http_body = Error_reply
             ''Idempotency key conflict: same key used with different request data''
             ''DUPLICATE_REQUEST'' None\<rparr>)"
  using assms
  by (simp add: checkIdempotency_def checkIdempotencyKey_def validateRequestData_def
      getIdempotencyResult_def hashRequestData_def Let_def split: option.splits)

lemma valid_id_value: "isValidUserId v \<Longrightarrow> \<exists>r. v = Val (Fin r)"
  by (cases v) (auto simp: isValidUserId_def isInteger_def split: jsnum.splits)

lemma valid_method_value: "isValidPaymentMethod v \<Longrightarrow> \<exists>s. v = Val s"
  by (cases v) (auto simp: isValidPaymentMethod_def)

lemma stringify_route_data:
  assumes "req_order_id req = Val (Fin r)" "req_payment_method req = Val s"
  shows "JSON_stringify (route_request_data req) =
     JObj [(''order_id'', JNum r), (''payment_method'', JStr s)]"
  using assms
  by (simp add: JSON_stringify_def route_request_data_def json_num_def json_str_def
      List.map_filter_simps)

lemma stringify_middleware_data:
  assumes "req_order_id req = Val (Fin r)" "req_payment_method req = Val s"
  shows "\<exists>rest. JSON_stringify (middleware_request_data req) =
     JObj ((''order_id'', JNum r) # (''payment_method'', JStr s) # rest)"
  using assms
  by (simp add: JSON_stringify_def middleware_request_data_def json_num_def json_str_def
      List.map_filter_simps)

lemma stringify_same:
  assumes "req_user_id req = None" "req_items req = None" "req_total_price req = None"
  shows "JSON_stringify (middleware_request_data req) = JSON_stringify (route_request_data req)"
  using assms
  by (simp add: JSON_stringify_def middleware_request_data_def route_request_data_def
      List.map_filter_def)

lemma stringify_differs:
  assumes "isValidUserId (req_order_id req1)" "isValidPaymentMethod (req_payment_method req1)"
    "isValidUserId (req_order_id req2)" "isValidPaymentMethod (req_payment_method req2)"
    "req_order_id req2 \<noteq> req_order_id req1 \<or> req_payment_method req2 \<noteq> req_payment_method req1"
  shows "JSON_stringify (middleware_request_data req2) \<noteq> JSON_stringify (route_request_data req1)"
proof -
  from valid_id_value[OF assms(1)] valid_method_value[OF assms(2)]
  obtain r1 s1 where a: "req_order_id req1 = Val (Fin r1)" "req_payment_method req1 = Val s1"
    by blast
  from valid_id_value[OF assms(3)] valid_method_value[OF assms(4)]
  obtain r2 s2 where b: "req_order_id req2 = Val (Fin r2)" "req_payment_method req2 = Val s2"
    by blast
  from stringify_middleware_data[OF b] obtain rest where
    m: "JSON_stringify (middleware_request_data req2) =
     JObj ((''order_id'', JNum r2) # (''payment_method'', JStr s2) # rest)" by blast
  from assms(5) a b have "r2 \<noteq> r1 \<or> s2 \<noteq> s1" by simp
  then show ?thesis
    unfolding m stringify_route_data[OF a] by auto
qed

lemma error_response_not_terminal: "\<not> terminal_reply (http_body (error_response re err))"
  by (simp add: error_response_def terminal_reply_def Let_def)

lemma response_of_status: "rp_status (response_of r) = res_status r"
  by (simp add: response_of_def)

lemma process_payment_terminal:
  assumes "process_payment re st req ord c h = (st', resp)" "terminal_reply (http_body resp)"
  shows "\<exists>r. idempotency_keys st' = storeIdempotencyResponse re (idempotency_keys st)
            (req_idempotency_key req) (route_request_data req) (response_of r) \<and>
          resp = \<lparr>http_status = (if res_status r = Completed then 200 else 422),
                  http_body = response_of r\<rparr>"
proof (cases "createPayment (svc re) (tables st) (req_order_id req) (o_user_id ord)
           (o_total_price ord) (req_payment_method req) (req_idempotency_key req) c")
  case (Pair d res)
  show ?thesis
  proof (cases res)
    case (Inl e)
    with Pair assms(1) have "resp = error_response re e"
      by (simp add: process_payment_cases)
    with assms(2) show ?thesis by (simp add: error_response_not_terminal)
  next
    case (Inr r)
    with Pair assms(1) show ?thesis
      by (intro exI[of _ r]) (auto simp: process_payment_cases)
  qed
qed

lemma locked_payment_terminal:
  assumes "locked_payment re st req ord c = (st', resp)" "terminal_reply (http_body resp)"
  shows "\<exists>r. idempotency_keys st' = storeIdempotencyResponse re (idempotency_keys st)
            (req_idempotency_key req) (route_request_data req) (response_of r) \<and>
          resp = \<lparr>http_status = (if res_status r = Completed then 200 else 422),
                  http_body = response_of r\<rparr>"
proof (cases "lock_fault re")
  case (Some e)
  with assms(1) have "process_payment re st req ord c False = (st', resp)"
    by (simp add: locked_payment_def)
  from process_payment_terminal[OF this assms(2)] show ?thesis .
next
  case None
  show ?thesis
  proof (cases "lock_held (now re) (req_order_id req) (locks st)")
    case True
    with None assms(1) have "http_body resp = Error_reply
        ''Payment is already being processed for this order'' ''PAYMENT_IN_PROGRESS'' None"
      by (auto simp: locked_payment_def redis_set_nx_def)
    with assms(2) show ?thesis by (simp add: terminal_reply_def)
  next
    case False
    with None assms(1) have "process_payment re
        (st\<lparr>locks := (req_order_id req, now re + 30) # redis_del (req_order_id req) (locks st)\<rparr>)
        req ord c True = (st', resp)"
      by (simp add: locked_payment_def redis_set_nx_def)
    from process_payment_terminal[OF this assms(2)] show ?thesis by simp
  qed
qed

lemma payment_handler_terminal:
  assumes "payment_handler re st req = (st', resp)" "terminal_reply (http_body resp)"
  shows "\<exists>r. idempotency_keys st' = storeIdempotencyResponse re (idempotency_keys st)
            (req_idempotency_key req) (route_request_data req) (response_of r) \<and>
          resp = \<lparr>http_status = (if res_status r = Completed then 200 else 422),
                  http_body = response_of r\<rparr>"
proof -
  have "\<exists>ord. locked_payment re st req ord (card_step re req) = (st', resp)"
    using assms
    by (auto simp: payment_handler_def terminal_reply_def Let_def
        split: sum.splits option.splits if_splits)
  then obtain ord where "locked_payment re st req ord (card_step re req) = (st', resp)" by blast
  from locked_payment_terminal[OF this assms(2)] show ?thesis .
qed

lemma declined_createPayment:
  "createPayment (quiet_env\<lparr>gateway_roll := False\<rparr>) empty_db (Val (Fin 42)) (Val (Fin 7))
     (Val (Fin 100)) (Val ''card'') (Val ''11111111-1111-4111-8111-111111111111'') None =
   (tables declined_state,
    Inr \<lparr>res_paymentId = ''PAY_1700000000000_00a1b2c3d4e5f607'', res_status = Failed,
      res_transactionId = None, res_errorMessage = Some ''Payment declined by gateway''\<rparr>)"
proof -
  let ?e = "quiet_env\<lparr>gateway_roll := False\<rparr>"
  have v: "validate_payment ?e (Val (Fin 42)) (Val (Fin 7)) (Val (Fin 100)) (Val ''card'')
     (Val ''11111111-1111-4111-8111-111111111111'') = None"
    using card_valid by (simp add: validate_payment_None)
  have c: "conn_fault ?e = None" by (simp add: quiet_env_def)
  have t: "payment_transaction ?e (payments empty_db) (Val (Fin 42)) (Val (Fin 7))
     (Val (Fin 100)) (Val ''card'') (Val ''11111111-1111-4111-8111-111111111111'') None =
     Inr (payments (tables declined_state),
       \<lparr>res_paymentId = ''PAY_1700000000000_00a1b2c3d4e5f607'', res_status = Failed,
        res_transactionId = None, res_errorMessage = Some ''Payment declined by gateway''\<rparr>)"
    by (simp add: payment_transaction_def insert_payment_def gateway_step_def
        processPaymentGateway_def failPayment_def update_payment_def affectedRows_def
        quiet_env_def empty_db_def declined_state_def Let_def)
  show ?thesis
    by (simp add: createPayment_def v c t) (simp add: empty_db_def declined_state_def)
qed

lemma declined_call:
  "payment_route declined_route empty_state card_request =
     (declined_state, \<lparr>http_status = 422, http_body = declined_reply\<rparr>)"
  using declined_createPayment
  by (simp add: payment_route_def checkIdempotency_def checkIdempotencyKey_def live_rows_def
      payment_handler_def card_step_def locked_payment_def redis_set_nx_def lock_held_def
      redis_del_def process_payment_def response_of_def storeIdempotencyResponse_def
      storeIdempotencyKey_def hashRequestData_def JSON_stringify_def json_num_def json_str_def
      route_request_data_def middleware_request_data_def
      List.map_filter_def declined_route_def quiet_route_def empty_state_def card_request_def
      declined_state_def declined_reply_def Let_def)

lemma replay_eval:
  "checkIdempotency later_route (idempotency_keys declined_state) card_request =
     Respond \<lparr>http_status = 200, http_body = declined_reply\<rparr>"
  "checkIdempotency changed_amount_route (idempotency_keys recorded_state) card_request =
     Respond \<lparr>http_status = 200, http_body = first_reply\<rparr>"
  by (simp_all add: checkIdempotency_def checkIdempotencyKey_def validateRequestData_def
      getIdempotencyResult_def live_rows_def hashRequestData_def JSON_stringify_def
      json_num_def json_str_def middleware_request_data_def List.map_filter_def
      changed_amount_route_def later_route_def quiet_route_def card_request_def
      declined_state_def recorded_state_def Let_def)

lemma conflict_after_first:
  fixes re1 re2 :: "'h route_env"
  assumes k: "k \<noteq> []" "req_idempotency_key req1 = Val k" "req_idempotency_key req2 = Val k"
    and valid: "isValidUserId (req_order_id req1)" "isValidPaymentMethod (req_payment_method req1)"
      "isValidUserId (req_order_id req2)" "isValidPaymentMethod (req_payment_method req2)"
    and differ: "req_order_id req2 \<noteq> req_order_id req1 \<or>
      req_payment_method req2 \<noteq> req_payment_method req1"
    and first: "store_fault re1 = None" "k \<notin> ik_key ` set tbl"
      "idempotency_keys st =
         storeIdempotencyResponse re1 tbl (Val k) (route_request_data req1) resp1"
    and second: "now re2 < now re1 + 86400" "check_fault re2 = None" "validate_fault re2 = None"
      "sha256 re2 = sha256 re1"
    and digest: "sha256 re1 (JSON_stringify (middleware_request_data req2)) =
        sha256 re1 (JSON_stringify (route_request_data req1)) \<longrightarrow>
      JSON_stringify (middleware_request_data req2) = JSON_stringify (route_request_data req1)"
  shows "(\<exists>r s. req_order_id req1 = Val (Fin r) \<and> req_payment_method req1 = Val s \<and>
       idempotency_keys st = tbl @
         [\<lparr>ik_key = k,
           request_hash = sha256 re1 (JObj [(''order_id'', JNum r), (''payment_method'', JStr s)]),
           response_data = resp1, expires_at = now re1 + 86400\<rparr>]) \<and>
     payment_route re2 st req2 =
       (st, \<lparr>http_status = 409, http_body = Error_reply
          ''Idempotency key conflict: same key used with different request data''
          ''DUPLICATE_REQUEST'' None\<rparr>)"
proof -
  let ?row = "\<lparr>ik_key = k, request_hash = sha256 re1 (JSON_stringify (route_request_data req1)),
      response_data = resp1, expires_at = now re1 + 86400\<rparr>"
  from first(3) store_fresh[OF k(1) first(1,2)]
  have keys: "idempotency_keys st = tbl @ [?row]" by simp
  from valid_id_value[OF valid(1)] valid_method_value[OF valid(2)]
  obtain r s where rs: "req_order_id req1 = Val (Fin r)" "req_payment_method req1 = Val s"
    by blast
  have 1: "\<exists>r s. req_order_id req1 = Val (Fin r) \<and> req_payment_method req1 = Val s \<and>
       idempotency_keys st = tbl @
         [\<lparr>ik_key = k,
           request_hash = sha256 re1 (JObj [(''order_id'', JNum r), (''payment_method'', JStr s)]),
           response_data = resp1, expires_at = now re1 + 86400\<rparr>]"
    using rs keys stringify_route_data[OF rs] by simp
  have live: "live_rows re2 (idempotency_keys st) k = [?row]"
    unfolding keys using live_rows_snoc[OF first(2), of ?row re2] second(1) by simp
  from stringify_differs[OF valid differ] digest
  have "sha256 re1 (JSON_stringify (middleware_request_data req2)) \<noteq>
        sha256 re1 (JSON_stringify (route_request_data req1))"
    by blast
  then have hash: "sha256 re2 (JSON_stringify (middleware_request_data req2)) \<noteq> request_hash ?row"
    using second(4) by simp
  from checkIdempotency_live[OF k(3) k(1) live second(2,3)] hash
  have "checkIdempotency re2 (idempotency_keys st) req2 =
     Respond \<lparr>http_status = 409, http_body = Error_reply
          ''Idempotency key conflict: same key used with different request data''
          ''DUPLICATE_REQUEST'' None\<rparr>"
    by simp
  then have 2: "payment_route re2 st req2 =
       (st, \<lparr>http_status = 409, http_body = Error_reply
          ''Idempotency key conflict: same key used with different request data''
          ''DUPLICATE_REQUEST'' None\<rparr>)"
    by (simp add: payment_route_def)
  from 1 2 show ?thesis by (intro conjI)
qed

lemma stored_row_kept:
  fixes re1 re3 :: "'h route_env"
  assumes "k \<noteq> []" "store_fault re1 = None" "k \<notin> ik_key ` set tbl"
    "tbl1 = storeIdempotencyResponse re1 tbl (Val k) rd resp1"
  shows "storeIdempotencyResponse re3 tbl1 (Val k) rd3 resp3 = tbl1"
proof -
  from assms(4) store_fresh[OF assms(1-3)] have "k \<in> ik_key ` set tbl1" by simp
  then show ?thesis by (rule store_existing)
qed

text \<open>
  C2, as the code has it. The first request has stored its response under the key: the
  stored hash is the digest of the JSON object of its order id and its payment method,
  and of nothing else. A second request with the same key and another order id or
  another payment method, arriving before the 24 hours have passed, with the reads of
  the table succeeding and no collision of the digest on the two objects, is answered
  409 \<open>DUPLICATE_REQUEST\<close> by the middleware; the state is unchanged, so the payment of
  the first request is untouched, and a later write under the key leaves the stored row as
  it is. The amount is not part of the request data and plays no role.
\<close>

theorem idempotency_conflict:
  "k \<noteq> [] \<and> req_idempotency_key req1 = Val k \<and> req_idempotency_key req2 = Val k \<and>
   isValidUserId (req_order_id req1) \<and> isValidPaymentMethod (req_payment_method req1) \<and>
   isValidUserId (req_order_id req2) \<and> isValidPaymentMethod (req_payment_method req2) \<and>
   (req_order_id req2 \<noteq> req_order_id req1 \<or>
    req_payment_method req2 \<noteq> req_payment_method req1) \<and>
   store_fault (re1 :: 'h route_env) = None \<and> k \<notin> ik_key ` set tbl \<and>
   idempotency_keys st =
     storeIdempotencyResponse re1 tbl (Val k) (route_request_data req1) resp1 \<and>
   now (re2 :: 'h route_env) < now re1 + 86400 \<and> check_fault re2 = None \<and>
   validate_fault re2 = None \<and> sha256 re2 = sha256 re1 \<and>
   (sha256 re1 (JSON_stringify (middleware_request_data req2)) =
      sha256 re1 (JSON_stringify (route_request_data req1)) \<longrightarrow>
    JSON_stringify (middleware_request_data req2) = JSON_stringify (route_request_data req1))
   \<longrightarrow>
     (\<exists>r s. req_order_id req1 = Val (Fin r) \<and> req_payment_method req1 = Val s \<and>
        idempotency_keys st = tbl @
          [\<lparr>ik_key = k,
            request_hash = sha256 re1 (JObj [(''order_id'', JNum r), (''payment_method'', JStr s)]),
            response_data = resp1, expires_at = now re1 + 86400\<rparr>]) \<and>
     payment_route re2 st req2 =
       (st, \<lparr>http_status = 409, http_body = Error_reply
          ''Idempotency key conflict: same key used with different request data''
          ''DUPLICATE_REQUEST'' None\<rparr>) \<and>
     storeIdempotencyResponse (re3 :: 'h route_env) (idempotency_keys st) (Val k) rd3 resp3 =
       idempotency_keys st"
proof
  assume h: "k \<noteq> [] \<and> req_idempotency_key req1 = Val k \<and> req_idempotency_key req2 = Val k \<and>
   isValidUserId (req_order_id req1) \<and> isValidPaymentMethod (req_payment_method req1) \<and>
   isValidUserId (req_order_id req2) \<and> isValidPaymentMethod (req_payment_method req2) \<and>
   (req_order_id req2 \<noteq> req_order_id req1 \<or>
    req_payment_method req2 \<noteq> req_payment_method req1) \<and>
   store_fault re1 = None \<and> k \<notin> ik_key ` set tbl \<and>
   idempotency_keys st =
     storeIdempotencyResponse re1 tbl (Val k) (route_request_data req1) resp1 \<and>
   now re2 < now re1 + 86400 \<and> check_fault re2 = None \<and>
   validate_fault re2 = None \<and> sha256 re2 = sha256 re1 \<and>
   (sha256 re1 (JSON_stringify (middleware_request_data req2)) =
      sha256 re1 (JSON_stringify (route_request_data req1)) \<longrightarrow>
    JSON_stringify (middleware_request_data req2) = JSON_stringify (route_request_data req1))"
  then have a: "k \<noteq> []" "req_idempotency_key req1 = Val k" "req_idempotency_key req2 = Val k"
    "isValidUserId (req_order_id req1)" "isValidPaymentMethod (req_payment_method req1)"
    "isValidUserId (req_order_id req2)" "isValidPaymentMethod (req_payment_method req2)"
    "req_order_id req2 \<noteq> req_order_id req1 \<or>
      req_payment_method req2 \<noteq> req_payment_method req1"
    "store_fault re1 = None" "k \<notin> ik_key ` set tbl"
    "idempotency_keys st =
         storeIdempotencyResponse re1 tbl (Val k) (route_request_data req1) resp1"
    "now re2 < now re1 + 86400" "check_fault re2 = None" "validate_fault re2 = None"
    "sha256 re2 = sha256 re1"
    "sha256 re1 (JSON_stringify (middleware_request_data req2)) =
        sha256 re1 (JSON_stringify (route_request_data req1)) \<longrightarrow>
      JSON_stringify (middleware_request_data req2) = JSON_stringify (route_request_data req1)"
    by blast+
  note c = conflict_after_first[OF a]
  note s = stored_row_kept[OF a(1) a(9) a(10) a(11), of re3 rd3 resp3]
  from conjunct1[OF c] conjunct2[OF c] s
  show "(\<exists>r s. req_order_id req1 = Val (Fin r) \<and> req_payment_method req1 = Val s \<and>
        idempotency_keys st = tbl @
          [\<lparr>ik_key = k,
            request_hash = sha256 re1 (JObj [(''order_id'', JNum r), (''payment_method'', JStr s)]),
            response_data = resp1, expires_at = now re1 + 86400\<rparr>]) \<and>
     payment_route re2 st req2 =
       (st, \<lparr>http_status = 409, http_body = Error_reply
          ''Idempotency key conflict: same key used with different request data''
          ''DUPLICATE_REQUEST'' None\<rparr>) \<and>
     storeIdempotencyResponse re3 (idempotency_keys st) (Val k) rd3 resp3 =
       idempotency_keys st"
    by (intro conjI)
qed

theorem idempotency_conflict_witness:
  "''11111111-1111-4111-8111-111111111111'' \<noteq> [] \<and>
   req_idempotency_key card_request = Val ''11111111-1111-4111-8111-111111111111'' \<and>
   req_idempotency_key (card_request\<lparr>req_payment_method := Val ''paypal''\<rparr>) =
     Val ''11111111-1111-4111-8111-111111111111'' \<and>
   isValidUserId (req_order_id card_request) \<and>
   isValidPaymentMethod (req_payment_method card_request) \<and>
   isValidPaymentMethod (req_payment_method (card_request\<lparr>req_payment_method := Val ''paypal''\<rparr>)) \<and>
   req_payment_method (card_request\<lparr>req_payment_method := Val ''paypal''\<rparr>) \<noteq>
     req_payment_method card_request \<and>
   store_fault quiet_route = None \<and>
   idempotency_keys recorded_state =
     storeIdempotencyResponse quiet_route [] (Val ''11111111-1111-4111-8111-111111111111'')
       (route_request_data card_request) first_reply \<and>
   now later_route < now quiet_route + 86400 \<and> check_fault later_route = None \<and>
   validate_fault later_route = None \<and> sha256 later_route = sha256 quiet_route \<and>
   payment_route later_route recorded_state (card_request\<lparr>req_payment_method := Val ''paypal''\<rparr>) =
     (recorded_state, \<lparr>http_status = 409, http_body = Error_reply
        ''Idempotency key conflict: same key used with different request data''
        ''DUPLICATE_REQUEST'' None\<rparr>) \<and>
   storeIdempotencyResponse later_route (idempotency_keys recorded_state)
     (Val ''11111111-1111-4111-8111-111111111111'')
     (route_request_data (card_request\<lparr>req_payment_method := Val ''paypal''\<rparr>)) declined_reply =
     idempotency_keys recorded_state"
proof -
  let ?req2 = "card_request\<lparr>req_payment_method := Val ''paypal''\<rparr>"
  have a: "''11111111-1111-4111-8111-111111111111'' \<noteq> []"
    "req_idempotency_key card_request = Val ''11111111-1111-4111-8111-111111111111''"
    "req_idempotency_key ?req2 = Val ''11111111-1111-4111-8111-111111111111''"
    by (simp_all add: card_request_def)
  have v: "isValidUserId (req_order_id card_request)"
    "isValidPaymentMethod (req_payment_method card_request)"
    "isValidUserId (req_order_id ?req2)"
    "isValidPaymentMethod (req_payment_method ?req2)"
    by (simp_all add: card_request_def isValidUserId_def isInteger_def isValidPaymentMethod_def
        toLowerCase_def lower_char_def validMethods_def)
  have d: "req_payment_method ?req2 \<noteq> req_payment_method card_request"
    by (simp add: card_request_def)
  have f: "store_fault quiet_route = None"
    "''11111111-1111-4111-8111-111111111111'' \<notin> ik_key ` set ([] :: json idem_row list)"
    "idempotency_keys recorded_state =
     storeIdempotencyResponse quiet_route [] (Val ''11111111-1111-4111-8111-111111111111'')
       (route_request_data card_request) first_reply"
    by (simp_all add: quiet_route_def recorded_state_def storeIdempotencyResponse_def
        storeIdempotencyKey_def hashRequestData_def JSON_stringify_def json_num_def json_str_def
        route_request_data_def List.map_filter_def card_request_def Let_def)
  have s: "now later_route < now quiet_route + 86400" "check_fault later_route = None"
    "validate_fault later_route = None" "sha256 later_route = sha256 quiet_route"
    by (simp_all add: later_route_def quiet_route_def)
  have g: "sha256 quiet_route (JSON_stringify (middleware_request_data ?req2)) =
        sha256 quiet_route (JSON_stringify (route_request_data card_request)) \<longrightarrow>
      JSON_stringify (middleware_request_data ?req2) = JSON_stringify (route_request_data card_request)"
    by (simp add: quiet_route_def)
  have hyp: "''11111111-1111-4111-8111-111111111111'' \<noteq> [] \<and>
   req_idempotency_key card_request = Val ''11111111-1111-4111-8111-111111111111'' \<and>
   req_idempotency_key ?req2 = Val ''11111111-1111-4111-8111-111111111111'' \<and>
   isValidUserId (req_order_id card_request) \<and>
   isValidPaymentMethod (req_payment_method card_request) \<and>
   isValidUserId (req_order_id ?req2) \<and> isValidPaymentMethod (req_payment_method ?req2) \<and>
   (req_order_id ?req2 \<noteq> req_order_id card_request \<or>
    req_payment_method ?req2 \<noteq> req_payment_method card_request) \<and>
   store_fault quiet_route = None \<and>
   ''11111111-1111-4111-8111-111111111111'' \<notin> ik_key ` set ([] :: json idem_row list) \<and>
   idempotency_keys recorded_state =
     storeIdempotencyResponse quiet_route [] (Val ''11111111-1111-4111-8111-111111111111'')
       (route_request_data card_request) first_reply \<and>
   now later_route < now quiet_route + 86400 \<and> check_fault later_route = None \<and>
   validate_fault later_route = None \<and> sha256 later_route = sha256 quiet_route \<and>
   (sha256 quiet_route (JSON_stringify (middleware_request_data ?req2)) =
      sha256 quiet_route (JSON_stringify (route_request_data card_request)) \<longrightarrow>
    JSON_stringify (middleware_request_data ?req2) =
      JSON_stringify (route_request_data card_request))"
    using a v d f s g by (intro conjI disjI2)
  note t = mp[OF idempotency_conflict[where k = "''11111111-1111-4111-8111-111111111111''"
      and ?req1.0 = card_request and ?req2.0 = ?req2 and ?re1.0 = quiet_route
      and tbl = "[]" and st = recorded_state and ?resp1.0 = first_reply
      and ?re2.0 = later_route and ?re3.0 = later_route
      and ?rd3.0 = "route_request_data ?req2" and ?resp3.0 = declined_reply] hyp]
  have 1: "payment_route later_route recorded_state ?req2 =
     (recorded_state, \<lparr>http_status = 409, http_body = Error_reply
        ''Idempotency key conflict: same key used with different request data''
        ''DUPLICATE_REQUEST'' None\<rparr>)"
    by (rule conjunct1[OF conjunct2[OF t]])
  have 2: "storeIdempotencyResponse later_route (idempotency_keys recorded_state)
     (Val ''11111111-1111-4111-8111-111111111111'') (route_request_data ?req2) declined_reply =
     idempotency_keys recorded_state"
    by (rule conjunct2[OF conjunct2[OF t]])
  from a v(1,2,4) d f(1,3) s 1 2 show ?thesis by (intro conjI)
qed

text \<open>
  C2 as stated fails for the amount: the same request, repeated after the order's total
  has changed from 100 to 250, is not a conflict but is answered with the stored response.
\<close>

theorem changed_amount_counterexample:
  "order_fetch quiet_route = Inr (Some pending_order) \<and>
   o_total_price pending_order = Val (Fin 100) \<and>
   payment_route quiet_route empty_state card_request =
     (recorded_state, \<lparr>http_status = 200, http_body = first_reply\<rparr>) \<and>
   order_fetch changed_amount_route =
     Inr (Some (pending_order\<lparr>o_total_price := Val (Fin 250)\<rparr>)) \<and>
   payment_route changed_amount_route recorded_state card_request =
     (recorded_state, \<lparr>http_status = 200, http_body = first_reply\<rparr>)"
  using first_call replay_eval(2)
  by (simp add: payment_route_def quiet_route_def pending_order_def changed_amount_route_def)

text \<open>
  The replay itself: a request whose body carries none of \<open>user_id\<close>, \<open>items\<close> and
  \<open>total_price\<close>, repeated after its first response has been stored, is answered with the
  stored body and HTTP 200, and the state stays as it is.
\<close>

lemma replay_after_first:
  fixes re1 re2 :: "'h route_env"
  assumes k: "k \<noteq> []" "req_idempotency_key req = Val k"
      "k \<notin> ik_key ` set (idempotency_keys st0)"
    and plain: "req_user_id req = None" "req_items req = None" "req_total_price req = None"
    and first: "store_fault re1 = None" "payment_route re1 st0 req = (st1, resp1)"
      "terminal_reply (http_body resp1)"
    and second: "now re2 < now re1 + 86400" "check_fault re2 = None" "validate_fault re2 = None"
      "result_fault re2 = None" "sha256 re2 = sha256 re1"
  shows "payment_route re2 st1 req = (st1, \<lparr>http_status = 200, http_body = http_body resp1\<rparr>) \<and>
     (http_status resp1 = (if rp_status (http_body resp1) = Completed then 200 else 422))"
proof -
  from checkIdempotency_new[OF k(2,3)] first(2)
  have "payment_handler re1 st0 req = (st1, resp1)" by (simp add: payment_route_def)
  from payment_handler_terminal[OF this first(3)] obtain r where
    r: "idempotency_keys st1 = storeIdempotencyResponse re1 (idempotency_keys st0)
            (req_idempotency_key req) (route_request_data req) (response_of r)"
       "resp1 = \<lparr>http_status = (if res_status r = Completed then 200 else 422),
                  http_body = response_of r\<rparr>"
    by blast
  let ?row = "\<lparr>ik_key = k, request_hash = sha256 re1 (JSON_stringify (route_request_data req)),
      response_data = response_of r, expires_at = now re1 + 86400\<rparr>"
  from r(1) k(2) store_fresh[OF k(1) first(1) k(3)]
  have keys: "idempotency_keys st1 = idempotency_keys st0 @ [?row]" by simp
  have live: "live_rows re2 (idempotency_keys st1) k = [?row]"
    unfolding keys using live_rows_snoc[OF k(3), of ?row re2] second(1) by simp
  have hash: "sha256 re2 (JSON_stringify (middleware_request_data req)) = request_hash ?row"
    using second(5) stringify_same[OF plain] by simp
  from checkIdempotency_live[OF k(2) k(1) live second(2,3)] hash second(4)
  have "checkIdempotency re2 (idempotency_keys st1) req =
     Respond \<lparr>http_status = 200, http_body = response_of r\<rparr>"
    by simp
  then have "payment_route re2 st1 req = (st1, \<lparr>http_status = 200, http_body = response_of r\<rparr>)"
    by (simp add: payment_route_def)
  with r(2) show ?thesis by (simp add: response_of_status)
qed

lemma uid_first:
  "payment_route quiet_route empty_state uid_request =
     (recorded_state, \<lparr>http_status = 200, http_body = first_reply\<rparr>)"
  using quiet_createPayment
  by (simp add: payment_route_def checkIdempotency_def checkIdempotencyKey_def live_rows_def
      payment_handler_def card_step_def locked_payment_def redis_set_nx_def lock_held_def
      redis_del_def process_payment_def response_of_def storeIdempotencyResponse_def
      storeIdempotencyKey_def hashRequestData_def JSON_stringify_def json_num_def json_str_def
      route_request_data_def middleware_request_data_def
      List.map_filter_def quiet_route_def empty_state_def card_request_def recorded_state_def
      first_reply_def uid_request_def Let_def)

lemma uid_retry:
  "payment_route later_route recorded_state uid_request =
     (recorded_state, \<lparr>http_status = 409, http_body = Error_reply
        ''Idempotency key conflict: same key used with different request data''
        ''DUPLICATE_REQUEST'' None\<rparr>)"
  by (simp add: payment_route_def checkIdempotency_def checkIdempotencyKey_def
      validateRequestData_def
      getIdempotencyResult_def live_rows_def hashRequestData_def JSON_stringify_def
      json_num_def json_str_def middleware_request_data_def List.map_filter_def
      later_route_def quiet_route_def card_request_def uid_request_def
      recorded_state_def Let_def)

text \<open>
  C3. What the code does with a repeated request at two inputs. The reference request
  with \<open>user_id\<close> in its body completes its payment and stores its response; the route
  stores the digest of \<open>order_id\<close> and \<open>payment_method\<close>, while the middleware compares the
  digest of \<open>order_id\<close>, \<open>payment_method\<close>, \<open>user_id\<close>, \<open>items\<close> and \<open>total_price\<close>, so the
  same request sent again ten seconds later is answered 409 \<open>DUPLICATE_REQUEST\<close> and not
  with the first response. And a request whose payment the gateway declines is answered
  422; sent again, it is answered with the same body and HTTP 200.
\<close>

theorem identical_retry_conflict:
  "payment_route quiet_route empty_state uid_request =
     (recorded_state, \<lparr>http_status = 200, http_body = first_reply\<rparr>) \<and>
   payment_route later_route recorded_state uid_request =
     (recorded_state, \<lparr>http_status = 409, http_body = Error_reply
        ''Idempotency key conflict: same key used with different request data''
        ''DUPLICATE_REQUEST'' None\<rparr>) \<and>
   payment_route declined_route empty_state card_request =
     (declined_state, \<lparr>http_status = 422, http_body = declined_reply\<rparr>) \<and>
   payment_route later_route declined_state card_request =
     (declined_state, \<lparr>http_status = 200, http_body = declined_reply\<rparr>)"
  using uid_first uid_retry declined_call replay_eval(1) by (simp add: payment_route_def)

end
